theory Spec2Isabelle
  imports Complex_Main "HOL-Library.Word"
begin

unbundle bit_operations_syntax

section \<open>Conventions of the embedding\<close>

text \<open>
  The C++ sources \<^verbatim>\<open>Rasterizer.cpp\<close>, \<^verbatim>\<open>Transform.cpp\<close> and \<^verbatim>\<open>Renderer.cpp\<close> are
  embedded as follows.

  \<^item> \<^verbatim>\<open>int\<close> is \<^typ>\<open>int\<close>: signed overflow is undefined behaviour in C++, so the
    model describes the executions in which no \<^verbatim>\<open>int\<close> operation overflows.
  \<^item> \<^verbatim>\<open>uint8_t\<close> is \<^typ>\<open>8 word\<close>.
  \<^item> \<^verbatim>\<open>float\<close> has two models. In the pixel operations, the lines and circles,
    the data flow of the triangle fill and the divisors of the clipping loop
    it is \<^typ>\<open>real\<close>: exact arithmetic, without rounding, infinities and NaN;
    a division whose divisor is zero is a result of its own there. Where a
    property depends on what the compiled arithmetic returns (the shading
    terms, the depth a fill interpolates, the number of passes of the clipping
    loop) it is the type \<open>f32\<close> of binary32 values with every operation rounded.
    The shading functions are embedded on that type only; the fill and the
    clipping loop are embedded on both, on \<open>f32\<close> under their names with the
    suffix \<open>32\<close>.
  \<^item> The two heap arrays \<^verbatim>\<open>frameBuffer\<close> and \<^verbatim>\<open>depthBuffer\<close> are maps from the
    array index to the cell. The cells allocated by the constructor are
    \<open>0 \<le> i < width * height * 3\<close> and \<open>0 \<le> i < width * height\<close>; a write at any
    other index is a write outside the allocation and is visible as such.
  \<^item> Names are those of the source. Where a name is taken in HOL or occurs twice,
    it is changed: the channels \<^verbatim>\<open>r g b a\<close> of \<^verbatim>\<open>Color\<close> are \<open>red green blue alpha\<close>
    (the names of the constructor's parameters), the components \<^verbatim>\<open>x y z w\<close> of
    a glm vector are \<open>vx vy vz vw\<close>, the fields of \<^verbatim>\<open>Light\<close> and \<^verbatim>\<open>Material\<close>
    carry the prefixes \<open>l\<close> and \<open>m\<close>, and \<^verbatim>\<open>glm::dot\<close>, \<^verbatim>\<open>glm::normalize\<close>,
    \<^verbatim>\<open>glm::mix\<close> on three components are \<open>dot3\<close>, \<open>normalize3\<close>, \<open>mix3\<close>. On
    binary32 values the components are \<open>fx fy fz fw\<close> and the operations carry
    the prefix \<open>f\<close>.
  \<^item> The drawing routines reach the buffers only through \<^verbatim>\<open>setPixel\<close> and
    \<^verbatim>\<open>setPixelWithDepth\<close> and never read them back. Each routine is therefore the
    list of pixel calls it issues, in program order, and its effect on the
    rasterizer is that list run from left to right.
\<close>

section \<open>Data model (Rasterizer.h, Shaders.h)\<close>

type_synonym uint8 = "8 word"

record Color =
  red :: uint8
  green :: uint8
  blue :: uint8
  alpha :: uint8

text \<open>The constructor \<^verbatim>\<open>Color(red, green, blue, alpha = 255)\<close>.\<close>

definition mkColor :: "uint8 \<Rightarrow> uint8 \<Rightarrow> uint8 \<Rightarrow> Color" where
  "mkColor cr cg cb = \<lparr>red = cr, green = cg, blue = cb, alpha = 255\<rparr>"

record vec2 =
  vx :: real
  vy :: real

record vec3 = vec2 +
  vz :: real

record vec4 = vec3 +
  vw :: real

record Vertex =
  position :: vec4
  worldPos :: vec3
  normal :: vec3
  color :: Color

record Rasterizer =
  width :: int
  height :: int
  frameBuffer :: "int \<Rightarrow> uint8"
  depthBuffer :: "int \<Rightarrow> real"

text \<open>The cells of the two arrays that the constructor allocates.\<close>

definition frameCell :: "Rasterizer \<Rightarrow> int \<Rightarrow> bool" where
  "frameCell s i = (0 \<le> i \<and> i < width s * height s * 3)"

definition depthCell :: "Rasterizer \<Rightarrow> int \<Rightarrow> bool" where
  "depthCell s i = (0 \<le> i \<and> i < width s * height s)"

section \<open>Pixel operations (Rasterizer.cpp)\<close>

definition isInBounds :: "Rasterizer \<Rightarrow> int \<Rightarrow> int \<Rightarrow> bool" where
  "isInBounds s x y = (x \<ge> 0 \<and> x < width s \<and> y \<ge> 0 \<and> y < height s)"

definition setPixel :: "int \<Rightarrow> int \<Rightarrow> Color \<Rightarrow> Rasterizer \<Rightarrow> Rasterizer" where
  "setPixel x y c s =
     (if \<not> isInBounds s x y then s
      else let index = (y * width s + x) * 3
           in s\<lparr>frameBuffer := (frameBuffer s)
                   (index + 0 := red c, index + 1 := green c, index + 2 := blue c)\<rparr>)"

definition setPixelWithDepth :: "int \<Rightarrow> int \<Rightarrow> real \<Rightarrow> Color \<Rightarrow> Rasterizer \<Rightarrow> Rasterizer" where
  "setPixelWithDepth x y depth c s =
     (if \<not> isInBounds s x y then s
      else let index = y * width s + x
           in if depth < depthBuffer s index
              then let colorIndex = index * 3
                   in s\<lparr>depthBuffer := (depthBuffer s)(index := depth),
                        frameBuffer := (frameBuffer s)
                          (colorIndex + 0 := red c, colorIndex + 1 := green c,
                           colorIndex + 2 := blue c)\<rparr>
              else s)"

text \<open>
  A pixel call issued by a drawing routine, and the effect of a list of calls.
\<close>

datatype pixel_call =
  SetPixel int int Color
  | SetPixelWithDepth int int real Color

fun call :: "pixel_call \<Rightarrow> Rasterizer \<Rightarrow> Rasterizer" where
  "call (SetPixel x y c) s = setPixel x y c s"
| "call (SetPixelWithDepth x y depth c) s = setPixelWithDepth x y depth c s"

definition run :: "pixel_call list \<Rightarrow> Rasterizer \<Rightarrow> Rasterizer" where
  "run calls s = fold call calls s"

fun coords :: "pixel_call \<Rightarrow> int \<times> int" where
  "coords (SetPixel x y c) = (x, y)"
| "coords (SetPixelWithDepth x y depth c) = (x, y)"

fun depthTested :: "pixel_call \<Rightarrow> bool" where
  "depthTested (SetPixel x y c) = False"
| "depthTested (SetPixelWithDepth x y depth c) = True"

text \<open>The coordinates a routine passes to the pixel operations.\<close>

definition plotted :: "pixel_call list \<Rightarrow> (int \<times> int) set" where
  "plotted calls = coords ` set calls"

text \<open>
  The pixels a list of \<^verbatim>\<open>setPixel\<close> calls stores into the frame buffer: the
  coordinates that pass the bounds check of \<^const>\<open>setPixel\<close>.
\<close>

definition written :: "Rasterizer \<Rightarrow> pixel_call list \<Rightarrow> (int \<times> int) set" where
  "written s calls = {p \<in> plotted calls. isInBounds s (fst p) (snd p)}"

section \<open>clearBuffers\<close>

function clearFrameLoop :: "int \<Rightarrow> int \<Rightarrow> Color \<Rightarrow> (int \<Rightarrow> uint8) \<Rightarrow> (int \<Rightarrow> uint8)" where
  "clearFrameLoop i n clearColor fb =
     (if i < n
      then clearFrameLoop (i + 1) n clearColor
             (fb(i * 3 + 0 := red clearColor, i * 3 + 1 := green clearColor,
                 i * 3 + 2 := blue clearColor))
      else fb)"
  by pat_completeness auto
termination
  by (relation "measure (\<lambda>(i, n, c, fb). nat (n - i))") auto

function clearDepthLoop :: "int \<Rightarrow> int \<Rightarrow> (int \<Rightarrow> real) \<Rightarrow> (int \<Rightarrow> real)" where
  "clearDepthLoop i n db =
     (if i < n then clearDepthLoop (i + 1) n (db(i := 1)) else db)"
  by pat_completeness auto
termination
  by (relation "measure (\<lambda>(i, n, db). nat (n - i))") auto

definition clearBuffers :: "Color \<Rightarrow> Rasterizer \<Rightarrow> Rasterizer" where
  "clearBuffers clearColor s =
     s\<lparr>frameBuffer := clearFrameLoop 0 (width s * height s) clearColor (frameBuffer s),
       depthBuffer := clearDepthLoop 0 (width s * height s) (depthBuffer s)\<rparr>"

section \<open>Bresenham lines\<close>

function drawLineLowLoop ::
  "int \<Rightarrow> int \<Rightarrow> int \<Rightarrow> int \<Rightarrow> int \<Rightarrow> int \<Rightarrow> int \<Rightarrow> Color \<Rightarrow> pixel_call list" where
  "drawLineLowLoop x x2 y D dx dy yi c =
     (if x \<le> x2
      then SetPixel x y c #
           drawLineLowLoop (x + 1) x2 (if D > 0 then y + yi else y)
             ((if D > 0 then D - 2 * dx else D) + 2 * dy) dx dy yi c
      else [])"
  by pat_completeness auto
termination
  by (relation "measure (\<lambda>(x, x2, y, D, dx, dy, yi, c). nat (x2 + 1 - x))") auto

definition drawLineLow :: "int \<Rightarrow> int \<Rightarrow> int \<Rightarrow> int \<Rightarrow> Color \<Rightarrow> pixel_call list" where
  "drawLineLow x1 y1 x2 y2 c =
     (let dx = x2 - x1;
          dy0 = y2 - y1;
          yi = (if dy0 < 0 then - 1 else 1);
          dy = (if dy0 < 0 then - dy0 else dy0);
          D = 2 * dy - dx
      in drawLineLowLoop x1 x2 y1 D dx dy yi c)"

function drawLineHighLoop ::
  "int \<Rightarrow> int \<Rightarrow> int \<Rightarrow> int \<Rightarrow> int \<Rightarrow> int \<Rightarrow> int \<Rightarrow> Color \<Rightarrow> pixel_call list" where
  "drawLineHighLoop y y2 x D dx dy xi c =
     (if y \<le> y2
      then SetPixel x y c #
           drawLineHighLoop (y + 1) y2 (if D > 0 then x + xi else x)
             ((if D > 0 then D - 2 * dy else D) + 2 * dx) dx dy xi c
      else [])"
  by pat_completeness auto
termination
  by (relation "measure (\<lambda>(y, y2, x, D, dx, dy, xi, c). nat (y2 + 1 - y))") auto

definition drawLineHigh :: "int \<Rightarrow> int \<Rightarrow> int \<Rightarrow> int \<Rightarrow> Color \<Rightarrow> pixel_call list" where
  "drawLineHigh x1 y1 x2 y2 c =
     (let dx0 = x2 - x1;
          dy = y2 - y1;
          xi = (if dx0 < 0 then - 1 else 1);
          dx = (if dx0 < 0 then - dx0 else dx0);
          D = 2 * dx - dy
      in drawLineHighLoop y1 y2 x1 D dx dy xi c)"

definition draw_line :: "int \<Rightarrow> int \<Rightarrow> int \<Rightarrow> int \<Rightarrow> Color \<Rightarrow> pixel_call list" where
  "draw_line x1 y1 x2 y2 c =
     (if \<bar>y2 - y1\<bar> < \<bar>x2 - x1\<bar>
      then (if x1 > x2 then drawLineLow x2 y2 x1 y1 c else drawLineLow x1 y1 x2 y2 c)
      else (if y1 > y2 then drawLineHigh x2 y2 x1 y1 c else drawLineHigh x1 y1 x2 y2 c))"

section \<open>Midpoint circle\<close>

definition drawCirclePoints :: "int \<Rightarrow> int \<Rightarrow> int \<Rightarrow> int \<Rightarrow> Color \<Rightarrow> pixel_call list" where
  "drawCirclePoints xc yc x y c =
     [SetPixel (xc + x) (yc + y) c,
      SetPixel (xc - x) (yc + y) c,
      SetPixel (xc + x) (yc - y) c,
      SetPixel (xc - x) (yc - y) c,
      SetPixel (xc + y) (yc + x) c,
      SetPixel (xc - y) (yc + x) c,
      SetPixel (xc + y) (yc - x) c,
      SetPixel (xc - y) (yc - x) c]"

function draw_circle_loop :: "int \<Rightarrow> int \<Rightarrow> int \<Rightarrow> int \<Rightarrow> int \<Rightarrow> Color \<Rightarrow> pixel_call list" where
  "draw_circle_loop xc yc x y d c =
     (if x < y
      then (if d < 0
            then drawCirclePoints xc yc (x + 1) y c @
                 draw_circle_loop xc yc (x + 1) y (d + 2 * (x + 1) + 1) c
            else drawCirclePoints xc yc (x + 1) (y - 1) c @
                 draw_circle_loop xc yc (x + 1) (y - 1) (d + 2 * ((x + 1) - (y - 1)) + 1) c)
      else [])"
  by pat_completeness auto
termination
  by (relation "measure (\<lambda>(xc, yc, x, y, d, c). nat (y - x))") auto

definition draw_circle :: "int \<Rightarrow> int \<Rightarrow> int \<Rightarrow> Color \<Rightarrow> pixel_call list" where
  "draw_circle xc yc r c =
     drawCirclePoints xc yc 0 r c @ draw_circle_loop xc yc 0 r (1 - r) c"

section \<open>Numeric conversions and vector helpers\<close>

text \<open>
  \<^verbatim>\<open>static_cast<int>(f)\<close> truncates towards zero. \<^verbatim>\<open>static_cast<uint8_t>(f)\<close>
  is defined in C++ only when the truncated value lies in \<open>0..255\<close>; there the
  model agrees with it, elsewhere it reduces modulo 256.
\<close>

definition truncToInt :: "real \<Rightarrow> int" where
  "truncToInt f = (if 0 \<le> f then \<lfloor>f\<rfloor> else \<lceil>f\<rceil>)"

definition toUint8 :: "real \<Rightarrow> uint8" where
  "toUint8 f = word_of_int (truncToInt f)"

text \<open>A \<^verbatim>\<open>uint8_t\<close> channel promoted to \<^verbatim>\<open>float\<close> in an arithmetic expression.\<close>

definition chan :: "uint8 \<Rightarrow> real" where
  "chan u = real (unat u)"

text \<open>\<^verbatim>\<open>glm::mix(a, b, t) = a * (1 - t) + b * t\<close>, componentwise.\<close>

definition mix :: "real \<Rightarrow> real \<Rightarrow> real \<Rightarrow> real" where
  "mix p q t = p * (1 - t) + q * t"

definition mix3 :: "vec3 \<Rightarrow> vec3 \<Rightarrow> real \<Rightarrow> vec3" where
  "mix3 p q t = \<lparr>vx = mix (vx p) (vx q) t, vy = mix (vy p) (vy q) t, vz = mix (vz p) (vz q) t\<rparr>"

definition mix4 :: "vec4 \<Rightarrow> vec4 \<Rightarrow> real \<Rightarrow> vec4" where
  "mix4 p q t = \<lparr>vx = mix (vx p) (vx q) t, vy = mix (vy p) (vy q) t,
                 vz = mix (vz p) (vz q) t, vw = mix (vw p) (vw q) t\<rparr>"

definition dot3 :: "vec3 \<Rightarrow> vec3 \<Rightarrow> real" where
  "dot3 p q = vx p * vx q + vy p * vy q + vz p * vz q"

text \<open>
  \<^verbatim>\<open>glm::normalize(v) = v * inversesqrt(dot(v, v))\<close>. For the zero vector C++
  yields NaN components; the model yields the zero vector.
\<close>

definition normalize3 :: "vec3 \<Rightarrow> vec3" where
  "normalize3 v =
     (let k = 1 / sqrt (dot3 v v)
      in \<lparr>vx = vx v * k, vy = vy v * k, vz = vz v * k\<rparr>)"

section \<open>Filled triangles\<close>

definition computeBarycentric :: "real \<Rightarrow> real \<Rightarrow> vec2 \<Rightarrow> vec2 \<Rightarrow> vec2 \<Rightarrow> vec3" where
  "computeBarycentric x y v1 v2 v3 =
     (let denominator = (vy v2 - vy v3) * (vx v1 - vx v3) + (vx v3 - vx v2) * (vy v1 - vy v3)
      in if \<bar>denominator\<bar> < 1 / 1000000
         then \<lparr>vx = 1 / 3, vy = 1 / 3, vz = 1 / 3\<rparr>
         else let w1 = ((vy v2 - vy v3) * (x - vx v3) + (vx v3 - vx v2) * (y - vy v3)) / denominator;
                  w2 = ((vy v3 - vy v1) * (x - vx v3) + (vx v1 - vx v3) * (y - vy v3)) / denominator;
                  w3 = 1 - w1 - w2
              in \<lparr>vx = w1, vy = w2, vz = w3\<rparr>)"

text \<open>\<^verbatim>\<open>glm::vec2(v.position.x, v.position.y)\<close>.\<close>

definition screenXY :: "Vertex \<Rightarrow> vec2" where
  "screenXY v = \<lparr>vx = vx (position v), vy = vy (position v)\<rparr>"

text \<open>
  The body of the inner loop of \<^verbatim>\<open>fillFlatBottomTriangle\<close> and of
  \<^verbatim>\<open>fillFlatTopTriangle\<close> (the two bodies are the same text): the weights of
  \<open>(x, y)\<close> against the three vertices the fill was called with, the interpolated
  depth and colour, and the call of \<^verbatim>\<open>setPixelWithDepth\<close>.
\<close>

definition baryAt :: "Vertex \<Rightarrow> Vertex \<Rightarrow> Vertex \<Rightarrow> int \<Rightarrow> int \<Rightarrow> vec3" where
  "baryAt v1 v2 v3 x y =
     computeBarycentric (real_of_int x) (real_of_int y) (screenXY v1) (screenXY v2) (screenXY v3)"

definition shadePixel :: "Vertex \<Rightarrow> Vertex \<Rightarrow> Vertex \<Rightarrow> int \<Rightarrow> int \<Rightarrow> pixel_call" where
  "shadePixel v1 v2 v3 x y =
     (let bary = baryAt v1 v2 v3 x y;
          depth = vx bary * vz (position v1) + vy bary * vz (position v2)
                  + vz bary * vz (position v3);
          col = mkColor
            (toUint8 (vx bary * chan (red (color v1)) + vy bary * chan (red (color v2))
                      + vz bary * chan (red (color v3))))
            (toUint8 (vx bary * chan (green (color v1)) + vy bary * chan (green (color v2))
                      + vz bary * chan (green (color v3))))
            (toUint8 (vx bary * chan (blue (color v1)) + vy bary * chan (blue (color v2))
                      + vz bary * chan (blue (color v3))))
      in SetPixelWithDepth x y depth col)"

function scanline :: "int \<Rightarrow> int \<Rightarrow> int \<Rightarrow> Vertex \<Rightarrow> Vertex \<Rightarrow> Vertex \<Rightarrow> pixel_call list" where
  "scanline x xEnd y v1 v2 v3 =
     (if x < xEnd then shadePixel v1 v2 v3 x y # scanline (x + 1) xEnd y v1 v2 v3 else [])"
  by pat_completeness auto
termination
  by (relation "measure (\<lambda>(x, xEnd, y, v1, v2, v3). nat (xEnd - x))") auto

function flatBottomRows ::
  "int \<Rightarrow> int \<Rightarrow> real \<Rightarrow> real \<Rightarrow> real \<Rightarrow> real \<Rightarrow> Vertex \<Rightarrow> Vertex \<Rightarrow> Vertex \<Rightarrow> pixel_call list" where
  "flatBottomRows y endY x1 x2 invSlope1 invSlope2 v1 v2 v3 =
     (if y < endY
      then scanline \<lceil>x1\<rceil> \<lceil>x2\<rceil> y v1 v2 v3 @
           flatBottomRows (y + 1) endY (x1 + invSlope1) (x2 + invSlope2) invSlope1 invSlope2 v1 v2 v3
      else [])"
  by pat_completeness auto
termination
  by (relation "measure (\<lambda>(y, endY, x1, x2, i1, i2, v1, v2, v3). nat (endY - y))") auto

definition fillFlatBottomTriangle :: "Vertex \<Rightarrow> Vertex \<Rightarrow> Vertex \<Rightarrow> bool \<Rightarrow> pixel_call list" where
  "fillFlatBottomTriangle v1 v2 v3 useGouraud =
     (let invSlope1 = (vx (position v2) - vx (position v1)) / (vy (position v2) - vy (position v1));
          invSlope2 = (vx (position v3) - vx (position v1)) / (vy (position v3) - vy (position v1));
          x1 = vx (position v1);
          x2 = vx (position v1);
          startY = \<lceil>vy (position v1)\<rceil>;
          endY = \<lceil>vy (position v2)\<rceil>
      in flatBottomRows startY endY x1 x2 invSlope1 invSlope2 v1 v2 v3)"

function flatTopRows ::
  "int \<Rightarrow> int \<Rightarrow> real \<Rightarrow> real \<Rightarrow> real \<Rightarrow> real \<Rightarrow> Vertex \<Rightarrow> Vertex \<Rightarrow> Vertex \<Rightarrow> pixel_call list" where
  "flatTopRows y endY x1 x2 invSlope1 invSlope2 v1 v2 v3 =
     (if y > endY
      then scanline \<lceil>x1\<rceil> \<lceil>x2\<rceil> y v1 v2 v3 @
           flatTopRows (y - 1) endY (x1 - invSlope1) (x2 - invSlope2) invSlope1 invSlope2 v1 v2 v3
      else [])"
  by pat_completeness auto
termination
  by (relation "measure (\<lambda>(y, endY, x1, x2, i1, i2, v1, v2, v3). nat (y - endY))") auto

definition fillFlatTopTriangle :: "Vertex \<Rightarrow> Vertex \<Rightarrow> Vertex \<Rightarrow> bool \<Rightarrow> pixel_call list" where
  "fillFlatTopTriangle v1 v2 v3 useGouraud =
     (let invSlope1 = (vx (position v3) - vx (position v1)) / (vy (position v3) - vy (position v1));
          invSlope2 = (vx (position v3) - vx (position v2)) / (vy (position v3) - vy (position v2));
          x1 = vx (position v3);
          x2 = vx (position v3);
          startY = \<lceil>vy (position v3)\<rceil>;
          endY = \<lceil>vy (position v1)\<rceil>
      in flatTopRows startY endY x1 x2 invSlope1 invSlope2 v1 v2 v3)"

text \<open>
  \<^verbatim>\<open>std::sort\<close> with the comparator \<^verbatim>\<open>a.position.y < b.position.y\<close> on three
  elements. The order of vertices with equal \<open>y\<close> is not fixed by the C++
  standard; the model keeps their input order, as the insertion sort that
  common standard libraries run on short ranges does.
\<close>

definition sortByY :: "Vertex list \<Rightarrow> Vertex list" where
  "sortByY verts = sort_key (\<lambda>v. vy (position v)) verts"

text \<open>The synthetic vertex on the edge from the top to the bottom vertex at the height of the middle one.\<close>

definition splitVertex :: "Vertex \<Rightarrow> Vertex \<Rightarrow> Vertex \<Rightarrow> Vertex" where
  "splitVertex vtop vmid vbot =
     (let t = (vy (position vmid) - vy (position vtop)) / (vy (position vbot) - vy (position vtop))
      in \<lparr>position = mix4 (position vtop) (position vbot) t,
          worldPos = mix3 (worldPos vtop) (worldPos vbot) t,
          normal = normalize3 (mix3 (normal vtop) (normal vbot) t),
          color = mkColor
            (toUint8 (chan (red (color vtop)) * (1 - t) + chan (red (color vbot)) * t))
            (toUint8 (chan (green (color vtop)) * (1 - t) + chan (green (color vbot)) * t))
            (toUint8 (chan (blue (color vtop)) * (1 - t) + chan (blue (color vbot)) * t))\<rparr>)"

definition drawTriangle :: "Vertex \<Rightarrow> Vertex \<Rightarrow> Vertex \<Rightarrow> bool \<Rightarrow> pixel_call list" where
  "drawTriangle v1 v2 v3 useGouraud =
     (let verts = sortByY [v1, v2, v3];
          vtop = verts ! 0;
          vmid = verts ! 1;
          vbot = verts ! 2
      in if vy (position vtop) = vy (position vbot) then []
         else if vy (position vmid) = vy (position vbot)
              then fillFlatBottomTriangle vtop vmid vbot useGouraud
         else if vy (position vtop) = vy (position vmid)
              then fillFlatTopTriangle vtop vmid vbot useGouraud
         else fillFlatBottomTriangle vtop vmid (splitVertex vtop vmid vbot) useGouraud @
              fillFlatTopTriangle vmid (splitVertex vtop vmid vbot) vbot useGouraud)"

section \<open>Wireframe triangles\<close>

definition drawWireframeTriangle :: "Vertex \<Rightarrow> Vertex \<Rightarrow> Vertex \<Rightarrow> Color \<Rightarrow> pixel_call list" where
  "drawWireframeTriangle v1 v2 v3 c =
     (let x1 = truncToInt (vx (position v1));
          y1 = truncToInt (vy (position v1));
          x2 = truncToInt (vx (position v2));
          y2 = truncToInt (vy (position v2));
          x3 = truncToInt (vx (position v3));
          y3 = truncToInt (vy (position v3))
      in draw_line x1 y1 x2 y2 c @ draw_line x2 y2 x3 y3 c @ draw_line x3 y3 x1 y1 c)"

section \<open>Draw calls of the public interface\<close>

datatype draw_call =
  DrawLine int int int int Color
  | DrawCircle int int int Color
  | DrawTriangle Vertex Vertex Vertex bool
  | DrawWireframeTriangle Vertex Vertex Vertex Color

fun draw :: "draw_call \<Rightarrow> pixel_call list" where
  "draw (DrawLine x1 y1 x2 y2 c) = draw_line x1 y1 x2 y2 c"
| "draw (DrawCircle xc yc r c) = draw_circle xc yc r c"
| "draw (DrawTriangle v1 v2 v3 useGouraud) = drawTriangle v1 v2 v3 useGouraud"
| "draw (DrawWireframeTriangle v1 v2 v3 c) = drawWireframeTriangle v1 v2 v3 c"

section \<open>Observations and sample values\<close>

text \<open>The three colour bytes and the depth cell of the pixel \<open>(x, y)\<close>.\<close>

definition pixelAt :: "Rasterizer \<Rightarrow> int \<Rightarrow> int \<Rightarrow> uint8 \<times> uint8 \<times> uint8" where
  "pixelAt s x y =
     (frameBuffer s ((y * width s + x) * 3), frameBuffer s ((y * width s + x) * 3 + 1),
      frameBuffer s ((y * width s + x) * 3 + 2))"

definition depthAt :: "Rasterizer \<Rightarrow> int \<Rightarrow> int \<Rightarrow> real" where
  "depthAt s x y = depthBuffer s (y * width s + x)"

definition rgb :: "Color \<Rightarrow> uint8 \<times> uint8 \<times> uint8" where
  "rgb c = (red c, green c, blue c)"

text \<open>The sixteen offsets of the radius-3 midpoint circle.\<close>

definition circle3 :: "(int \<times> int) set" where
  "circle3 = {(3,0),(-3,0),(0,3),(0,-3),(1,3),(-1,3),(1,-3),(-1,-3),
              (3,1),(-3,1),(3,-1),(-3,-1),(2,2),(-2,2),(2,-2),(-2,-2)}"

text \<open>An 8 by 8 rasterizer with black pixels and far depth, and the colour white.\<close>

definition raster8 :: Rasterizer where
  "raster8 = \<lparr>width = 8, height = 8, frameBuffer = (\<lambda>i. 0), depthBuffer = (\<lambda>i. 1)\<rparr>"

definition white :: Color where
  "white = mkColor 255 255 255"

section \<open>Auxiliary notions for the triangle fill\<close>

text \<open>The three vertices after sorting: \<^verbatim>\<open>verts[0]\<close>, \<^verbatim>\<open>verts[1]\<close>, \<^verbatim>\<open>verts[2]\<close>.\<close>

definition vtopOf :: "Vertex \<Rightarrow> Vertex \<Rightarrow> Vertex \<Rightarrow> Vertex" where
  "vtopOf v1 v2 v3 = sortByY [v1, v2, v3] ! 0"

definition vmidOf :: "Vertex \<Rightarrow> Vertex \<Rightarrow> Vertex \<Rightarrow> Vertex" where
  "vmidOf v1 v2 v3 = sortByY [v1, v2, v3] ! 1"

definition vbotOf :: "Vertex \<Rightarrow> Vertex \<Rightarrow> Vertex \<Rightarrow> Vertex" where
  "vbotOf v1 v2 v3 = sortByY [v1, v2, v3] ! 2"

text \<open>Calls that all carry the depth \<open>z\<close>.\<close>

definition allDepth :: "real \<Rightarrow> pixel_call list \<Rightarrow> bool" where
  "allDepth z ks = (\<forall>k \<in> set ks. \<exists>x y c. k = SetPixelWithDepth x y z c)"

text \<open>Every pixel inside the bounds is at least as far as \<open>z\<close>.\<close>

definition noNearerThan :: "real \<Rightarrow> Rasterizer \<Rightarrow> bool" where
  "noNearerThan z s = (\<forall>x y. isInBounds s x y \<longrightarrow> z \<le> depthAt s x y)"

text \<open>
  A triangle at depth 0.2 that \<^const>\<open>drawTriangle\<close> splits at its middle vertex:
  top \<open>(8, 0)\<close>, middle \<open>(0, 4)\<close>, bottom \<open>(8, 8)\<close>, black except for red 7 at the
  bottom vertex. All its coordinates, and every intermediate value of the fill
  at the pixel \<open>(7, 3)\<close>, are dyadic fractions, so \<^verbatim>\<open>float\<close> arithmetic is exact
  on them.
\<close>

definition triA :: Vertex where
  "triA = \<lparr>position = \<lparr>vx = 8, vy = 0, vz = 1 / 5, vw = 1\<rparr>,
           worldPos = \<lparr>vx = 0, vy = 0, vz = 0\<rparr>, normal = \<lparr>vx = 0, vy = 0, vz = 1\<rparr>,
           color = mkColor 0 0 0\<rparr>"

definition triM :: Vertex where
  "triM = \<lparr>position = \<lparr>vx = 0, vy = 4, vz = 1 / 5, vw = 1\<rparr>,
           worldPos = \<lparr>vx = 0, vy = 0, vz = 0\<rparr>, normal = \<lparr>vx = 0, vy = 0, vz = 1\<rparr>,
           color = mkColor 0 0 0\<rparr>"

definition triB :: Vertex where
  "triB = \<lparr>position = \<lparr>vx = 8, vy = 8, vz = 1 / 5, vw = 1\<rparr>,
           worldPos = \<lparr>vx = 0, vy = 0, vz = 0\<rparr>, normal = \<lparr>vx = 0, vy = 0, vz = 1\<rparr>,
           color = mkColor 7 0 0\<rparr>"

section \<open>Cohen-Sutherland line clipping (Transform.h, Transform.cpp)\<close>

text \<open>The enumerators of \<^verbatim>\<open>enum ClipCode\<close>, used as \<^verbatim>\<open>int\<close> bit masks.\<close>

definition INSIDE :: int where "INSIDE = 0"
definition LEFT :: int where "LEFT = 1"
definition RIGHT :: int where "RIGHT = 2"
definition BOTTOM :: int where "BOTTOM = 4"
definition TOP :: int where "TOP = 8"

definition computeOutCode :: "real \<Rightarrow> real \<Rightarrow> real \<Rightarrow> real \<Rightarrow> real \<Rightarrow> real \<Rightarrow> int" where
  "computeOutCode x y xMin yMin xMax yMax =
     (let code = INSIDE;
          code = (if x < xMin then code OR LEFT
                  else if x > xMax then code OR RIGHT
                  else code);
          code = (if y < yMin then code OR BOTTOM
                  else if y > yMax then code OR TOP
                  else code)
      in code)"

text \<open>The variables of the loop of \<^verbatim>\<open>clipLine\<close>: the two endpoints and their region codes.\<close>

record ClipState =
  px1 :: real
  py1 :: real
  px2 :: real
  py2 :: real
  code1 :: int
  code2 :: int

text \<open>
  What the real-number model cannot express is reported: a division by zero in
  an intersection formula (an infinity or NaN in C++), and the use of \<^verbatim>\<open>x\<close> and
  \<^verbatim>\<open>y\<close> when none of the four branches assigned them.
\<close>

datatype clip_fault = DivisionByZero | UninitializedPoint

text \<open>
  The intersection point computed for the outcode \<open>codeOut\<close>; the branches are
  tried in the order TOP, BOTTOM, RIGHT, LEFT.
\<close>

definition intersect ::
  "int \<Rightarrow> real \<Rightarrow> real \<Rightarrow> real \<Rightarrow> real \<Rightarrow> real \<Rightarrow> real \<Rightarrow> real \<Rightarrow> real \<Rightarrow> clip_fault + real \<times> real" where
  "intersect codeOut x1 y1 x2 y2 xMin yMin xMax yMax =
     (if codeOut AND TOP \<noteq> 0
      then (if y2 - y1 = 0 then Inl DivisionByZero
            else Inr (x1 + (x2 - x1) * (yMax - y1) / (y2 - y1), yMax))
      else if codeOut AND BOTTOM \<noteq> 0
      then (if y2 - y1 = 0 then Inl DivisionByZero
            else Inr (x1 + (x2 - x1) * (yMin - y1) / (y2 - y1), yMin))
      else if codeOut AND RIGHT \<noteq> 0
      then (if x2 - x1 = 0 then Inl DivisionByZero
            else Inr (xMax, y1 + (y2 - y1) * (xMax - x1) / (x2 - x1)))
      else if codeOut AND LEFT \<noteq> 0
      then (if x2 - x1 = 0 then Inl DivisionByZero
            else Inr (xMin, y1 + (y2 - y1) * (xMin - x1) / (x2 - x1)))
      else Inl UninitializedPoint)"

text \<open>
  One pass through the \<^verbatim>\<open>else\<close> branch of the loop body: pick the endpoint
  that is outside, intersect, replace the endpoint and recompute its code.
\<close>

definition clipStep :: "real \<Rightarrow> real \<Rightarrow> real \<Rightarrow> real \<Rightarrow> ClipState \<Rightarrow> clip_fault + ClipState" where
  "clipStep xMin yMin xMax yMax st =
     (let codeOut = (if code1 st \<noteq> 0 then code1 st else code2 st)
      in case intersect codeOut (px1 st) (py1 st) (px2 st) (py2 st) xMin yMin xMax yMax of
           Inl f \<Rightarrow> Inl f
         | Inr (x, y) \<Rightarrow>
             if codeOut = code1 st
             then Inr (st\<lparr>px1 := x, py1 := y, code1 := computeOutCode x y xMin yMin xMax yMax\<rparr>)
             else Inr (st\<lparr>px2 := x, py2 := y, code2 := computeOutCode x y xMin yMin xMax yMax\<rparr>))"

text \<open>
  The result of \<^verbatim>\<open>clipLine\<close>: the returned flag and the four reference
  parameters as the call leaves them, a fault, or the loop still running when
  the allowed number of clipping passes is used up.
\<close>

datatype clip_result =
  Finished bool real real real real
  | Fault clip_fault
  | StillClipping

text \<open>
  The \<^verbatim>\<open>while (true)\<close> loop. The first argument bounds the number of passes
  through the clipping branch; the two trivial exits need none.
\<close>

fun clipLoop :: "nat \<Rightarrow> real \<Rightarrow> real \<Rightarrow> real \<Rightarrow> real \<Rightarrow> ClipState \<Rightarrow> clip_result" where
  "clipLoop 0 xMin yMin xMax yMax st =
     (if (code1 st OR code2 st) = 0
      then Finished True (px1 st) (py1 st) (px2 st) (py2 st)
      else if code1 st AND code2 st \<noteq> 0
      then Finished False (px1 st) (py1 st) (px2 st) (py2 st)
      else StillClipping)"
| "clipLoop (Suc n) xMin yMin xMax yMax st =
     (if (code1 st OR code2 st) = 0
      then Finished True (px1 st) (py1 st) (px2 st) (py2 st)
      else if code1 st AND code2 st \<noteq> 0
      then Finished False (px1 st) (py1 st) (px2 st) (py2 st)
      else case clipStep xMin yMin xMax yMax st of
             Inl f \<Rightarrow> Fault f
           | Inr st' \<Rightarrow> clipLoop n xMin yMin xMax yMax st')"

definition clipLine ::
  "nat \<Rightarrow> real \<Rightarrow> real \<Rightarrow> real \<Rightarrow> real \<Rightarrow> real \<Rightarrow> real \<Rightarrow> real \<Rightarrow> real \<Rightarrow> clip_result" where
  "clipLine passes x1 y1 x2 y2 xMin yMin xMax yMax =
     clipLoop passes xMin yMin xMax yMax
       \<lparr>px1 = x1, py1 = y1, px2 = x2, py2 = y2,
        code1 = computeOutCode x1 y1 xMin yMin xMax yMax,
        code2 = computeOutCode x2 y2 xMin yMin xMax yMax\<rparr>"

text \<open>The four bits of a region code as conditions on the point.\<close>

definition isLeft :: "real \<Rightarrow> real \<Rightarrow> bool" where
  "isLeft x xMin = (x < xMin)"

definition isRight :: "real \<Rightarrow> real \<Rightarrow> real \<Rightarrow> bool" where
  "isRight x xMin xMax = (\<not> x < xMin \<and> x > xMax)"

definition isBottom :: "real \<Rightarrow> real \<Rightarrow> bool" where
  "isBottom y yMin = (y < yMin)"

definition isTop :: "real \<Rightarrow> real \<Rightarrow> real \<Rightarrow> bool" where
  "isTop y yMin yMax = (\<not> y < yMin \<and> y > yMax)"

text \<open>The region codes of a loop state are those of its endpoints.\<close>

definition codesOk :: "real \<Rightarrow> real \<Rightarrow> real \<Rightarrow> real \<Rightarrow> ClipState \<Rightarrow> bool" where
  "codesOk xMin yMin xMax yMax st =
     (code1 st = computeOutCode (px1 st) (py1 st) xMin yMin xMax yMax
      \<and> code2 st = computeOutCode (px2 st) (py2 st) xMin yMin xMax yMax)"

text \<open>The number of sides of the rectangle that at least one endpoint is outside of.\<close>

definition sidesViolated :: "real \<Rightarrow> real \<Rightarrow> real \<Rightarrow> real \<Rightarrow> ClipState \<Rightarrow> nat" where
  "sidesViolated xMin yMin xMax yMax st =
     of_bool (isLeft (px1 st) xMin \<or> isLeft (px2 st) xMin)
     + of_bool (isRight (px1 st) xMin xMax \<or> isRight (px2 st) xMin xMax)
     + of_bool (isBottom (py1 st) yMin \<or> isBottom (py2 st) yMin)
     + of_bool (isTop (py1 st) yMin yMax \<or> isTop (py2 st) yMin yMax)"

section \<open>Binary32 arithmetic\<close>

text \<open>
  The C++ type \<^verbatim>\<open>float\<close> as the compiled program has it: IEEE 754 binary32,
  every operation rounded to the nearest value, ties to the even significand,
  and each operation rounded on its own (no fused multiply-add, no wider
  intermediate format). A finite value is the real number it denotes; the
  operations return binary32 values, and the literals of the sources enter
  through \<open>round32\<close>. The two infinities and NaN are values of their own. The
  sign of a zero is not represented: where IEEE arithmetic distinguishes \<open>-0\<close>
  from \<open>+0\<close> (a division of a nonzero value by \<open>-0\<close>), the model takes \<open>+0\<close>.
\<close>

datatype f32 = Fin real | PInf | MInf | NaN

definition pow2 :: "int \<Rightarrow> real" where
  "pow2 k = (if 0 \<le> k then 2 ^ nat k else 1 / 2 ^ nat (- k))"

text \<open>
  The exponent of a positive real \<open>r\<close>: the \<open>e\<close> with \<open>2^e \<le> r < 2^(e+1)\<close>, kept
  within the exponent range \<open>-126 .. 127\<close> of binary32 (below it the values are
  subnormal and share the exponent \<open>-126\<close>).
\<close>

function expoUp :: "real \<Rightarrow> int \<Rightarrow> int" where
  "expoUp r e = (if 2 \<le> r \<and> e < 127 then expoUp (r / 2) (e + 1) else e)"
  by pat_completeness auto
termination
  by (relation "measure (\<lambda>(r, e). nat (127 - e))") auto

function expoDown :: "real \<Rightarrow> int \<Rightarrow> int" where
  "expoDown r e = (if r < 1 \<and> - 126 < e then expoDown (r * 2) (e - 1) else e)"
  by pat_completeness auto
termination
  by (relation "measure (\<lambda>(r, e). nat (e + 126))") auto

definition expo :: "real \<Rightarrow> int" where
  "expo r = (if 1 \<le> r then expoUp r 0 else expoDown r 0)"

text \<open>The integer nearest to \<open>m\<close>, the even one of two that are equally near.\<close>

definition roundEven :: "real \<Rightarrow> int" where
  "roundEven m =
     (let n = \<lfloor>m\<rfloor>; d = m - of_int n
      in if d < 1 / 2 then n else if 1 / 2 < d then n + 1 else if even n then n else n + 1)"

text \<open>
  Rounding of a real to binary32: the nearest multiple of \<open>2^(e - 23)\<close>, where
  \<open>e\<close> is the exponent of the real, and an infinity when that multiple reaches
  \<open>2^128\<close>.
\<close>

definition round32 :: "real \<Rightarrow> f32" where
  "round32 r =
     (if r = 0 then Fin 0
      else let q = expo \<bar>r\<bar> - 23;
               v = of_int (roundEven (\<bar>r\<bar> / pow2 q)) * pow2 q
           in if pow2 128 \<le> v then (if 0 < r then PInf else MInf)
              else Fin (if 0 < r then v else - v))"

fun fneg :: "f32 \<Rightarrow> f32" where
  "fneg (Fin a) = Fin (- a)"
| "fneg PInf = MInf"
| "fneg MInf = PInf"
| "fneg NaN = NaN"

fun fadd :: "f32 \<Rightarrow> f32 \<Rightarrow> f32" where
  "fadd (Fin a) (Fin b) = round32 (a + b)"
| "fadd NaN b = NaN"
| "fadd a NaN = NaN"
| "fadd PInf MInf = NaN"
| "fadd MInf PInf = NaN"
| "fadd PInf b = PInf"
| "fadd a PInf = PInf"
| "fadd MInf b = MInf"
| "fadd a MInf = MInf"

definition fsub :: "f32 \<Rightarrow> f32 \<Rightarrow> f32" where
  "fsub a b = fadd a (fneg b)"

text \<open>The infinity with the sign of \<open>s\<close>; NaN for \<open>s = 0\<close>.\<close>

definition signedInf :: "real \<Rightarrow> f32" where
  "signedInf s = (if 0 < s then PInf else if s < 0 then MInf else NaN)"

fun fmul :: "f32 \<Rightarrow> f32 \<Rightarrow> f32" where
  "fmul (Fin a) (Fin b) = round32 (a * b)"
| "fmul NaN b = NaN"
| "fmul a NaN = NaN"
| "fmul PInf (Fin b) = signedInf b"
| "fmul MInf (Fin b) = signedInf (- b)"
| "fmul (Fin a) PInf = signedInf a"
| "fmul (Fin a) MInf = signedInf (- a)"
| "fmul PInf PInf = PInf"
| "fmul MInf MInf = PInf"
| "fmul PInf MInf = MInf"
| "fmul MInf PInf = MInf"

fun fdiv :: "f32 \<Rightarrow> f32 \<Rightarrow> f32" where
  "fdiv (Fin a) (Fin b) = (if b = 0 then signedInf a else round32 (a / b))"
| "fdiv NaN b = NaN"
| "fdiv a NaN = NaN"
| "fdiv (Fin a) PInf = Fin 0"
| "fdiv (Fin a) MInf = Fin 0"
| "fdiv PInf (Fin b) = (if 0 \<le> b then PInf else MInf)"
| "fdiv MInf (Fin b) = (if 0 \<le> b then MInf else PInf)"
| "fdiv PInf b = NaN"
| "fdiv MInf b = NaN"

text \<open>The comparisons \<^verbatim>\<open><\<close>, \<^verbatim>\<open>>\<close>, \<^verbatim>\<open><=\<close> and \<^verbatim>\<open>==\<close>; each is false when an operand is NaN.\<close>

fun flt :: "f32 \<Rightarrow> f32 \<Rightarrow> bool" where
  "flt (Fin a) (Fin b) = (a < b)"
| "flt NaN b = False"
| "flt a NaN = False"
| "flt a MInf = False"
| "flt MInf b = True"
| "flt PInf b = False"
| "flt a PInf = True"

definition fgt :: "f32 \<Rightarrow> f32 \<Rightarrow> bool" where
  "fgt a b = flt b a"

definition feq :: "f32 \<Rightarrow> f32 \<Rightarrow> bool" where
  "feq a b = (a \<noteq> NaN \<and> a = b)"

definition fle :: "f32 \<Rightarrow> f32 \<Rightarrow> bool" where
  "fle a b = (flt a b \<or> feq a b)"

text \<open>\<^verbatim>\<open>std::abs\<close> and \<^verbatim>\<open>std::sqrt\<close>.\<close>

fun fabs :: "f32 \<Rightarrow> f32" where
  "fabs (Fin a) = Fin \<bar>a\<bar>"
| "fabs PInf = PInf"
| "fabs MInf = PInf"
| "fabs NaN = NaN"

fun fsqrt :: "f32 \<Rightarrow> f32" where
  "fsqrt (Fin a) = (if a < 0 then NaN else round32 (sqrt a))"
| "fsqrt PInf = PInf"
| "fsqrt MInf = NaN"
| "fsqrt NaN = NaN"

text \<open>
  \<^verbatim>\<open>std::max(a, b)\<close> is \<^verbatim>\<open>(a < b) ? b : a\<close>; \<^verbatim>\<open>glm::max(x, y)\<close> is
  \<^verbatim>\<open>(x < y) ? y : x\<close> and \<^verbatim>\<open>glm::min(x, y)\<close> is \<^verbatim>\<open>(y < x) ? y : x\<close>. With a NaN
  operand each returns its first argument.
\<close>

definition fmax :: "f32 \<Rightarrow> f32 \<Rightarrow> f32" where
  "fmax a b = (if flt a b then b else a)"

definition fmin :: "f32 \<Rightarrow> f32 \<Rightarrow> f32" where
  "fmin a b = (if flt b a then b else a)"

text \<open>
  \<^verbatim>\<open>std::pow(b, e)\<close> for a base that is zero, positive, \<open>+\<infinity>\<close> or NaN, the only
  bases the shader passes (the base is a \<^verbatim>\<open>std::max(..., 0.0f)\<close>). The special
  cases are those of the C standard. For a positive finite base and a finite
  exponent the model takes the correctly rounded power, of which a library
  result may be a neighbour. Negative bases are given NaN.
\<close>

fun powf :: "f32 \<Rightarrow> f32 \<Rightarrow> f32" where
  "powf b (Fin e) =
     (if e = 0 then Fin 1
      else case b of
             Fin x \<Rightarrow> (if x = 0 then (if 0 < e then Fin 0 else PInf)
                       else if 0 < x then round32 (x powr e) else NaN)
           | PInf \<Rightarrow> (if 0 < e then PInf else Fin 0)
           | MInf \<Rightarrow> NaN
           | NaN \<Rightarrow> NaN)"
| "powf b PInf =
     (case b of
        Fin x \<Rightarrow> (if x < 0 then NaN else if x < 1 then Fin 0 else if x = 1 then Fin 1 else PInf)
      | PInf \<Rightarrow> PInf
      | MInf \<Rightarrow> NaN
      | NaN \<Rightarrow> NaN)"
| "powf b MInf =
     (case b of
        Fin x \<Rightarrow> (if x < 0 then NaN else if x < 1 then PInf else if x = 1 then Fin 1 else Fin 0)
      | PInf \<Rightarrow> Fin 0
      | MInf \<Rightarrow> NaN
      | NaN \<Rightarrow> NaN)"
| "powf b NaN = (if b = Fin 1 then Fin 1 else NaN)"

text \<open>
  Conversions. \<^verbatim>\<open>static_cast<float>(i)\<close> rounds; a \<^verbatim>\<open>uint8_t\<close> channel is
  promoted exactly. \<^verbatim>\<open>static_cast<uint8_t>(f)\<close> and \<^verbatim>\<open>static_cast<int>(f)\<close>
  truncate towards zero and are undefined in C++ when \<open>f\<close> is not finite or the
  truncated value is outside the range of the target type: the model returns
  \<^const>\<open>None\<close> there.
\<close>

definition floatOfInt :: "int \<Rightarrow> f32" where
  "floatOfInt i = round32 (of_int i)"

definition chan32 :: "uint8 \<Rightarrow> f32" where
  "chan32 u = Fin (real (unat u))"

fun castUint8 :: "f32 \<Rightarrow> uint8 option" where
  "castUint8 (Fin a) =
     (if 0 \<le> truncToInt a \<and> truncToInt a \<le> 255 then Some (word_of_int (truncToInt a)) else None)"
| "castUint8 PInf = None"
| "castUint8 MInf = None"
| "castUint8 NaN = None"

fun castInt :: "f32 \<Rightarrow> int option" where
  "castInt (Fin a) =
     (if - (2 ^ 31) \<le> truncToInt a \<and> truncToInt a < 2 ^ 31 then Some (truncToInt a) else None)"
| "castInt PInf = None"
| "castInt MInf = None"
| "castInt NaN = None"

text \<open>\<^verbatim>\<open>std::ceil\<close>: the result is an integer value of the same type.\<close>

fun fceil :: "f32 \<Rightarrow> f32" where
  "fceil (Fin a) = Fin (of_int \<lceil>a\<rceil>)"
| "fceil PInf = PInf"
| "fceil MInf = MInf"
| "fceil NaN = NaN"


section \<open>Binary32 vectors (glm)\<close>

record fvec2 =
  fx :: f32
  fy :: f32

record fvec3 = fvec2 +
  fz :: f32

record fvec4 = fvec3 +
  fw :: f32

text \<open>The operators of \<^verbatim>\<open>glm::vec3\<close>: sum, difference, componentwise product, scaling.\<close>

definition vadd :: "fvec3 \<Rightarrow> fvec3 \<Rightarrow> fvec3" where
  "vadd p q = \<lparr>fx = fadd (fx p) (fx q), fy = fadd (fy p) (fy q), fz = fadd (fz p) (fz q)\<rparr>"

definition vsub :: "fvec3 \<Rightarrow> fvec3 \<Rightarrow> fvec3" where
  "vsub p q = \<lparr>fx = fsub (fx p) (fx q), fy = fsub (fy p) (fy q), fz = fsub (fz p) (fz q)\<rparr>"

definition vmul :: "fvec3 \<Rightarrow> fvec3 \<Rightarrow> fvec3" where
  "vmul p q = \<lparr>fx = fmul (fx p) (fx q), fy = fmul (fy p) (fy q), fz = fmul (fz p) (fz q)\<rparr>"

definition vscale :: "fvec3 \<Rightarrow> f32 \<Rightarrow> fvec3" where
  "vscale p k = \<lparr>fx = fmul (fx p) k, fy = fmul (fy p) k, fz = fmul (fz p) k\<rparr>"

definition vzero :: fvec3 where
  "vzero = \<lparr>fx = Fin 0, fy = Fin 0, fz = Fin 0\<rparr>"

text \<open>\<^verbatim>\<open>glm::dot(p, q)\<close>: the three products, summed from left to right.\<close>

definition fdot3 :: "fvec3 \<Rightarrow> fvec3 \<Rightarrow> f32" where
  "fdot3 p q = fadd (fadd (fmul (fx p) (fx q)) (fmul (fy p) (fy q))) (fmul (fz p) (fz q))"

text \<open>
  \<^verbatim>\<open>glm::normalize(v) = v * inversesqrt(dot(v, v))\<close> with
  \<^verbatim>\<open>inversesqrt(x) = 1 / sqrt(x)\<close>. For the zero vector the factor is
  \<open>1 / 0 = +\<infinity>\<close> and every component is \<open>0 * \<infinity> = NaN\<close>.
\<close>

definition fnormalize3 :: "fvec3 \<Rightarrow> fvec3" where
  "fnormalize3 v = vscale v (fdiv (Fin 1) (fsqrt (fdot3 v v)))"

text \<open>\<^verbatim>\<open>glm::clamp(v, lo, hi) = min(max(v, lo), hi)\<close>, componentwise.\<close>

definition clamp3 :: "fvec3 \<Rightarrow> f32 \<Rightarrow> f32 \<Rightarrow> fvec3" where
  "clamp3 v lo hi = \<lparr>fx = fmin (fmax (fx v) lo) hi, fy = fmin (fmax (fy v) lo) hi,
                      fz = fmin (fmax (fz v) lo) hi\<rparr>"

text \<open>\<^verbatim>\<open>glm::mix(p, q, t) = p * (1 - t) + q * t\<close>, componentwise.\<close>

definition fmix :: "f32 \<Rightarrow> f32 \<Rightarrow> f32 \<Rightarrow> f32" where
  "fmix p q t = fadd (fmul p (fsub (Fin 1) t)) (fmul q t)"

definition fmix3 :: "fvec3 \<Rightarrow> fvec3 \<Rightarrow> f32 \<Rightarrow> fvec3" where
  "fmix3 p q t = \<lparr>fx = fmix (fx p) (fx q) t, fy = fmix (fy p) (fy q) t, fz = fmix (fz p) (fz q) t\<rparr>"

definition fmix4 :: "fvec4 \<Rightarrow> fvec4 \<Rightarrow> f32 \<Rightarrow> fvec4" where
  "fmix4 p q t = \<lparr>fx = fmix (fx p) (fx q) t, fy = fmix (fy p) (fy q) t,
                  fz = fmix (fz p) (fz q) t, fw = fmix (fw p) (fw q) t\<rparr>"

text \<open>Every component is a finite value.\<close>

definition isFin :: "f32 \<Rightarrow> bool" where
  "isFin a = (case a of Fin r \<Rightarrow> True | _ \<Rightarrow> False)"

definition finite3 :: "fvec3 \<Rightarrow> bool" where
  "finite3 v = (isFin (fx v) \<and> isFin (fy v) \<and> isFin (fz v))"

section \<open>Blinn-Phong shading (Shaders.h, Renderer.cpp)\<close>

record Light =
  lposition :: fvec3
  lcolor :: fvec3
  lambient :: fvec3

record Material =
  mambient :: fvec3
  mdiffuse :: fvec3
  mspecular :: fvec3
  shininess :: f32

definition calculateAmbient :: "Light \<Rightarrow> Material \<Rightarrow> fvec3" where
  "calculateAmbient light material = vmul (lambient light) (mambient material)"

definition calculateDiffuse :: "fvec3 \<Rightarrow> fvec3 \<Rightarrow> Light \<Rightarrow> Material \<Rightarrow> fvec3" where
  "calculateDiffuse lightDir nrm light material =
     (let diff = fmax (fdot3 nrm lightDir) (Fin 0)
      in vscale (vmul (lcolor light) (mdiffuse material)) diff)"

definition calculateSpecular :: "fvec3 \<Rightarrow> fvec3 \<Rightarrow> fvec3 \<Rightarrow> Light \<Rightarrow> Material \<Rightarrow> fvec3" where
  "calculateSpecular lightDir nrm viewDir light material =
     (let halfwayDir = fnormalize3 (vadd lightDir viewDir);
          spec = powf (fmax (fdot3 nrm halfwayDir) (Fin 0)) (shininess material)
      in vscale (vmul (lcolor light) (mspecular material)) spec)"

text \<open>
  \<^verbatim>\<open>vec3ToColor\<close> casts the three scaled components to \<^verbatim>\<open>uint8_t\<close>; the result
  is \<^const>\<open>None\<close> when one of the casts is undefined, which after the clamp to
  \<open>[0, 1]\<close> is the case exactly for a NaN component.
\<close>

definition vec3ToColor :: "fvec3 \<Rightarrow> Color option" where
  "vec3ToColor v =
     (case (castUint8 (fmul (fx v) (Fin 255)), castUint8 (fmul (fy v) (Fin 255)),
            castUint8 (fmul (fz v) (Fin 255))) of
        (Some cr, Some cg, Some cb) \<Rightarrow> Some (mkColor cr cg cb)
      | _ \<Rightarrow> None)"

definition computeGouraudShading :: "fvec3 \<Rightarrow> fvec3 \<Rightarrow> fvec3 \<Rightarrow> Light \<Rightarrow> Material \<Rightarrow> Color option" where
  "computeGouraudShading vertexPos nrm0 viewPos light material =
     (let nrm = fnormalize3 nrm0;
          lightDir = fnormalize3 (vsub (lposition light) vertexPos);
          viewDir = fnormalize3 (vsub viewPos vertexPos);
          ambient = calculateAmbient light material;
          diffuse = calculateDiffuse lightDir nrm light material;
          specular = calculateSpecular lightDir nrm viewDir light material;
          finalColor = vadd (vadd ambient diffuse) specular
      in vec3ToColor (clamp3 finalColor (Fin 0) (Fin 1)))"

definition computePhongShading :: "fvec3 \<Rightarrow> fvec3 \<Rightarrow> fvec3 \<Rightarrow> Light \<Rightarrow> Material \<Rightarrow> Color option" where
  "computePhongShading fragPos nrm0 viewPos light material =
     (let nrm = fnormalize3 nrm0;
          lightDir = fnormalize3 (vsub (lposition light) fragPos);
          viewDir = fnormalize3 (vsub viewPos fragPos);
          ambient = calculateAmbient light material;
          diffuse = calculateDiffuse lightDir nrm light material;
          specular = calculateSpecular lightDir nrm viewDir light material;
          finalColor = vadd (vadd ambient diffuse) specular
      in vec3ToColor (clamp3 finalColor (Fin 0) (Fin 1)))"

text \<open>
  The directions the two shading functions derive from their arguments: the
  normalized normal, the direction to the light, the direction to the viewer,
  and the halfway vector.
\<close>

definition normalOf :: "fvec3 \<Rightarrow> fvec3" where
  "normalOf nrm0 = fnormalize3 nrm0"

definition lightDirOf :: "fvec3 \<Rightarrow> Light \<Rightarrow> fvec3" where
  "lightDirOf pos light = fnormalize3 (vsub (lposition light) pos)"

definition viewDirOf :: "fvec3 \<Rightarrow> fvec3 \<Rightarrow> fvec3" where
  "viewDirOf pos viewPos = fnormalize3 (vsub viewPos pos)"

definition halfwayOf :: "fvec3 \<Rightarrow> fvec3 \<Rightarrow> Light \<Rightarrow> fvec3" where
  "halfwayOf pos viewPos light = fnormalize3 (vadd (lightDirOf pos light) (viewDirOf pos viewPos))"

text \<open>
  The default light and material of \<^verbatim>\<open>Shaders.h\<close> (the literals \<^verbatim>\<open>0.2f\<close> and
  \<^verbatim>\<open>0.8f\<close> are the nearest binary32 values), a surface facing away from both
  light and viewer, a light whose colour is \<open>2^127\<close> and a material whose diffuse
  reflectance is 2.
\<close>

definition splat :: "f32 \<Rightarrow> fvec3" where
  "splat a = \<lparr>fx = a, fy = a, fz = a\<rparr>"

definition defaultLight :: Light where
  "defaultLight = \<lparr>lposition = \<lparr>fx = Fin 0, fy = Fin 5, fz = Fin 5\<rparr>, lcolor = splat (Fin 1),
                    lambient = splat (round32 (2 / 10))\<rparr>"

definition defaultMaterial :: Material where
  "defaultMaterial = \<lparr>mambient = splat (round32 (2 / 10)), mdiffuse = splat (round32 (8 / 10)),
                       mspecular = splat (Fin 1), shininess = Fin 32\<rparr>"

definition awayPos :: fvec3 where
  "awayPos = \<lparr>fx = Fin 0, fy = Fin 5, fz = Fin 3\<rparr>"

definition awayNormal :: fvec3 where
  "awayNormal = \<lparr>fx = Fin 0, fy = Fin 0, fz = Fin (- 1)\<rparr>"

definition awayView :: fvec3 where
  "awayView = \<lparr>fx = Fin 0, fy = Fin 5, fz = Fin 5\<rparr>"

definition glareLight :: Light where
  "glareLight = defaultLight\<lparr>lcolor := splat (Fin (2 ^ 127))\<rparr>"

definition glossMaterial :: Material where
  "glossMaterial = defaultMaterial\<lparr>mdiffuse := splat (Fin 2), mspecular := splat (Fin 2)\<rparr>"


section \<open>Line clipping in binary32\<close>

text \<open>
  \<^verbatim>\<open>computeOutCode\<close> and \<^verbatim>\<open>clipLine\<close> once more, on binary32 values: the same
  text as above with every operation rounded. A division by zero is no fault
  here, it yields an infinity or NaN.
\<close>

definition computeOutCode32 :: "f32 \<Rightarrow> f32 \<Rightarrow> f32 \<Rightarrow> f32 \<Rightarrow> f32 \<Rightarrow> f32 \<Rightarrow> int" where
  "computeOutCode32 x y xMin yMin xMax yMax =
     (let code = INSIDE;
          code = (if flt x xMin then code OR LEFT
                  else if fgt x xMax then code OR RIGHT
                  else code);
          code = (if flt y yMin then code OR BOTTOM
                  else if fgt y yMax then code OR TOP
                  else code)
      in code)"

record ClipState32 =
  qx1 :: f32
  qy1 :: f32
  qx2 :: f32
  qy2 :: f32
  qcode1 :: int
  qcode2 :: int

definition intersect32 ::
  "int \<Rightarrow> f32 \<Rightarrow> f32 \<Rightarrow> f32 \<Rightarrow> f32 \<Rightarrow> f32 \<Rightarrow> f32 \<Rightarrow> f32 \<Rightarrow> f32 \<Rightarrow> clip_fault + f32 \<times> f32" where
  "intersect32 codeOut x1 y1 x2 y2 xMin yMin xMax yMax =
     (if codeOut AND TOP \<noteq> 0
      then Inr (fadd x1 (fdiv (fmul (fsub x2 x1) (fsub yMax y1)) (fsub y2 y1)), yMax)
      else if codeOut AND BOTTOM \<noteq> 0
      then Inr (fadd x1 (fdiv (fmul (fsub x2 x1) (fsub yMin y1)) (fsub y2 y1)), yMin)
      else if codeOut AND RIGHT \<noteq> 0
      then Inr (xMax, fadd y1 (fdiv (fmul (fsub y2 y1) (fsub xMax x1)) (fsub x2 x1)))
      else if codeOut AND LEFT \<noteq> 0
      then Inr (xMin, fadd y1 (fdiv (fmul (fsub y2 y1) (fsub xMin x1)) (fsub x2 x1)))
      else Inl UninitializedPoint)"

definition clipStep32 :: "f32 \<Rightarrow> f32 \<Rightarrow> f32 \<Rightarrow> f32 \<Rightarrow> ClipState32 \<Rightarrow> clip_fault + ClipState32" where
  "clipStep32 xMin yMin xMax yMax st =
     (let codeOut = (if qcode1 st \<noteq> 0 then qcode1 st else qcode2 st)
      in case intersect32 codeOut (qx1 st) (qy1 st) (qx2 st) (qy2 st) xMin yMin xMax yMax of
           Inl f \<Rightarrow> Inl f
         | Inr (x, y) \<Rightarrow>
             if codeOut = qcode1 st
             then Inr (st\<lparr>qx1 := x, qy1 := y, qcode1 := computeOutCode32 x y xMin yMin xMax yMax\<rparr>)
             else Inr (st\<lparr>qx2 := x, qy2 := y, qcode2 := computeOutCode32 x y xMin yMin xMax yMax\<rparr>))"

datatype clip_result32 =
  Finished32 bool f32 f32 f32 f32
  | Fault32 clip_fault
  | StillClipping32

text \<open>
  The \<^verbatim>\<open>while (true)\<close> loop; as in \<^const>\<open>clipLoop\<close> the first argument bounds the
  number of passes through the clipping branch, and \<^const>\<open>StillClipping32\<close> says
  that the loop has not left after that many passes.
\<close>

fun clipLoop32 :: "nat \<Rightarrow> f32 \<Rightarrow> f32 \<Rightarrow> f32 \<Rightarrow> f32 \<Rightarrow> ClipState32 \<Rightarrow> clip_result32" where
  "clipLoop32 0 xMin yMin xMax yMax st =
     (if (qcode1 st OR qcode2 st) = 0
      then Finished32 True (qx1 st) (qy1 st) (qx2 st) (qy2 st)
      else if qcode1 st AND qcode2 st \<noteq> 0
      then Finished32 False (qx1 st) (qy1 st) (qx2 st) (qy2 st)
      else StillClipping32)"
| "clipLoop32 (Suc n) xMin yMin xMax yMax st =
     (if (qcode1 st OR qcode2 st) = 0
      then Finished32 True (qx1 st) (qy1 st) (qx2 st) (qy2 st)
      else if qcode1 st AND qcode2 st \<noteq> 0
      then Finished32 False (qx1 st) (qy1 st) (qx2 st) (qy2 st)
      else case clipStep32 xMin yMin xMax yMax st of
             Inl f \<Rightarrow> Fault32 f
           | Inr st' \<Rightarrow> clipLoop32 n xMin yMin xMax yMax st')"

definition clipLine32 ::
  "nat \<Rightarrow> f32 \<Rightarrow> f32 \<Rightarrow> f32 \<Rightarrow> f32 \<Rightarrow> f32 \<Rightarrow> f32 \<Rightarrow> f32 \<Rightarrow> f32 \<Rightarrow> clip_result32" where
  "clipLine32 passes x1 y1 x2 y2 xMin yMin xMax yMax =
     clipLoop32 passes xMin yMin xMax yMax
       \<lparr>qx1 = x1, qy1 = y1, qx2 = x2, qy2 = y2,
        qcode1 = computeOutCode32 x1 y1 xMin yMin xMax yMax,
        qcode2 = computeOutCode32 x2 y2 xMin yMin xMax yMax\<rparr>"

text \<open>
  The segment from \<open>(5.2, 5.2)\<close> to \<open>(-1, -1)\<close> and the window from \<open>(0.2, 0.2)\<close> to
  \<open>(10, 10)\<close>, as the literals \<^verbatim>\<open>5.2f\<close> and \<^verbatim>\<open>0.2f\<close> denote them, and the two
  positions the second endpoint takes in turn.
\<close>

definition f5_2 :: f32 where
  "f5_2 = round32 (52 / 10)"

definition f0_2 :: f32 where
  "f0_2 = round32 (2 / 10)"

definition belowCorner :: f32 where
  "belowCorner = Fin (209715 / 1048576)"

definition cycleA :: ClipState32 where
  "cycleA = \<lparr>qx1 = f5_2, qy1 = f5_2, qx2 = belowCorner, qy2 = f0_2, qcode1 = 0, qcode2 = LEFT\<rparr>"

definition cycleB :: ClipState32 where
  "cycleB = \<lparr>qx1 = f5_2, qy1 = f5_2, qx2 = f0_2, qy2 = belowCorner, qcode1 = 0, qcode2 = BOTTOM\<rparr>"


section \<open>The triangle fill in binary32\<close>

text \<open>
  \<^verbatim>\<open>drawTriangle\<close>, the two scanline fills and \<^verbatim>\<open>computeBarycentric\<close> once more,
  on binary32 values: the same text as in the section on filled triangles, with
  every operation rounded and every cast checked.
\<close>

record Vertex32 =
  position32 :: fvec4
  worldPos32 :: fvec3
  normal32 :: fvec3
  color32 :: Color

text \<open>
  What C++ leaves undefined in the fill: a cast of a value that the target type
  cannot hold, and a \<^verbatim>\<open>std::sort\<close> whose comparator is no strict weak ordering
  of the elements.
\<close>

datatype fill_fault = UndefinedCast | UndefinedSort

datatype pixel_call32 = SetPixelWithDepth32 int int f32 Color

text \<open>
  The depth cells of \<^typ>\<open>Rasterizer\<close> hold reals. A binary32 depth enters as the
  real it denotes, an infinity as \<open>2^128\<close> or \<open>- 2^128\<close>, beyond every finite
  binary32 value, so that the test of \<^const>\<open>setPixelWithDepth\<close> decides as the
  binary32 comparison does. A NaN depth compares false with every stored depth:
  the call writes nothing, and no cell ever holds NaN.
\<close>

fun depthReal :: "f32 \<Rightarrow> real" where
  "depthReal (Fin d) = d"
| "depthReal PInf = 2 ^ 128"
| "depthReal MInf = - (2 ^ 128)"
| "depthReal NaN = 0"

definition setPixelWithDepth32 :: "int \<Rightarrow> int \<Rightarrow> f32 \<Rightarrow> Color \<Rightarrow> Rasterizer \<Rightarrow> Rasterizer" where
  "setPixelWithDepth32 x y depth c s =
     (if depth = NaN then s else setPixelWithDepth x y (depthReal depth) c s)"

fun call32 :: "pixel_call32 \<Rightarrow> Rasterizer \<Rightarrow> Rasterizer" where
  "call32 (SetPixelWithDepth32 x y depth c) s = setPixelWithDepth32 x y depth c s"

definition run32 :: "pixel_call32 list \<Rightarrow> Rasterizer \<Rightarrow> Rasterizer" where
  "run32 calls s = fold call32 calls s"

text \<open>The calls of a fill followed by those of the rest of the loop; a fault in either is the result.\<close>

definition thenCalls ::
  "fill_fault + pixel_call32 list \<Rightarrow> fill_fault + pixel_call32 list \<Rightarrow> fill_fault + pixel_call32 list" where
  "thenCalls p q =
     (case p of
        Inl f \<Rightarrow> Inl f
      | Inr ks \<Rightarrow> (case q of Inl f \<Rightarrow> Inl f | Inr ls \<Rightarrow> Inr (ks @ ls)))"

definition computeBarycentric32 :: "f32 \<Rightarrow> f32 \<Rightarrow> fvec2 \<Rightarrow> fvec2 \<Rightarrow> fvec2 \<Rightarrow> fvec3" where
  "computeBarycentric32 x y v1 v2 v3 =
     (let denominator = fadd (fmul (fsub (fy v2) (fy v3)) (fsub (fx v1) (fx v3)))
                             (fmul (fsub (fx v3) (fx v2)) (fsub (fy v1) (fy v3)))
      in if flt (fabs denominator) (round32 (1 / 1000000))
         then \<lparr>fx = fdiv (Fin 1) (Fin 3), fy = fdiv (Fin 1) (Fin 3), fz = fdiv (Fin 1) (Fin 3)\<rparr>
         else let w1 = fdiv (fadd (fmul (fsub (fy v2) (fy v3)) (fsub x (fx v3)))
                                  (fmul (fsub (fx v3) (fx v2)) (fsub y (fy v3)))) denominator;
                  w2 = fdiv (fadd (fmul (fsub (fy v3) (fy v1)) (fsub x (fx v3)))
                                  (fmul (fsub (fx v1) (fx v3)) (fsub y (fy v3)))) denominator;
                  w3 = fsub (fsub (Fin 1) w1) w2
              in \<lparr>fx = w1, fy = w2, fz = w3\<rparr>)"

definition screenXY32 :: "Vertex32 \<Rightarrow> fvec2" where
  "screenXY32 v = \<lparr>fx = fx (position32 v), fy = fy (position32 v)\<rparr>"

text \<open>\<^verbatim>\<open>bary.x * a + bary.y * b + bary.z * c\<close>.\<close>

definition weighted :: "fvec3 \<Rightarrow> f32 \<Rightarrow> f32 \<Rightarrow> f32 \<Rightarrow> f32" where
  "weighted bary a b c = fadd (fadd (fmul (fx bary) a) (fmul (fy bary) b)) (fmul (fz bary) c)"

definition shadePixel32 :: "Vertex32 \<Rightarrow> Vertex32 \<Rightarrow> Vertex32 \<Rightarrow> int \<Rightarrow> int \<Rightarrow> fill_fault + pixel_call32" where
  "shadePixel32 v1 v2 v3 x y =
     (let bary = computeBarycentric32 (floatOfInt x) (floatOfInt y)
                   (screenXY32 v1) (screenXY32 v2) (screenXY32 v3);
          depth = weighted bary (fz (position32 v1)) (fz (position32 v2)) (fz (position32 v3))
      in case (castUint8 (weighted bary (chan32 (red (color32 v1))) (chan32 (red (color32 v2)))
                            (chan32 (red (color32 v3)))),
               castUint8 (weighted bary (chan32 (green (color32 v1))) (chan32 (green (color32 v2)))
                            (chan32 (green (color32 v3)))),
               castUint8 (weighted bary (chan32 (blue (color32 v1))) (chan32 (blue (color32 v2)))
                            (chan32 (blue (color32 v3))))) of
           (Some cr, Some cg, Some cb) \<Rightarrow> Inr (SetPixelWithDepth32 x y depth (mkColor cr cg cb))
         | _ \<Rightarrow> Inl UndefinedCast)"

function scanline32 ::
  "int \<Rightarrow> int \<Rightarrow> int \<Rightarrow> Vertex32 \<Rightarrow> Vertex32 \<Rightarrow> Vertex32 \<Rightarrow> fill_fault + pixel_call32 list" where
  "scanline32 x xEnd y v1 v2 v3 =
     (if x < xEnd
      then (case shadePixel32 v1 v2 v3 x y of
              Inl f \<Rightarrow> Inl f
            | Inr k \<Rightarrow> thenCalls (Inr [k]) (scanline32 (x + 1) xEnd y v1 v2 v3))
      else Inr [])"
  by pat_completeness auto
termination
  by (relation "measure (\<lambda>(x, xEnd, y, v1, v2, v3). nat (xEnd - x))") auto

function flatBottomRows32 ::
  "int \<Rightarrow> int \<Rightarrow> f32 \<Rightarrow> f32 \<Rightarrow> f32 \<Rightarrow> f32 \<Rightarrow> Vertex32 \<Rightarrow> Vertex32 \<Rightarrow> Vertex32
   \<Rightarrow> fill_fault + pixel_call32 list" where
  "flatBottomRows32 y endY x1 x2 invSlope1 invSlope2 v1 v2 v3 =
     (if y < endY
      then (case (castInt (fceil x1), castInt (fceil x2)) of
              (Some xStart, Some xEnd) \<Rightarrow>
                thenCalls (scanline32 xStart xEnd y v1 v2 v3)
                  (flatBottomRows32 (y + 1) endY (fadd x1 invSlope1) (fadd x2 invSlope2)
                     invSlope1 invSlope2 v1 v2 v3)
            | _ \<Rightarrow> Inl UndefinedCast)
      else Inr [])"
  by pat_completeness auto
termination
  by (relation "measure (\<lambda>(y, endY, x1, x2, i1, i2, v1, v2, v3). nat (endY - y))") auto

definition fillFlatBottomTriangle32 ::
  "Vertex32 \<Rightarrow> Vertex32 \<Rightarrow> Vertex32 \<Rightarrow> bool \<Rightarrow> fill_fault + pixel_call32 list" where
  "fillFlatBottomTriangle32 v1 v2 v3 useGouraud =
     (let invSlope1 = fdiv (fsub (fx (position32 v2)) (fx (position32 v1)))
                           (fsub (fy (position32 v2)) (fy (position32 v1)));
          invSlope2 = fdiv (fsub (fx (position32 v3)) (fx (position32 v1)))
                           (fsub (fy (position32 v3)) (fy (position32 v1)));
          x1 = fx (position32 v1);
          x2 = fx (position32 v1)
      in case (castInt (fceil (fy (position32 v1))), castInt (fceil (fy (position32 v2)))) of
           (Some startY, Some endY) \<Rightarrow>
             flatBottomRows32 startY endY x1 x2 invSlope1 invSlope2 v1 v2 v3
         | _ \<Rightarrow> Inl UndefinedCast)"

function flatTopRows32 ::
  "int \<Rightarrow> int \<Rightarrow> f32 \<Rightarrow> f32 \<Rightarrow> f32 \<Rightarrow> f32 \<Rightarrow> Vertex32 \<Rightarrow> Vertex32 \<Rightarrow> Vertex32
   \<Rightarrow> fill_fault + pixel_call32 list" where
  "flatTopRows32 y endY x1 x2 invSlope1 invSlope2 v1 v2 v3 =
     (if y > endY
      then (case (castInt (fceil x1), castInt (fceil x2)) of
              (Some xStart, Some xEnd) \<Rightarrow>
                thenCalls (scanline32 xStart xEnd y v1 v2 v3)
                  (flatTopRows32 (y - 1) endY (fsub x1 invSlope1) (fsub x2 invSlope2)
                     invSlope1 invSlope2 v1 v2 v3)
            | _ \<Rightarrow> Inl UndefinedCast)
      else Inr [])"
  by pat_completeness auto
termination
  by (relation "measure (\<lambda>(y, endY, x1, x2, i1, i2, v1, v2, v3). nat (y - endY))") auto

definition fillFlatTopTriangle32 ::
  "Vertex32 \<Rightarrow> Vertex32 \<Rightarrow> Vertex32 \<Rightarrow> bool \<Rightarrow> fill_fault + pixel_call32 list" where
  "fillFlatTopTriangle32 v1 v2 v3 useGouraud =
     (let invSlope1 = fdiv (fsub (fx (position32 v3)) (fx (position32 v1)))
                           (fsub (fy (position32 v3)) (fy (position32 v1)));
          invSlope2 = fdiv (fsub (fx (position32 v3)) (fx (position32 v2)))
                           (fsub (fy (position32 v3)) (fy (position32 v2)));
          x1 = fx (position32 v3);
          x2 = fx (position32 v3)
      in case (castInt (fceil (fy (position32 v3))), castInt (fceil (fy (position32 v1)))) of
           (Some startY, Some endY) \<Rightarrow>
             flatTopRows32 startY endY x1 x2 invSlope1 invSlope2 v1 v2 v3
         | _ \<Rightarrow> Inl UndefinedCast)"

text \<open>
  \<^verbatim>\<open>std::sort\<close> with the comparator \<^verbatim>\<open>a.position.y < b.position.y\<close>. On binary32
  heights \<^verbatim>\<open><\<close> is a strict weak ordering unless one height is NaN and two
  others compare less; there the call is undefined. Otherwise the model sorts
  by insertion and keeps the input order of vertices that do not compare less,
  as \<^const>\<open>sortByY\<close> does.
\<close>

definition height32 :: "Vertex32 \<Rightarrow> f32" where
  "height32 v = fy (position32 v)"

fun insertByY :: "Vertex32 \<Rightarrow> Vertex32 list \<Rightarrow> Vertex32 list" where
  "insertByY v [] = [v]"
| "insertByY v (u # us) = (if flt (height32 u) (height32 v) then u # insertByY v us else v # u # us)"

definition sortByY32 :: "Vertex32 list \<Rightarrow> Vertex32 list" where
  "sortByY32 verts = foldr insertByY verts []"

definition sortUndefined :: "Vertex32 \<Rightarrow> Vertex32 \<Rightarrow> Vertex32 \<Rightarrow> bool" where
  "sortUndefined v1 v2 v3 =
     ((height32 v1 = NaN \<or> height32 v2 = NaN \<or> height32 v3 = NaN)
      \<and> (flt (height32 v1) (height32 v2) \<or> flt (height32 v2) (height32 v1)
         \<or> flt (height32 v1) (height32 v3) \<or> flt (height32 v3) (height32 v1)
         \<or> flt (height32 v2) (height32 v3) \<or> flt (height32 v3) (height32 v2)))"

text \<open>
  The synthetic vertex; its colour is \<^const>\<open>None\<close> when a cast of a mixed channel
  is undefined.
\<close>

definition splitParameter :: "Vertex32 \<Rightarrow> Vertex32 \<Rightarrow> Vertex32 \<Rightarrow> f32" where
  "splitParameter vtop vmid vbot =
     fdiv (fsub (height32 vmid) (height32 vtop)) (fsub (height32 vbot) (height32 vtop))"

definition splitColor :: "Color \<Rightarrow> Color \<Rightarrow> f32 \<Rightarrow> Color option" where
  "splitColor ctop cbot t =
     (case (castUint8 (fadd (fmul (chan32 (red ctop)) (fsub (Fin 1) t)) (fmul (chan32 (red cbot)) t)),
            castUint8 (fadd (fmul (chan32 (green ctop)) (fsub (Fin 1) t)) (fmul (chan32 (green cbot)) t)),
            castUint8 (fadd (fmul (chan32 (blue ctop)) (fsub (Fin 1) t)) (fmul (chan32 (blue cbot)) t))) of
        (Some cr, Some cg, Some cb) \<Rightarrow> Some (mkColor cr cg cb)
      | _ \<Rightarrow> None)"

definition splitVertex32 :: "Vertex32 \<Rightarrow> Vertex32 \<Rightarrow> Vertex32 \<Rightarrow> Vertex32 option" where
  "splitVertex32 vtop vmid vbot =
     (let t = splitParameter vtop vmid vbot
      in case splitColor (color32 vtop) (color32 vbot) t of
           Some c \<Rightarrow> Some \<lparr>position32 = fmix4 (position32 vtop) (position32 vbot) t,
                             worldPos32 = fmix3 (worldPos32 vtop) (worldPos32 vbot) t,
                             normal32 = fnormalize3 (fmix3 (normal32 vtop) (normal32 vbot) t),
                             color32 = c\<rparr>
         | None \<Rightarrow> None)"

definition drawTriangle32 ::
  "Vertex32 \<Rightarrow> Vertex32 \<Rightarrow> Vertex32 \<Rightarrow> bool \<Rightarrow> fill_fault + pixel_call32 list" where
  "drawTriangle32 v1 v2 v3 useGouraud =
     (if sortUndefined v1 v2 v3 then Inl UndefinedSort
      else let verts = sortByY32 [v1, v2, v3];
               vtop = verts ! 0;
               vmid = verts ! 1;
               vbot = verts ! 2
           in if feq (height32 vtop) (height32 vbot) then Inr []
              else if feq (height32 vmid) (height32 vbot)
                   then fillFlatBottomTriangle32 vtop vmid vbot useGouraud
              else if feq (height32 vtop) (height32 vmid)
                   then fillFlatTopTriangle32 vtop vmid vbot useGouraud
              else case splitVertex32 vtop vmid vbot of
                     None \<Rightarrow> Inl UndefinedCast
                   | Some vsplit \<Rightarrow>
                       thenCalls (fillFlatBottomTriangle32 vtop vmid vsplit useGouraud)
                                 (fillFlatTopTriangle32 vmid vsplit vbot useGouraud))"

text \<open>
  A sliver: the triangle \<open>(-6 + 3/2^21, 1/8)\<close>, \<open>(8 - 3/2^21, 33/8)\<close>,
  \<open>(8 - 2/2^21, 33/8)\<close>, all of whose coordinates are binary32 values, at the
  depth \<open>z\<close> and in the colour \<open>c\<close>.
\<close>

definition sliverVertex :: "real \<Rightarrow> real \<Rightarrow> f32 \<Rightarrow> Color \<Rightarrow> Vertex32" where
  "sliverVertex x y z c =
     \<lparr>position32 = \<lparr>fx = Fin x, fy = Fin y, fz = z, fw = Fin 1\<rparr>,
      worldPos32 = \<lparr>fx = Fin 0, fy = Fin 0, fz = Fin 0\<rparr>,
      normal32 = \<lparr>fx = Fin 0, fy = Fin 0, fz = Fin 1\<rparr>, color32 = c\<rparr>"

definition sliver :: "f32 \<Rightarrow> Color \<Rightarrow> fill_fault + pixel_call32 list" where
  "sliver z c =
     drawTriangle32 (sliverVertex (- 6 + 3 / 2 ^ 21) (1 / 8) z c)
       (sliverVertex (8 - 3 / 2 ^ 21) (33 / 8) z c)
       (sliverVertex (8 - 2 / 2 ^ 21) (33 / 8) z c) False"

section \<open>Basic facts about the pixel operations\<close>

declare clearFrameLoop.simps [simp del] clearDepthLoop.simps [simp del]
  drawLineLowLoop.simps [simp del] drawLineHighLoop.simps [simp del]
  draw_circle_loop.simps [simp del] scanline.simps [simp del]
  flatBottomRows.simps [simp del] flatTopRows.simps [simp del]

lemma run_Nil [simp]: "run [] s = s"
  by (simp add: run_def)

lemma run_Cons [simp]: "run (k # ks) s = run ks (call k s)"
  by (simp add: run_def)

lemma run_append [simp]: "run (ks @ ks') s = run ks' (run ks s)"
  by (simp add: run_def)

lemma setPixel_width [simp]: "width (setPixel x y c s) = width s"
  and setPixel_height [simp]: "height (setPixel x y c s) = height s"
  and setPixel_depthBuffer [simp]: "depthBuffer (setPixel x y c s) = depthBuffer s"
  by (simp_all add: setPixel_def Let_def)

lemma setPixelWithDepth_width [simp]: "width (setPixelWithDepth x y d c s) = width s"
  and setPixelWithDepth_height [simp]: "height (setPixelWithDepth x y d c s) = height s"
  by (simp_all add: setPixelWithDepth_def Let_def)

lemma call_width [simp]: "width (call k s) = width s"
  and call_height [simp]: "height (call k s) = height s"
  by (cases k; simp)+

lemma run_width [simp]: "width (run ks s) = width s"
  by (induction ks arbitrary: s) simp_all

lemma run_height [simp]: "height (run ks s) = height s"
  by (induction ks arbitrary: s) simp_all

lemma isInBounds_call [simp]: "isInBounds (call k s) x y = isInBounds s x y"
  by (simp add: isInBounds_def)

lemma isInBounds_run [simp]: "isInBounds (run ks s) x y = isInBounds s x y"
  by (simp add: isInBounds_def)

lemma pixel_index_bounds:
  assumes "isInBounds s x y"
  shows "0 \<le> y * width s + x" and "y * width s + x < width s * height s"
proof -
  from assms have x: "0 \<le> x" "x < width s" and y: "0 \<le> y" "y < height s"
    by (simp_all add: isInBounds_def)
  from x y have "0 \<le> y * width s" by simp
  with x show "0 \<le> y * width s + x" by simp
  from y have "y + 1 \<le> height s" by simp
  with x have "(y + 1) * width s \<le> height s * width s"
    by (intro mult_right_mono) simp_all
  with x show "y * width s + x < width s * height s"
    by (simp add: algebra_simps)
qed

lemma pixel_index_inj:
  assumes "isInBounds s x y" "isInBounds s x' y'" "y * width s + x = y' * width s + x'"
  shows "x = x' \<and> y = y'"
proof -
  from assms have x: "0 \<le> x" "x < width s" "0 \<le> x'" "x' < width s"
    by (simp_all add: isInBounds_def)
  have "(y * width s + x) div width s = y" "(y' * width s + x') div width s = y'"
    using x by simp_all
  with assms(3) have "y = y'" by simp
  with assms(3) show ?thesis by simp
qed


lemma frameCell_index:
  assumes "isInBounds s x y"
  shows "frameCell s ((y * width s + x) * 3)"
    and "frameCell s ((y * width s + x) * 3 + 1)"
    and "frameCell s ((y * width s + x) * 3 + 2)"
  using pixel_index_bounds [OF assms] by (simp_all add: frameCell_def)

lemma depthCell_index: "isInBounds s x y \<Longrightarrow> depthCell s (y * width s + x)"
  using pixel_index_bounds [of s x y] by (simp add: depthCell_def)

lemma frameCell_call [simp]: "frameCell (call k s) i = frameCell s i"
  and depthCell_call [simp]: "depthCell (call k s) i = depthCell s i"
  by (simp_all add: frameCell_def depthCell_def)

lemma setPixel_outside:
  "\<not> frameCell s i \<Longrightarrow> frameBuffer (setPixel x y c s) i = frameBuffer s i"
  using frameCell_index [of s x y] by (auto simp: setPixel_def Let_def)

lemma setPixelWithDepth_outside_frame:
  "\<not> frameCell s i \<Longrightarrow> frameBuffer (setPixelWithDepth x y d c s) i = frameBuffer s i"
  using frameCell_index [of s x y] by (auto simp: setPixelWithDepth_def Let_def)

lemma setPixelWithDepth_outside_depth:
  "\<not> depthCell s i \<Longrightarrow> depthBuffer (setPixelWithDepth x y d c s) i = depthBuffer s i"
  using depthCell_index [of s x y] by (auto simp: setPixelWithDepth_def Let_def)

lemma call_outside:
  "\<not> frameCell s i \<Longrightarrow> frameBuffer (call k s) i = frameBuffer s i"
  "\<not> depthCell s j \<Longrightarrow> depthBuffer (call k s) j = depthBuffer s j"
  by (cases k; simp add: setPixel_outside setPixelWithDepth_outside_frame
        setPixelWithDepth_outside_depth)+

lemma run_outside_frame:
  "\<not> frameCell s i \<Longrightarrow> frameBuffer (run ks s) i = frameBuffer s i"
  by (induction ks arbitrary: s) (simp_all add: call_outside)

lemma run_outside_depth:
  "\<not> depthCell s i \<Longrightarrow> depthBuffer (run ks s) i = depthBuffer s i"
  by (induction ks arbitrary: s) (simp_all add: call_outside)

section \<open>Bounds checking (C4)\<close>

text \<open>
  Claim C4. For coordinates outside \<open>0 \<le> x < width\<close>, \<open>0 \<le> y < height\<close> both
  \<^const>\<open>setPixel\<close> and \<^const>\<open>setPixelWithDepth\<close> return the rasterizer as it was:
  no byte of the frame buffer and no depth cell changes, and there is nothing
  else they could report. Hence whatever a draw call of the public interface
  does, every cell outside the allocated \<open>width * height * 3\<close> bytes and
  \<open>width * height\<close> depths keeps its value.
\<close>

theorem out_of_bounds_ignored:
  "(x < 0 \<or> x \<ge> width s \<or> y < 0 \<or> y \<ge> height s \<longrightarrow>
      setPixel x y c s = s \<and> setPixelWithDepth x y d c s = s)
   \<and> (\<forall>i. \<not> frameCell s i \<longrightarrow> frameBuffer (run (draw k) s) i = frameBuffer s i)
   \<and> (\<forall>i. \<not> depthCell s i \<longrightarrow> depthBuffer (run (draw k) s) i = depthBuffer s i)"
proof -
  have "setPixel x y c s = s \<and> setPixelWithDepth x y d c s = s"
    if "x < 0 \<or> x \<ge> width s \<or> y < 0 \<or> y \<ge> height s"
  proof -
    from that have "\<not> isInBounds s x y" by (auto simp: isInBounds_def)
    then show ?thesis by (simp add: setPixel_def setPixelWithDepth_def)
  qed
  then show ?thesis by (simp add: run_outside_frame run_outside_depth)
qed

theorem out_of_bounds_ignored_witness:
  "8 \<ge> width raster8
   \<and> setPixel 8 (- 1) white raster8 = raster8
   \<and> setPixelWithDepth 8 (- 1) (1 / 5) white raster8 = raster8
   \<and> \<not> frameCell raster8 (- 9)
   \<and> frameBuffer (run (draw (DrawCircle 0 0 3 white)) raster8) (- 9) = frameBuffer raster8 (- 9)
   \<and> \<not> depthCell raster8 64
   \<and> depthBuffer (run (draw (DrawCircle 0 0 3 white)) raster8) 64 = depthBuffer raster8 64"
proof -
  have h: "8 \<ge> width raster8" "\<not> frameCell raster8 (- 9)" "\<not> depthCell raster8 64"
    by (simp_all add: frameCell_def depthCell_def raster8_def)
  from out_of_bounds_ignored [of 8 raster8 "- 1" white "1 / 5" "DrawCircle 0 0 3 white"] h
  show ?thesis by blast
qed

section \<open>The depth test (C2)\<close>

text \<open>
  Claim C2. For a pixel inside the bounds, \<^const>\<open>setPixelWithDepth\<close> stores the
  depth and the three colour bytes exactly when the new depth is strictly less
  than the stored one. When the new depth is greater than or equal to the
  stored one, a tie included, the rasterizer is returned unchanged, so the
  earlier write stays.
\<close>

theorem depth_test_strict:
  assumes "isInBounds s x y"
  shows "(depth < depthBuffer s (y * width s + x) \<longrightarrow>
            setPixelWithDepth x y depth c s =
              s\<lparr>depthBuffer := (depthBuffer s)(y * width s + x := depth),
                frameBuffer := (frameBuffer s)
                  ((y * width s + x) * 3 := red c,
                   (y * width s + x) * 3 + 1 := green c,
                   (y * width s + x) * 3 + 2 := blue c)\<rparr>
            \<and> depthBuffer (setPixelWithDepth x y depth c s) (y * width s + x) = depth
            \<and> frameBuffer (setPixelWithDepth x y depth c s) ((y * width s + x) * 3) = red c
            \<and> frameBuffer (setPixelWithDepth x y depth c s) ((y * width s + x) * 3 + 1) = green c
            \<and> frameBuffer (setPixelWithDepth x y depth c s) ((y * width s + x) * 3 + 2) = blue c)
       \<and> (depthBuffer s (y * width s + x) \<le> depth \<longrightarrow> setPixelWithDepth x y depth c s = s)"
  using assms by (simp add: setPixelWithDepth_def Let_def)

theorem depth_test_strict_witness:
  "isInBounds raster8 2 1
   \<and> 1 / 2 < depthBuffer raster8 (1 * width raster8 + 2)
   \<and> depthBuffer (setPixelWithDepth 2 1 (1 / 2) white raster8) (1 * width raster8 + 2) = 1 / 2
   \<and> frameBuffer (setPixelWithDepth 2 1 (1 / 2) white raster8) ((1 * width raster8 + 2) * 3) = red white
   \<and> depthBuffer raster8 (1 * width raster8 + 2) \<le> 1
   \<and> setPixelWithDepth 2 1 1 white raster8 = raster8"
proof -
  have h: "isInBounds raster8 2 1" "1 / 2 < depthBuffer raster8 (1 * width raster8 + 2)"
    "depthBuffer raster8 (1 * width raster8 + 2) \<le> 1"
    by (simp_all add: isInBounds_def raster8_def)
  from depth_test_strict [OF h(1), of "1 / 2" white] depth_test_strict [OF h(1), of 1 white] h
  show ?thesis by blast
qed

section \<open>Lines, circles and wireframes never touch the depth buffer (C10)\<close>

lemma call_plain_depth: "\<not> depthTested k \<Longrightarrow> depthBuffer (call k s) = depthBuffer s"
  by (cases k) simp_all

lemma run_plain_depth:
  "\<forall>k \<in> set ks. \<not> depthTested k \<Longrightarrow> depthBuffer (run ks s) = depthBuffer s"
  by (induction ks arbitrary: s) (simp_all add: call_plain_depth)

lemma drawLineLowLoop_plain:
  "k \<in> set (drawLineLowLoop x x2 y D dx dy yi c) \<Longrightarrow> \<not> depthTested k"
proof (induction x x2 y D dx dy yi c rule: drawLineLowLoop.induct)
  case (1 x x2 y D dx dy yi c)
  then show ?case
    by (subst (asm) (2) drawLineLowLoop.simps) (auto split: if_splits)
qed

lemma drawLineHighLoop_plain:
  "k \<in> set (drawLineHighLoop y y2 x D dx dy xi c) \<Longrightarrow> \<not> depthTested k"
proof (induction y y2 x D dx dy xi c rule: drawLineHighLoop.induct)
  case (1 y y2 x D dx dy xi c)
  then show ?case
    by (subst (asm) (2) drawLineHighLoop.simps) (auto split: if_splits)
qed

lemma draw_line_plain: "k \<in> set (draw_line x1 y1 x2 y2 c) \<Longrightarrow> \<not> depthTested k"
  by (auto simp: draw_line_def drawLineLow_def drawLineHigh_def Let_def
      dest: drawLineLowLoop_plain drawLineHighLoop_plain split: if_splits)

lemma drawCirclePoints_plain: "k \<in> set (drawCirclePoints xc yc x y c) \<Longrightarrow> \<not> depthTested k"
  by (auto simp: drawCirclePoints_def)

lemma draw_circle_loop_plain:
  "k \<in> set (draw_circle_loop xc yc x y d c) \<Longrightarrow> \<not> depthTested k"
proof (induction xc yc x y d c rule: draw_circle_loop.induct)
  case (1 xc yc x y d c)
  then show ?case
    by (subst (asm) (3) draw_circle_loop.simps)
       (auto split: if_splits dest: drawCirclePoints_plain)
qed

lemma draw_circle_plain: "k \<in> set (draw_circle xc yc r c) \<Longrightarrow> \<not> depthTested k"
  by (auto simp: draw_circle_def dest: drawCirclePoints_plain draw_circle_loop_plain)

lemma drawWireframeTriangle_plain:
  "k \<in> set (drawWireframeTriangle v1 v2 v3 c) \<Longrightarrow> \<not> depthTested k"
  by (auto simp: drawWireframeTriangle_def Let_def dest: draw_line_plain)

text \<open>
  Claim C10. \<^const>\<open>draw_line\<close>, \<^const>\<open>draw_circle\<close> and
  \<^const>\<open>drawWireframeTriangle\<close> issue only \<^const>\<open>SetPixel\<close> calls, which neither
  test nor record depth, so for every input the whole depth buffer is the same
  after the call as before.
\<close>

theorem outlines_keep_depth:
  "depthBuffer (run (draw_line x1 y1 x2 y2 c) s) = depthBuffer s
   \<and> depthBuffer (run (draw_circle xc yc r c) s) = depthBuffer s
   \<and> depthBuffer (run (drawWireframeTriangle v1 v2 v3 c) s) = depthBuffer s
   \<and> (\<forall>k \<in> set (draw_line x1 y1 x2 y2 c) \<union> set (draw_circle xc yc r c)
          \<union> set (drawWireframeTriangle v1 v2 v3 c). \<not> depthTested k)"
  using draw_line_plain draw_circle_plain drawWireframeTriangle_plain
  by (auto intro!: run_plain_depth)

theorem outlines_keep_depth_witness:
  "depthBuffer (run (draw_line 0 0 5 2 white) raster8) = depthBuffer raster8
   \<and> depthBuffer (run (draw_circle 4 4 3 white) raster8) = depthBuffer raster8
   \<and> SetPixel 0 0 white \<in> set (draw_line 0 0 5 2 white)
   \<and> \<not> depthTested (SetPixel 0 0 white)"
proof -
  have h: "SetPixel 0 0 white \<in> set (draw_line 0 0 5 2 white)"
    by (simp add: draw_line_def drawLineLow_def drawLineLowLoop.simps)
  from outlines_keep_depth [of 0 0 5 2 white raster8 4 4 3] h show ?thesis by blast
qed

section \<open>Line symmetry (C9)\<close>



section \<open>The radius-3 circle (C8)\<close>

lemma plotted_circle3_origin: "plotted (draw_circle 0 0 3 c) = circle3"
  by (auto simp add: plotted_def draw_circle_def draw_circle_loop.simps
      drawCirclePoints_def circle3_def)

text \<open>
  Claim C8. The pixels that \<^verbatim>\<open>draw_circle(0, 0, 3, c)\<close> touches, that is, the
  coordinates it passes to \<^const>\<open>setPixel\<close>, are exactly the sixteen points of
  \<^const>\<open>circle3\<close>, and they are sixteen distinct points. The centre is the origin,
  so the coordinates relative to the centre are the coordinates themselves.
\<close>

theorem circle3_touched:
  "plotted (draw_circle 0 0 3 c) = circle3 \<and> card (plotted (draw_circle 0 0 3 c)) = 16"
proof -
  have "plotted (draw_circle 0 0 3 c) = circle3"
    by (auto simp add: plotted_def draw_circle_def draw_circle_loop.simps
        drawCirclePoints_def circle3_def)
  moreover have "card circle3 = 16"
    by (simp add: circle3_def)
  ultimately show ?thesis by simp
qed

text \<open>
  Which of the sixteen touched pixels reach the frame buffer is decided by the
  bounds check of \<^const>\<open>setPixel\<close>: with the centre at the origin eleven of them
  have a negative coordinate, and on the 8 by 8 rasterizer five are stored.
\<close>

lemma circle3_origin_stored:
  "written raster8 (draw_circle 0 0 3 white) = {(3,0),(0,3),(1,3),(3,1),(2,2)}"
  unfolding written_def plotted_circle3_origin
  by (auto simp: circle3_def raster8_def isInBounds_def)


section \<open>What the scanline fills plot\<close>

lemma scanline_iff:
  "k \<in> set (scanline x xEnd y v1 v2 v3) \<longleftrightarrow>
     (\<exists>x'. x \<le> x' \<and> x' < xEnd \<and> k = shadePixel v1 v2 v3 x' y)"
proof (induction x xEnd y v1 v2 v3 rule: scanline.induct)
  case (1 x xEnd y v1 v2 v3)
  show ?case
  proof (cases "x < xEnd")
    case True
    have "k \<in> set (scanline x xEnd y v1 v2 v3) \<longleftrightarrow>
        k = shadePixel v1 v2 v3 x y \<or> k \<in> set (scanline (x + 1) xEnd y v1 v2 v3)"
      using True by (subst scanline.simps) simp
    also have "\<dots> \<longleftrightarrow> k = shadePixel v1 v2 v3 x y \<or>
        (\<exists>x'. x + 1 \<le> x' \<and> x' < xEnd \<and> k = shadePixel v1 v2 v3 x' y)"
      using "1.IH" [OF True] by simp
    also have "\<dots> \<longleftrightarrow> (\<exists>x'. x \<le> x' \<and> x' < xEnd \<and> k = shadePixel v1 v2 v3 x' y)"
      using True by (metis add1_zle_eq order_le_less)
    finally show ?thesis .
  next
    case False
    then show ?thesis by (subst scanline.simps) auto
  qed
qed

lemma flatBottomRows_iff:
  "k \<in> set (flatBottomRows y endY x1 x2 i1 i2 v1 v2 v3) \<longleftrightarrow>
     (\<exists>y' x'. y \<le> y' \<and> y' < endY
        \<and> \<lceil>x1 + real_of_int (y' - y) * i1\<rceil> \<le> x' \<and> x' < \<lceil>x2 + real_of_int (y' - y) * i2\<rceil>
        \<and> k = shadePixel v1 v2 v3 x' y')"
proof (induction y endY x1 x2 i1 i2 v1 v2 v3 rule: flatBottomRows.induct)
  case (1 y endY x1 x2 i1 i2 v1 v2 v3)
  show ?case
  proof (cases "y < endY")
    case True
    have step: "k \<in> set (flatBottomRows y endY x1 x2 i1 i2 v1 v2 v3) \<longleftrightarrow>
        k \<in> set (scanline \<lceil>x1\<rceil> \<lceil>x2\<rceil> y v1 v2 v3) \<or>
        k \<in> set (flatBottomRows (y + 1) endY (x1 + i1) (x2 + i2) i1 i2 v1 v2 v3)"
      using True by (subst flatBottomRows.simps) simp
    have shift: "x + i + real_of_int (y' - (y + 1)) * i = x + real_of_int (y' - y) * i"
      for x i :: real and y' :: int
      by (simp add: algebra_simps)
    show ?thesis
    proof
      assume "k \<in> set (flatBottomRows y endY x1 x2 i1 i2 v1 v2 v3)"
      with step consider "k \<in> set (scanline \<lceil>x1\<rceil> \<lceil>x2\<rceil> y v1 v2 v3)"
        | "k \<in> set (flatBottomRows (y + 1) endY (x1 + i1) (x2 + i2) i1 i2 v1 v2 v3)"
        by blast
      then show "\<exists>y' x'. y \<le> y' \<and> y' < endY
        \<and> \<lceil>x1 + real_of_int (y' - y) * i1\<rceil> \<le> x' \<and> x' < \<lceil>x2 + real_of_int (y' - y) * i2\<rceil>
        \<and> k = shadePixel v1 v2 v3 x' y'"
      proof cases
        case 1
        then obtain x' where "\<lceil>x1\<rceil> \<le> x'" "x' < \<lceil>x2\<rceil>" "k = shadePixel v1 v2 v3 x' y"
          by (auto simp: scanline_iff)
        with True show ?thesis by (intro exI [of _ y] exI [of _ x']) simp
      next
        case 2
        with "1.IH" [OF True] obtain y' x' where
          "y + 1 \<le> y'" "y' < endY"
          "\<lceil>x1 + i1 + real_of_int (y' - (y + 1)) * i1\<rceil> \<le> x'"
          "x' < \<lceil>x2 + i2 + real_of_int (y' - (y + 1)) * i2\<rceil>"
          "k = shadePixel v1 v2 v3 x' y'"
          by blast
        then show ?thesis
          unfolding shift by (intro exI [of _ y'] exI [of _ x']) simp
      qed
    next
      assume "\<exists>y' x'. y \<le> y' \<and> y' < endY
        \<and> \<lceil>x1 + real_of_int (y' - y) * i1\<rceil> \<le> x' \<and> x' < \<lceil>x2 + real_of_int (y' - y) * i2\<rceil>
        \<and> k = shadePixel v1 v2 v3 x' y'"
      then obtain y' x' where h: "y \<le> y'" "y' < endY"
        "\<lceil>x1 + real_of_int (y' - y) * i1\<rceil> \<le> x'" "x' < \<lceil>x2 + real_of_int (y' - y) * i2\<rceil>"
        "k = shadePixel v1 v2 v3 x' y'"
        by blast
      show "k \<in> set (flatBottomRows y endY x1 x2 i1 i2 v1 v2 v3)"
      proof (cases "y' = y")
        case True
        with h have "k \<in> set (scanline \<lceil>x1\<rceil> \<lceil>x2\<rceil> y v1 v2 v3)"
          by (auto simp: scanline_iff)
        with step show ?thesis by blast
      next
        case False
        with h have "y + 1 \<le> y'" by simp
        with h have "k \<in> set (flatBottomRows (y + 1) endY (x1 + i1) (x2 + i2) i1 i2 v1 v2 v3)"
          unfolding "1.IH" [OF True] shift by blast
        with step show ?thesis by blast
      qed
    qed
  next
    case False
    then show ?thesis by (subst flatBottomRows.simps) auto
  qed
qed

lemma flatTopRows_iff:
  "k \<in> set (flatTopRows y endY x1 x2 i1 i2 v1 v2 v3) \<longleftrightarrow>
     (\<exists>y' x'. endY < y' \<and> y' \<le> y
        \<and> \<lceil>x1 - real_of_int (y - y') * i1\<rceil> \<le> x' \<and> x' < \<lceil>x2 - real_of_int (y - y') * i2\<rceil>
        \<and> k = shadePixel v1 v2 v3 x' y')"
proof (induction y endY x1 x2 i1 i2 v1 v2 v3 rule: flatTopRows.induct)
  case (1 y endY x1 x2 i1 i2 v1 v2 v3)
  show ?case
  proof (cases "y > endY")
    case True
    have step: "k \<in> set (flatTopRows y endY x1 x2 i1 i2 v1 v2 v3) \<longleftrightarrow>
        k \<in> set (scanline \<lceil>x1\<rceil> \<lceil>x2\<rceil> y v1 v2 v3) \<or>
        k \<in> set (flatTopRows (y - 1) endY (x1 - i1) (x2 - i2) i1 i2 v1 v2 v3)"
      using True by (subst flatTopRows.simps) simp
    have shift: "x - i - real_of_int (y - 1 - y') * i = x - real_of_int (y - y') * i"
      for x i :: real and y' :: int
      by (simp add: algebra_simps)
    show ?thesis
    proof
      assume "k \<in> set (flatTopRows y endY x1 x2 i1 i2 v1 v2 v3)"
      with step consider "k \<in> set (scanline \<lceil>x1\<rceil> \<lceil>x2\<rceil> y v1 v2 v3)"
        | "k \<in> set (flatTopRows (y - 1) endY (x1 - i1) (x2 - i2) i1 i2 v1 v2 v3)"
        by blast
      then show "\<exists>y' x'. endY < y' \<and> y' \<le> y
        \<and> \<lceil>x1 - real_of_int (y - y') * i1\<rceil> \<le> x' \<and> x' < \<lceil>x2 - real_of_int (y - y') * i2\<rceil>
        \<and> k = shadePixel v1 v2 v3 x' y'"
      proof cases
        case 1
        then obtain x' where "\<lceil>x1\<rceil> \<le> x'" "x' < \<lceil>x2\<rceil>" "k = shadePixel v1 v2 v3 x' y"
          by (auto simp: scanline_iff)
        with True show ?thesis by (intro exI [of _ y] exI [of _ x']) simp
      next
        case 2
        with "1.IH" [OF True] obtain y' x' where
          "endY < y'" "y' \<le> y - 1"
          "\<lceil>x1 - i1 - real_of_int (y - 1 - y') * i1\<rceil> \<le> x'"
          "x' < \<lceil>x2 - i2 - real_of_int (y - 1 - y') * i2\<rceil>"
          "k = shadePixel v1 v2 v3 x' y'"
          by blast
        then show ?thesis
          unfolding shift by (intro exI [of _ y'] exI [of _ x']) simp
      qed
    next
      assume "\<exists>y' x'. endY < y' \<and> y' \<le> y
        \<and> \<lceil>x1 - real_of_int (y - y') * i1\<rceil> \<le> x' \<and> x' < \<lceil>x2 - real_of_int (y - y') * i2\<rceil>
        \<and> k = shadePixel v1 v2 v3 x' y'"
      then obtain y' x' where h: "endY < y'" "y' \<le> y"
        "\<lceil>x1 - real_of_int (y - y') * i1\<rceil> \<le> x'" "x' < \<lceil>x2 - real_of_int (y - y') * i2\<rceil>"
        "k = shadePixel v1 v2 v3 x' y'"
        by blast
      show "k \<in> set (flatTopRows y endY x1 x2 i1 i2 v1 v2 v3)"
      proof (cases "y' = y")
        case True
        with h have "k \<in> set (scanline \<lceil>x1\<rceil> \<lceil>x2\<rceil> y v1 v2 v3)"
          by (auto simp: scanline_iff)
        with step show ?thesis by blast
      next
        case False
        with h have "y' \<le> y - 1" by simp
        with h have "k \<in> set (flatTopRows (y - 1) endY (x1 - i1) (x2 - i2) i1 i2 v1 v2 v3)"
          unfolding "1.IH" [OF True] shift by blast
        with step show ?thesis by blast
      qed
    qed
  next
    case False
    then show ?thesis by (subst flatTopRows.simps) auto
  qed
qed

lemma flatBottomRows_members:
  "k \<in> set (flatBottomRows y endY x1 x2 i1 i2 v1 v2 v3) \<Longrightarrow>
     \<exists>x' y'. y \<le> y' \<and> y' < endY \<and> k = shadePixel v1 v2 v3 x' y'"
  unfolding flatBottomRows_iff by blast

lemma flatTopRows_members:
  "k \<in> set (flatTopRows y endY x1 x2 i1 i2 v1 v2 v3) \<Longrightarrow>
     \<exists>x' y'. endY < y' \<and> y' \<le> y \<and> k = shadePixel v1 v2 v3 x' y'"
  unfolding flatTopRows_iff by blast

lemma fillFlatBottomTriangle_members:
  "k \<in> set (fillFlatBottomTriangle v1 v2 v3 g) \<Longrightarrow>
     \<exists>x y. \<lceil>vy (position v1)\<rceil> \<le> y \<and> y < \<lceil>vy (position v2)\<rceil> \<and> k = shadePixel v1 v2 v3 x y"
  by (auto simp: fillFlatBottomTriangle_def Let_def dest: flatBottomRows_members)

lemma fillFlatTopTriangle_members:
  "k \<in> set (fillFlatTopTriangle v1 v2 v3 g) \<Longrightarrow>
     \<exists>x y. \<lceil>vy (position v1)\<rceil> < y \<and> y \<le> \<lceil>vy (position v3)\<rceil> \<and> k = shadePixel v1 v2 v3 x y"
  by (auto simp: fillFlatTopTriangle_def Let_def dest: flatTopRows_members)

lemma sorted_vertices:
  "sortByY [v1, v2, v3] = [vtopOf v1 v2 v3, vmidOf v1 v2 v3, vbotOf v1 v2 v3]"
  "{vtopOf v1 v2 v3, vmidOf v1 v2 v3, vbotOf v1 v2 v3} = {v1, v2, v3}"
  "vy (position (vtopOf v1 v2 v3)) \<le> vy (position (vmidOf v1 v2 v3))"
  "vy (position (vmidOf v1 v2 v3)) \<le> vy (position (vbotOf v1 v2 v3))"
  by (auto simp: vtopOf_def vmidOf_def vbotOf_def sortByY_def)

lemma drawTriangle_members:
  assumes "k \<in> set (drawTriangle v1 v2 v3 g)"
  shows "\<exists>x y.
     (if vy (position (vmidOf v1 v2 v3)) = vy (position (vbotOf v1 v2 v3))
         \<or> vy (position (vtopOf v1 v2 v3)) = vy (position (vmidOf v1 v2 v3))
      then k = shadePixel (vtopOf v1 v2 v3) (vmidOf v1 v2 v3) (vbotOf v1 v2 v3) x y
      else (y < \<lceil>vy (position (vmidOf v1 v2 v3))\<rceil> \<and>
            k = shadePixel (vtopOf v1 v2 v3) (vmidOf v1 v2 v3)
                  (splitVertex (vtopOf v1 v2 v3) (vmidOf v1 v2 v3) (vbotOf v1 v2 v3)) x y)
         \<or> (\<lceil>vy (position (vmidOf v1 v2 v3))\<rceil> < y \<and>
            k = shadePixel (vmidOf v1 v2 v3)
                  (splitVertex (vtopOf v1 v2 v3) (vmidOf v1 v2 v3) (vbotOf v1 v2 v3))
                  (vbotOf v1 v2 v3) x y))"
  using assms
  unfolding drawTriangle_def Let_def vtopOf_def [symmetric] vmidOf_def [symmetric]
    vbotOf_def [symmetric]
  by (auto split: if_splits dest!: fillFlatBottomTriangle_members fillFlatTopTriangle_members)

section \<open>The fills divide by nonzero heights\<close>

lemma splitVertex_y:
  assumes "vy (position a) \<noteq> vy (position b)"
  shows "vy (position (splitVertex a m b)) = vy (position m)"
proof -
  define D where "D = vy (position b) - vy (position a)"
  define t where "t = (vy (position m) - vy (position a)) / D"
  from assms have "D \<noteq> 0" by (simp add: D_def)
  then have "D * t = vy (position m) - vy (position a)" by (simp add: t_def)
  moreover have "mix (vy (position a)) (vy (position b)) t = vy (position a) + D * t"
    by (simp add: mix_def D_def algebra_simps)
  ultimately have "mix (vy (position a)) (vy (position b)) t = vy (position m)" by simp
  then show ?thesis
    by (simp add: splitVertex_def Let_def mix4_def t_def D_def)
qed

text \<open>
  The divisors of the inverse slopes are not zero in any of the fills that
  \<^const>\<open>drawTriangle\<close> starts, so the convention \<open>x / 0 = 0\<close> of HOL is never used
  there.
\<close>

lemma fill_divisors_nonzero:
  assumes "vy (position a) \<noteq> vy (position b)"
  shows "vy (position m) = vy (position b) \<Longrightarrow>
           vy (position m) - vy (position a) \<noteq> 0 \<and> vy (position b) - vy (position a) \<noteq> 0"
    and "vy (position a) = vy (position m) \<Longrightarrow>
           vy (position b) - vy (position a) \<noteq> 0 \<and> vy (position b) - vy (position m) \<noteq> 0"
    and "vy (position m) \<noteq> vy (position b) \<Longrightarrow> vy (position a) \<noteq> vy (position m) \<Longrightarrow>
           vy (position m) - vy (position a) \<noteq> 0
           \<and> vy (position (splitVertex a m b)) - vy (position a) \<noteq> 0
           \<and> vy (position b) - vy (position m) \<noteq> 0
           \<and> vy (position b) - vy (position (splitVertex a m b)) \<noteq> 0"
  using assms by (simp_all add: splitVertex_y)

section \<open>Constant depth and one call per pixel\<close>

lemma computeBarycentric_sum:
  "vx (computeBarycentric x y p q r) + vy (computeBarycentric x y p q r)
     + vz (computeBarycentric x y p q r) = 1"
  by (simp add: computeBarycentric_def Let_def)

lemma coords_shadePixel [simp]: "coords (shadePixel v1 v2 v3 x y) = (x, y)"
  by (simp add: shadePixel_def Let_def)

lemma shadePixel_const_depth:
  assumes "vz (position v1) = z" "vz (position v2) = z" "vz (position v3) = z"
  shows "\<exists>c. shadePixel v1 v2 v3 x y = SetPixelWithDepth x y z c"
proof -
  have "vx b * z + vy b * z + vz b * z = (vx b + vy b + vz b) * z" for b :: vec3
    by (simp add: algebra_simps)
  then show ?thesis
    using assms by (simp add: shadePixel_def Let_def baryAt_def computeBarycentric_sum)
qed

lemma splitVertex_const_depth:
  "vz (position a) = z \<Longrightarrow> vz (position b) = z \<Longrightarrow> vz (position (splitVertex a m b)) = z"
  by (simp add: splitVertex_def Let_def mix4_def mix_def algebra_simps)

lemma sorted_vertices_mem:
  "vtopOf v1 v2 v3 \<in> {v1, v2, v3}" "vmidOf v1 v2 v3 \<in> {v1, v2, v3}"
  "vbotOf v1 v2 v3 \<in> {v1, v2, v3}"
  using sorted_vertices(2) [of v1 v2 v3] by blast+

lemma drawTriangle_const_depth:
  assumes "vz (position v1) = z" "vz (position v2) = z" "vz (position v3) = z"
    and "k \<in> set (drawTriangle v1 v2 v3 g)"
  shows "\<exists>x y c. k = SetPixelWithDepth x y z c"
proof -
  have t: "vz (position (vtopOf v1 v2 v3)) = z"
    and m: "vz (position (vmidOf v1 v2 v3)) = z"
    and b: "vz (position (vbotOf v1 v2 v3)) = z"
    using sorted_vertices_mem [of v1 v2 v3] assms(1-3) by auto
  note s = splitVertex_const_depth [OF t b, of "vmidOf v1 v2 v3"]
  from drawTriangle_members [OF assms(4)] obtain x y where
    "k = shadePixel (vtopOf v1 v2 v3) (vmidOf v1 v2 v3) (vbotOf v1 v2 v3) x y
     \<or> k = shadePixel (vtopOf v1 v2 v3) (vmidOf v1 v2 v3)
            (splitVertex (vtopOf v1 v2 v3) (vmidOf v1 v2 v3) (vbotOf v1 v2 v3)) x y
     \<or> k = shadePixel (vmidOf v1 v2 v3)
            (splitVertex (vtopOf v1 v2 v3) (vmidOf v1 v2 v3) (vbotOf v1 v2 v3))
            (vbotOf v1 v2 v3) x y"
    by (auto split: if_splits)
  then show ?thesis
    using shadePixel_const_depth [OF t m b, of x y] shadePixel_const_depth [OF t m s, of x y]
      shadePixel_const_depth [OF m s b, of x y]
    by blast
qed

lemma drawTriangle_functional:
  assumes "k \<in> set (drawTriangle v1 v2 v3 g)" "k' \<in> set (drawTriangle v1 v2 v3 g)"
    and "coords k = coords k'"
  shows "k = k'"
proof -
  from drawTriangle_members [OF assms(1)] obtain x y where k:
    "(if vy (position (vmidOf v1 v2 v3)) = vy (position (vbotOf v1 v2 v3))
         \<or> vy (position (vtopOf v1 v2 v3)) = vy (position (vmidOf v1 v2 v3))
      then k = shadePixel (vtopOf v1 v2 v3) (vmidOf v1 v2 v3) (vbotOf v1 v2 v3) x y
      else (y < \<lceil>vy (position (vmidOf v1 v2 v3))\<rceil> \<and>
            k = shadePixel (vtopOf v1 v2 v3) (vmidOf v1 v2 v3)
                  (splitVertex (vtopOf v1 v2 v3) (vmidOf v1 v2 v3) (vbotOf v1 v2 v3)) x y)
         \<or> (\<lceil>vy (position (vmidOf v1 v2 v3))\<rceil> < y \<and>
            k = shadePixel (vmidOf v1 v2 v3)
                  (splitVertex (vtopOf v1 v2 v3) (vmidOf v1 v2 v3) (vbotOf v1 v2 v3))
                  (vbotOf v1 v2 v3) x y))"
    by blast
  from drawTriangle_members [OF assms(2)] obtain x' y' where k':
    "(if vy (position (vmidOf v1 v2 v3)) = vy (position (vbotOf v1 v2 v3))
         \<or> vy (position (vtopOf v1 v2 v3)) = vy (position (vmidOf v1 v2 v3))
      then k' = shadePixel (vtopOf v1 v2 v3) (vmidOf v1 v2 v3) (vbotOf v1 v2 v3) x' y'
      else (y' < \<lceil>vy (position (vmidOf v1 v2 v3))\<rceil> \<and>
            k' = shadePixel (vtopOf v1 v2 v3) (vmidOf v1 v2 v3)
                  (splitVertex (vtopOf v1 v2 v3) (vmidOf v1 v2 v3) (vbotOf v1 v2 v3)) x' y')
         \<or> (\<lceil>vy (position (vmidOf v1 v2 v3))\<rceil> < y' \<and>
            k' = shadePixel (vmidOf v1 v2 v3)
                  (splitVertex (vtopOf v1 v2 v3) (vmidOf v1 v2 v3) (vbotOf v1 v2 v3))
                  (vbotOf v1 v2 v3) x' y'))"
    by blast
  from k have ck: "coords k = (x, y)" by (auto split: if_splits)
  from k' have ck': "coords k' = (x', y')" by (auto split: if_splits)
  from ck ck' assms(3) have "x' = x" "y' = y" by simp_all
  with k k' show ?thesis by (auto split: if_splits)
qed

section \<open>The sample triangle\<close>

lemma tri_sorted:
  "vtopOf triA triM triB = triA" "vmidOf triA triM triB = triM" "vbotOf triA triM triB = triB"
  by (simp_all add: vtopOf_def vmidOf_def vbotOf_def sortByY_def triA_def triM_def triB_def)

lemma tri_split_position:
  "position (splitVertex triA triM triB) = \<lparr>vx = 8, vy = 4, vz = 1 / 5, vw = 1\<rparr>"
  by (simp add: splitVertex_def Let_def mix4_def mix_def triA_def triM_def triB_def)

lemma tri_split_color:
  "color (splitVertex triA triM triB) = mkColor 3 0 0"
  by (simp add: splitVertex_def Let_def triA_def triM_def triB_def mkColor_def chan_def
      toUint8_def truncToInt_def)

lemma tri_position:
  "position triA = \<lparr>vx = 8, vy = 0, vz = 1 / 5, vw = 1\<rparr>"
  "position triM = \<lparr>vx = 0, vy = 4, vz = 1 / 5, vw = 1\<rparr>"
  "position triB = \<lparr>vx = 8, vy = 8, vz = 1 / 5, vw = 1\<rparr>"
  by (simp_all add: triA_def triM_def triB_def)

lemma tri_color:
  "color triA = mkColor 0 0 0" "color triM = mkColor 0 0 0" "color triB = mkColor 7 0 0"
  by (simp_all add: triA_def triM_def triB_def)

lemma tri_bary_split:
  "baryAt triA triM (splitVertex triA triM triB) 7 3 = \<lparr>vx = 1 / 4, vy = 1 / 8, vz = 5 / 8\<rparr>"
  by (simp add: baryAt_def computeBarycentric_def screenXY_def Let_def tri_split_position
      tri_position)

lemma tri_bary_orig:
  "baryAt triA triM triB 7 3 = \<lparr>vx = 9 / 16, vy = 1 / 8, vz = 5 / 16\<rparr>"
  by (simp add: baryAt_def computeBarycentric_def screenXY_def Let_def tri_position)

lemma tri_shade_split:
  "shadePixel triA triM (splitVertex triA triM triB) 7 3
     = SetPixelWithDepth 7 3 (1 / 5) (mkColor 1 0 0)"
  by (simp add: shadePixel_def Let_def tri_bary_split tri_split_position tri_split_color
      tri_position tri_color)
     (simp add: mkColor_def chan_def toUint8_def truncToInt_def)

lemma tri_shade_orig:
  "shadePixel triA triM triB 7 3 = SetPixelWithDepth 7 3 (1 / 5) (mkColor 2 0 0)"
  by (simp add: shadePixel_def Let_def tri_bary_orig tri_position tri_color)
     (simp add: mkColor_def chan_def toUint8_def truncToInt_def)

lemma tri_member:
  "shadePixel triA triM (splitVertex triA triM triB) 7 3 \<in> set (drawTriangle triA triM triB True)"
proof -
  have "shadePixel triA triM (splitVertex triA triM triB) 7 3
      \<in> set (fillFlatBottomTriangle triA triM (splitVertex triA triM triB) True)"
    unfolding fillFlatBottomTriangle_def Let_def flatBottomRows_iff tri_split_position
    by (intro exI [of _ 3] exI [of _ 7]) (simp add: tri_position)
  then show ?thesis
    unfolding drawTriangle_def Let_def vtopOf_def [symmetric] vmidOf_def [symmetric]
      vbotOf_def [symmetric] tri_sorted
    by (simp add: tri_position)
qed

section \<open>Depth-tested writes at different depths commute\<close>

lemma setPixelWithDepth_commute:
  assumes "d \<noteq> d'"
  shows "setPixelWithDepth x y d c (setPixelWithDepth x' y' d' c' s)
       = setPixelWithDepth x' y' d' c' (setPixelWithDepth x y d c s)"
proof (cases "isInBounds s x y \<and> isInBounds s x' y'")
  case False
  then show ?thesis
    by (auto simp: setPixelWithDepth_def Let_def isInBounds_def)
next
  case True
  show ?thesis
  proof (cases "y * width s + x = y' * width s + x'")
    case same: True
    with True assms show ?thesis
      by (auto simp: setPixelWithDepth_def Let_def isInBounds_def)
  next
    case diff: False
    with True show ?thesis
      by (auto simp: setPixelWithDepth_def Let_def isInBounds_def fun_eq_iff
          intro!: Rasterizer.equality)
  qed
qed


lemma call_run_commute:
  assumes "allDepth z ks" "z \<noteq> d"
  shows "call (SetPixelWithDepth x y d c) (run ks s) = run ks (call (SetPixelWithDepth x y d c) s)"
  using assms(1)
proof (induction ks arbitrary: s)
  case Nil
  then show ?case by simp
next
  case (Cons k ks)
  from Cons.prems obtain x' y' c' where k: "k = SetPixelWithDepth x' y' z c'"
    by (auto simp: allDepth_def)
  from Cons.prems have "allDepth z ks" by (simp add: allDepth_def)
  from Cons.IH [OF this] show ?case
    using assms(2) by (simp add: k setPixelWithDepth_commute [of d z])
qed

lemma run_run_commute:
  assumes "allDepth z ks" "allDepth z' ks'" "z \<noteq> z'"
  shows "run ks' (run ks s) = run ks (run ks' s)"
  using assms(2)
proof (induction ks' arbitrary: s)
  case Nil
  then show ?case by simp
next
  case (Cons k ks')
  from Cons.prems obtain x y c where k: "k = SetPixelWithDepth x y z' c"
    by (auto simp: allDepth_def)
  from Cons.prems have "allDepth z' ks'" by (simp add: allDepth_def)
  from Cons.IH [OF this, of "call k s"] have "run ks (run (k # ks') s) = run ks' (run ks (call k s))"
    by simp
  also have "run ks (call k s) = call k (run ks s)"
    unfolding k by (rule call_run_commute [OF assms(1,3), symmetric])
  finally show ?case by simp
qed

lemma clearDepthLoop_cell:
  "clearDepthLoop i n db j = (if i \<le> j \<and> j < n then 1 else db j)"
proof (induction i n db rule: clearDepthLoop.induct)
  case (1 i n db)
  show ?case
  proof (cases "i < n")
    case True
    then have "clearDepthLoop i n db j = clearDepthLoop (i + 1) n (db(i := 1)) j"
      by (subst clearDepthLoop.simps) simp
    also have "\<dots> = (if i + 1 \<le> j \<and> j < n then 1 else (db(i := 1)) j)"
      by (rule "1.IH" [OF True])
    also have "\<dots> = (if i \<le> j \<and> j < n then 1 else db j)"
      using True by auto
    finally show ?thesis .
  next
    case False
    then show ?thesis by (subst clearDepthLoop.simps) auto
  qed
qed

lemma mod3_cells:
  "(k * 3) mod 3 = (0::int)" "(k * 3 + 1) mod 3 = (1::int)" "(k * 3 + 2) mod 3 = (2::int)"
  by simp_all

lemma clearFrameLoop_cell:
  "clearFrameLoop i n cc fb j =
     (if i * 3 \<le> j \<and> j < n * 3
      then (if j mod 3 = 0 then red cc else if j mod 3 = 1 then green cc else blue cc)
      else fb j)"
proof (induction i n cc fb rule: clearFrameLoop.induct)
  case (1 i n cc fb)
  show ?case
  proof (cases "i < n")
    case True
    let ?fb = "fb(i * 3 + 0 := red cc, i * 3 + 1 := green cc, i * 3 + 2 := blue cc)"
    let ?F = "if j mod 3 = 0 then red cc else if j mod 3 = 1 then green cc else blue cc"
    from True have "clearFrameLoop i n cc fb j = clearFrameLoop (i + 1) n cc ?fb j"
      by (subst clearFrameLoop.simps) simp
    also have "\<dots> = (if (i + 1) * 3 \<le> j \<and> j < n * 3 then ?F else ?fb j)"
      by (rule "1.IH" [OF True])
    also have "\<dots> = (if i * 3 \<le> j \<and> j < n * 3 then ?F else fb j)"
    proof -
      have "j = i * 3 \<or> j = i * 3 + 1 \<or> j = i * 3 + 2 \<or> j < i * 3 \<or> (i + 1) * 3 \<le> j"
        by arith
      then consider "j = i * 3" | "j = i * 3 + 1" | "j = i * 3 + 2" | "j < i * 3"
        | "(i + 1) * 3 \<le> j"
        by blast
      then show ?thesis
      proof cases
        case 1
        with True mod3_cells(1) [of i] show ?thesis by simp
      next
        case 2
        with True mod3_cells(2) [of i] show ?thesis by simp
      next
        case 3
        with True mod3_cells(3) [of i] show ?thesis by simp
      next
        case 4
        then show ?thesis by simp
      next
        case 5
        then show ?thesis by simp
      qed
    qed
    finally show ?thesis .
  next
    case False
    then show ?thesis by (subst clearFrameLoop.simps) auto
  qed
qed

lemma clearBuffers_width [simp]: "width (clearBuffers cc s) = width s"
  and clearBuffers_height [simp]: "height (clearBuffers cc s) = height s"
  by (simp_all add: clearBuffers_def)

lemma clearBuffers_depth: "depthCell s i \<Longrightarrow> depthBuffer (clearBuffers cc s) i = 1"
  by (simp add: clearBuffers_def clearDepthLoop_cell depthCell_def)

lemma clearFrameLoop_pixel:
  assumes "0 \<le> k" "k < n"
  shows "clearFrameLoop 0 n cc fb (k * 3) = red cc"
    and "clearFrameLoop 0 n cc fb (k * 3 + 1) = green cc"
    and "clearFrameLoop 0 n cc fb (k * 3 + 2) = blue cc"
  using assms by (simp_all add: clearFrameLoop_cell)

lemma clearBuffers_pixel:
  assumes "isInBounds s x y"
  shows "pixelAt (clearBuffers cc s) x y = rgb cc \<and> depthAt (clearBuffers cc s) x y = 1"
proof -
  from pixel_index_bounds [OF assms]
  have b: "0 \<le> y * width s + x" "y * width s + x < width s * height s" .
  from b clearFrameLoop_pixel [OF b, of cc "frameBuffer s"] show ?thesis
    by (simp add: pixelAt_def depthAt_def rgb_def clearBuffers_def clearDepthLoop_cell)
qed

section \<open>Pixel-level effect of a depth-tested pass\<close>

lemma setPixelWithDepth_same:
  assumes "isInBounds s x y"
  shows "depth < depthAt s x y \<Longrightarrow>
           pixelAt (setPixelWithDepth x y depth c s) x y = rgb c
           \<and> depthAt (setPixelWithDepth x y depth c s) x y = depth"
    and "\<not> depth < depthAt s x y \<Longrightarrow> setPixelWithDepth x y depth c s = s"
  using assms
  by (simp_all add: setPixelWithDepth_def Let_def pixelAt_def depthAt_def rgb_def)

lemma setPixelWithDepth_other:
  assumes "isInBounds s x' y'" "(x, y) \<noteq> (x', y')"
  shows "pixelAt (setPixelWithDepth x y depth c s) x' y' = pixelAt s x' y'"
    and "depthAt (setPixelWithDepth x y depth c s) x' y' = depthAt s x' y'"
proof -
  have "isInBounds s x y \<Longrightarrow> y * width s + x \<noteq> y' * width s + x'"
    using assms pixel_index_inj [of s x y x' y'] by auto
  then show "pixelAt (setPixelWithDepth x y depth c s) x' y' = pixelAt s x' y'"
    and "depthAt (setPixelWithDepth x y depth c s) x' y' = depthAt s x' y'"
    by (auto simp: setPixelWithDepth_def Let_def pixelAt_def depthAt_def)
qed

lemma noNearerThan_setPixelWithDepth:
  assumes "noNearerThan z s" "z \<le> d"
  shows "noNearerThan z (setPixelWithDepth x y d c s)"
  unfolding noNearerThan_def
proof (intro allI impI)
  fix x' y'
  assume "isInBounds (setPixelWithDepth x y d c s) x' y'"
  then have b: "isInBounds s x' y'" by (simp add: isInBounds_def)
  with assms(1) have old: "z \<le> depthAt s x' y'" by (simp add: noNearerThan_def)
  show "z \<le> depthAt (setPixelWithDepth x y d c s) x' y'"
  proof (cases "(x, y) = (x', y')")
    case True
    with b setPixelWithDepth_same [of s x y d c] old assms(2) show ?thesis
      by (cases "d < depthAt s x y") auto
  next
    case False
    with b old show ?thesis by (simp add: setPixelWithDepth_other)
  qed
qed

lemma noNearerThan_run:
  assumes "allDepth d ks" "z \<le> d" "noNearerThan z s"
  shows "noNearerThan z (run ks s)"
  using assms(1,3)
proof (induction ks arbitrary: s)
  case Nil
  then show ?case by simp
next
  case (Cons k ks)
  from Cons.prems obtain x y c where k: "k = SetPixelWithDepth x y d c"
    by (auto simp: allDepth_def)
  from Cons.prems have "allDepth d ks" by (simp add: allDepth_def)
  moreover have "noNearerThan z (call k s)"
    unfolding k using Cons.prems(2) assms(2) by (simp add: noNearerThan_setPixelWithDepth)
  ultimately show ?case using Cons.IH by simp
qed

text \<open>
  A pass of calls with one depth \<open>z\<close>, at most one colour per pixel, over a
  buffer whose pixels are all farther than \<open>z\<close>: every plotted pixel inside the
  bounds ends with the colour of its call and the depth \<open>z\<close>.
\<close>

lemma nearer_pass_wins:
  assumes "allDepth z ks"
    and "\<forall>k \<in> set ks. \<forall>k' \<in> set ks. coords k = coords k' \<longrightarrow> k = k'"
    and "\<forall>x y. isInBounds s x y \<longrightarrow> z < depthAt s x y"
  shows "(\<forall>x y d c. SetPixelWithDepth x y d c \<in> set ks \<and> isInBounds s x y \<longrightarrow>
            pixelAt (run ks s) x y = rgb c \<and> depthAt (run ks s) x y = z)
       \<and> (\<forall>x y. isInBounds s x y \<and> (x, y) \<notin> plotted ks \<longrightarrow> z < depthAt (run ks s) x y)"
  using assms(1,2)
proof (induction ks rule: rev_induct)
  case Nil
  with assms(3) show ?case by (simp add: plotted_def)
next
  case (snoc k ks)
  from snoc.prems(1) obtain x y c where k: "k = SetPixelWithDepth x y z c"
    by (auto simp: allDepth_def)
  from snoc.prems have pre: "allDepth z ks"
    "\<forall>k \<in> set ks. \<forall>k' \<in> set ks. coords k = coords k' \<longrightarrow> k = k'"
    by (simp_all add: allDepth_def)
  note IH = snoc.IH [OF pre]
  let ?s = "run ks s"
  have run: "run (ks @ [k]) s = setPixelWithDepth x y z c ?s" by (simp add: k)
  have pl: "plotted (ks @ [k]) = insert (x, y) (plotted ks)" by (simp add: plotted_def k)
  show ?case
  proof (cases "isInBounds s x y")
    case False
    then have same: "setPixelWithDepth x y z c ?s = ?s" by (simp add: setPixelWithDepth_def)
    from IH False show ?thesis
      unfolding run same pl using pre(1) by (auto simp: k allDepth_def)
  next
    case inb: True
    then have inb': "isInBounds ?s x y" by simp
    show ?thesis
    proof (cases "(x, y) \<in> plotted ks")
      case True
      then obtain k' where k': "k' \<in> set ks" "coords k' = (x, y)" by (auto simp: plotted_def)
      with snoc.prems(2) have "k' = k" by (simp add: k)
      with k' have "SetPixelWithDepth x y z c \<in> set ks" by (simp add: k)
      with IH inb have "depthAt ?s x y = z" by blast
      with inb' have same: "setPixelWithDepth x y z c ?s = ?s"
        by (simp add: setPixelWithDepth_same(2))
      from True have pl': "plotted (ks @ [k]) = plotted ks" unfolding pl by auto
      from IH \<open>SetPixelWithDepth x y z c \<in> set ks\<close> show ?thesis
        unfolding run same pl' by (auto simp: k)
    next
      case False
      with IH inb have far: "z < depthAt ?s x y" by blast
      from setPixelWithDepth_same(1) [OF inb' far, of c]
      have new: "pixelAt (setPixelWithDepth x y z c ?s) x y = rgb c"
        "depthAt (setPixelWithDepth x y z c ?s) x y = z" by simp_all
      have other: "pixelAt (setPixelWithDepth x y z c ?s) x' y' = pixelAt ?s x' y'"
        "depthAt (setPixelWithDepth x y z c ?s) x' y' = depthAt ?s x' y'"
        if "isInBounds s x' y'" "(x', y') \<noteq> (x, y)" for x' y'
        using that setPixelWithDepth_other [of ?s x' y' x y z c] by auto
      show ?thesis
        unfolding run pl
      proof (intro conjI allI impI)
        fix x' y' d' c'
        assume a: "SetPixelWithDepth x' y' d' c' \<in> set (ks @ [k]) \<and> isInBounds s x' y'"
        show "pixelAt (setPixelWithDepth x y z c ?s) x' y' = rgb c'"
          and "depthAt (setPixelWithDepth x y z c ?s) x' y' = z"
        proof -
          have "pixelAt (setPixelWithDepth x y z c ?s) x' y' = rgb c'
              \<and> depthAt (setPixelWithDepth x y z c ?s) x' y' = z"
          proof (cases "SetPixelWithDepth x' y' d' c' = k")
            case True
            with new show ?thesis by (simp add: k)
          next
            case nk: False
            with a have in_ks: "SetPixelWithDepth x' y' d' c' \<in> set ks" by simp
            then have "(x', y') \<in> plotted ks" by (force simp: plotted_def)
            with False have "(x', y') \<noteq> (x, y)" by auto
            with other a IH in_ks show ?thesis by auto
          qed
          then show "pixelAt (setPixelWithDepth x y z c ?s) x' y' = rgb c'"
            and "depthAt (setPixelWithDepth x y z c ?s) x' y' = z" by simp_all
        qed
      next
        fix x' y'
        assume a: "isInBounds s x' y' \<and> (x', y') \<notin> insert (x, y) (plotted ks)"
        with other IH show "z < depthAt (setPixelWithDepth x y z c ?s) x' y'" by auto
      qed
    qed
  qed
qed


section \<open>Which vertices the fill interpolates from (C3)\<close>

lemma tri_shade_perms:
  "shadePixel triA triM triB 7 3 = SetPixelWithDepth 7 3 (1 / 5) (mkColor 2 0 0)"
  "shadePixel triA triB triM 7 3 = SetPixelWithDepth 7 3 (1 / 5) (mkColor 2 0 0)"
  "shadePixel triM triA triB 7 3 = SetPixelWithDepth 7 3 (1 / 5) (mkColor 2 0 0)"
  "shadePixel triM triB triA 7 3 = SetPixelWithDepth 7 3 (1 / 5) (mkColor 2 0 0)"
  "shadePixel triB triA triM 7 3 = SetPixelWithDepth 7 3 (1 / 5) (mkColor 2 0 0)"
  "shadePixel triB triM triA 7 3 = SetPixelWithDepth 7 3 (1 / 5) (mkColor 2 0 0)"
  by (simp_all add: shadePixel_def Let_def baryAt_def computeBarycentric_def screenXY_def
      tri_position tri_color mkColor_def chan_def toUint8_def truncToInt_def)

lemma tri_not_member:
  "SetPixelWithDepth 7 3 (1 / 5) (mkColor 2 0 0) \<notin> set (drawTriangle triA triM triB True)"
proof
  assume a: "SetPixelWithDepth 7 3 (1 / 5) (mkColor 2 0 0) \<in> set (drawTriangle triA triM triB True)"
  have "coords (SetPixelWithDepth 7 3 (1 / 5) (mkColor 2 0 0))
      = coords (shadePixel triA triM (splitVertex triA triM triB) 7 3)"
    by simp
  from drawTriangle_functional [OF a tri_member this]
  show False by (simp add: tri_shade_split mkColor_def)
qed

text \<open>
  Claim C3, as stated, fails on a triangle that is split. For the sample
  triangle the call issued for the pixel \<open>(7, 3)\<close> comes from the flat-bottom
  fill of the sub-triangle (top, middle, split vertex): its weights are
  \<open>(1/4, 1/8, 5/8)\<close> against those three vertices, and the red channel written
  is 1. The weights of \<open>(7, 3)\<close> against the original three vertices are
  \<open>(9/16, 1/8, 5/16)\<close>, and interpolating from them gives red 2 in whichever
  order the vertices are taken; no such call is issued.
\<close>

theorem split_fill_weights_counterexample:
  "SetPixelWithDepth 7 3 (1 / 5) (mkColor 1 0 0) \<in> set (drawTriangle triA triM triB True)
   \<and> shadePixel triA triM (splitVertex triA triM triB) 7 3
       = SetPixelWithDepth 7 3 (1 / 5) (mkColor 1 0 0)
   \<and> baryAt triA triM (splitVertex triA triM triB) 7 3 = \<lparr>vx = 1 / 4, vy = 1 / 8, vz = 5 / 8\<rparr>
   \<and> baryAt triA triM triB 7 3 = \<lparr>vx = 9 / 16, vy = 1 / 8, vz = 5 / 16\<rparr>
   \<and> shadePixel triA triM triB 7 3 = SetPixelWithDepth 7 3 (1 / 5) (mkColor 2 0 0)
   \<and> shadePixel triA triB triM 7 3 = SetPixelWithDepth 7 3 (1 / 5) (mkColor 2 0 0)
   \<and> shadePixel triM triA triB 7 3 = SetPixelWithDepth 7 3 (1 / 5) (mkColor 2 0 0)
   \<and> shadePixel triM triB triA 7 3 = SetPixelWithDepth 7 3 (1 / 5) (mkColor 2 0 0)
   \<and> shadePixel triB triA triM 7 3 = SetPixelWithDepth 7 3 (1 / 5) (mkColor 2 0 0)
   \<and> shadePixel triB triM triA 7 3 = SetPixelWithDepth 7 3 (1 / 5) (mkColor 2 0 0)
   \<and> SetPixelWithDepth 7 3 (1 / 5) (mkColor 2 0 0) \<notin> set (drawTriangle triA triM triB True)"
  using tri_member tri_not_member
  by (simp add: tri_shade_split tri_bary_split tri_bary_orig tri_shade_perms)

text \<open>
  Claim C3, amended. Every call issued by \<^const>\<open>drawTriangle\<close> is the loop
  body \<^const>\<open>shadePixel\<close> of a scanline fill at some pixel \<open>(x, y)\<close>: the weights
  of \<open>(x, y)\<close> are computed by \<^const>\<open>computeBarycentric\<close> against the three
  vertices that fill was called with, and the depth and the colour passed to
  \<^verbatim>\<open>setPixelWithDepth\<close> are interpolated from those weights and those vertices.
  When the sorted triangle is already flat-bottom or flat-top these are the
  original three vertices. When it is split they are the vertices of the
  sub-triangle: top, middle and split vertex above the middle row, and middle,
  split vertex and bottom below it.
\<close>

theorem fill_weights_against_fill_arguments:
  assumes "k \<in> set (drawTriangle v1 v2 v3 useGouraud)"
  shows "\<exists>x y.
     (if vy (position (vmidOf v1 v2 v3)) = vy (position (vbotOf v1 v2 v3))
         \<or> vy (position (vtopOf v1 v2 v3)) = vy (position (vmidOf v1 v2 v3))
      then k = shadePixel (vtopOf v1 v2 v3) (vmidOf v1 v2 v3) (vbotOf v1 v2 v3) x y
      else (y < \<lceil>vy (position (vmidOf v1 v2 v3))\<rceil> \<and>
            k = shadePixel (vtopOf v1 v2 v3) (vmidOf v1 v2 v3)
                  (splitVertex (vtopOf v1 v2 v3) (vmidOf v1 v2 v3) (vbotOf v1 v2 v3)) x y)
         \<or> (\<lceil>vy (position (vmidOf v1 v2 v3))\<rceil> < y \<and>
            k = shadePixel (vmidOf v1 v2 v3)
                  (splitVertex (vtopOf v1 v2 v3) (vmidOf v1 v2 v3) (vbotOf v1 v2 v3))
                  (vbotOf v1 v2 v3) x y))
     \<and> {vtopOf v1 v2 v3, vmidOf v1 v2 v3, vbotOf v1 v2 v3} = {v1, v2, v3}
     \<and> (\<forall>a b c.
          shadePixel a b c x y =
            SetPixelWithDepth x y
              (vx (baryAt a b c x y) * vz (position a) + vy (baryAt a b c x y) * vz (position b)
               + vz (baryAt a b c x y) * vz (position c))
              (mkColor
                (toUint8 (vx (baryAt a b c x y) * chan (red (color a))
                          + vy (baryAt a b c x y) * chan (red (color b))
                          + vz (baryAt a b c x y) * chan (red (color c))))
                (toUint8 (vx (baryAt a b c x y) * chan (green (color a))
                          + vy (baryAt a b c x y) * chan (green (color b))
                          + vz (baryAt a b c x y) * chan (green (color c))))
                (toUint8 (vx (baryAt a b c x y) * chan (blue (color a))
                          + vy (baryAt a b c x y) * chan (blue (color b))
                          + vz (baryAt a b c x y) * chan (blue (color c)))))
          \<and> baryAt a b c x y = computeBarycentric (real_of_int x) (real_of_int y)
                                  (screenXY a) (screenXY b) (screenXY c))"
proof -
  from drawTriangle_members [OF assms] obtain x y where
    "(if vy (position (vmidOf v1 v2 v3)) = vy (position (vbotOf v1 v2 v3))
         \<or> vy (position (vtopOf v1 v2 v3)) = vy (position (vmidOf v1 v2 v3))
      then k = shadePixel (vtopOf v1 v2 v3) (vmidOf v1 v2 v3) (vbotOf v1 v2 v3) x y
      else (y < \<lceil>vy (position (vmidOf v1 v2 v3))\<rceil> \<and>
            k = shadePixel (vtopOf v1 v2 v3) (vmidOf v1 v2 v3)
                  (splitVertex (vtopOf v1 v2 v3) (vmidOf v1 v2 v3) (vbotOf v1 v2 v3)) x y)
         \<or> (\<lceil>vy (position (vmidOf v1 v2 v3))\<rceil> < y \<and>
            k = shadePixel (vmidOf v1 v2 v3)
                  (splitVertex (vtopOf v1 v2 v3) (vmidOf v1 v2 v3) (vbotOf v1 v2 v3))
                  (vbotOf v1 v2 v3) x y))"
    by blast
  then show ?thesis
    using sorted_vertices(2) [of v1 v2 v3]
    by (intro exI [of _ x] exI [of _ y] conjI) (simp_all add: shadePixel_def baryAt_def Let_def)
qed

theorem fill_weights_against_fill_arguments_witness:
  "shadePixel triA triM (splitVertex triA triM triB) 7 3 \<in> set (drawTriangle triA triM triB True)
   \<and> vy (position (vmidOf triA triM triB)) \<noteq> vy (position (vbotOf triA triM triB))
   \<and> vy (position (vtopOf triA triM triB)) \<noteq> vy (position (vmidOf triA triM triB))
   \<and> (\<exists>x y.
        (y < \<lceil>vy (position triM)\<rceil> \<and>
           shadePixel triA triM (splitVertex triA triM triB) 7 3
             = shadePixel triA triM (splitVertex triA triM triB) x y)
        \<or> (\<lceil>vy (position triM)\<rceil> < y \<and>
           shadePixel triA triM (splitVertex triA triM triB) 7 3
             = shadePixel triM (splitVertex triA triM triB) triB x y))"
proof -
  have h: "vy (position (vmidOf triA triM triB)) \<noteq> vy (position (vbotOf triA triM triB))"
    "vy (position (vtopOf triA triM triB)) \<noteq> vy (position (vmidOf triA triM triB))"
    by (simp_all add: tri_sorted tri_position)
  from fill_weights_against_fill_arguments [OF tri_member] h tri_member
  show ?thesis unfolding tri_sorted by auto
qed

section \<open>Order independence of two depth-tested passes in exact arithmetic\<close>

lemma drawTriangle_allDepth:
  assumes "vz (position v1) = z" "vz (position v2) = z" "vz (position v3) = z"
  shows "allDepth z (drawTriangle v1 v2 v3 g)"
  unfolding allDepth_def using drawTriangle_const_depth [OF assms] by blast

lemma noNearerThan_cleared: "noNearerThan (4 / 5) (clearBuffers cc s)"
  unfolding noNearerThan_def
proof (intro allI impI)
  fix x y
  assume "isInBounds (clearBuffers cc s) x y"
  then have "isInBounds s x y" by (simp add: isInBounds_def)
  then show "4 / 5 \<le> depthAt (clearBuffers cc s) x y" by (simp add: clearBuffers_pixel)
qed

text \<open>
  In exact arithmetic the order of a near and a far pass does not matter. Take
  a triangle whose three vertices have depth 0.2 and one whose three vertices
  have depth 0.8, and start from the buffers left by \<^const>\<open>clearBuffers\<close>.
  Drawing the far one and then the near one leaves, at every pixel inside the
  bounds that the near fill covers, the colour the near fill computes for that
  pixel and the depth 0.2; and drawing them in the other order ends in the same
  rasterizer state. The statement is about \<^const>\<open>drawTriangle\<close>, which
  interpolates without rounding, so that the weights of a pixel sum to 1 and
  every call of a triangle of constant depth carries that depth. The fill on
  binary32 values does not have this property.
\<close>

lemma exact_depth_order_independent:
  assumes near: "vz (position n1) = 1 / 5" "vz (position n2) = 1 / 5" "vz (position n3) = 1 / 5"
    and far: "vz (position f1) = 4 / 5" "vz (position f2) = 4 / 5" "vz (position f3) = 4 / 5"
  shows "(\<forall>x y d c. SetPixelWithDepth x y d c \<in> set (drawTriangle n1 n2 n3 gn)
              \<and> isInBounds s x y \<longrightarrow>
            pixelAt (run (drawTriangle n1 n2 n3 gn)
                      (run (drawTriangle f1 f2 f3 gf) (clearBuffers cc s))) x y = rgb c
            \<and> depthAt (run (drawTriangle n1 n2 n3 gn)
                        (run (drawTriangle f1 f2 f3 gf) (clearBuffers cc s))) x y = 1 / 5)
       \<and> run (drawTriangle f1 f2 f3 gf) (run (drawTriangle n1 n2 n3 gn) (clearBuffers cc s))
           = run (drawTriangle n1 n2 n3 gn) (run (drawTriangle f1 f2 f3 gf) (clearBuffers cc s))"
proof -
  let ?N = "drawTriangle n1 n2 n3 gn" and ?F = "drawTriangle f1 f2 f3 gf"
  let ?s0 = "clearBuffers cc s"
  have N: "allDepth (1 / 5) ?N" by (rule drawTriangle_allDepth [OF near])
  have F: "allDepth (4 / 5) ?F" by (rule drawTriangle_allDepth [OF far])
  have fn: "\<forall>k \<in> set ?N. \<forall>k' \<in> set ?N. coords k = coords k' \<longrightarrow> k = k'"
    using drawTriangle_functional by blast
  have nn: "noNearerThan (4 / 5) (run ?F ?s0)"
    by (rule noNearerThan_run [OF F order_refl noNearerThan_cleared])
  have farther: "\<forall>x y. isInBounds (run ?F ?s0) x y \<longrightarrow> 1 / 5 < depthAt (run ?F ?s0) x y"
  proof (intro allI impI)
    fix x y
    assume "isInBounds (run ?F ?s0) x y"
    with nn have "4 / 5 \<le> depthAt (run ?F ?s0) x y"
      unfolding noNearerThan_def by blast
    then show "1 / 5 < depthAt (run ?F ?s0) x y" by simp
  qed
  have inb: "isInBounds (run ?F ?s0) x y = isInBounds s x y" for x y
    by (simp add: isInBounds_def)
  from nearer_pass_wins [OF N fn farther]
  have "\<forall>x y d c. SetPixelWithDepth x y d c \<in> set ?N \<and> isInBounds s x y \<longrightarrow>
      pixelAt (run ?N (run ?F ?s0)) x y = rgb c \<and> depthAt (run ?N (run ?F ?s0)) x y = 1 / 5"
    unfolding inb by blast
  moreover have "run ?F (run ?N ?s0) = run ?N (run ?F ?s0)"
    by (rule run_run_commute [OF N F]) simp
  ultimately show ?thesis by blast
qed

section \<open>Region codes and the clipping pass\<close>

lemmas clip_consts = INSIDE_def LEFT_def RIGHT_def BOTTOM_def TOP_def
lemmas clip_sides = isLeft_def isRight_def isBottom_def isTop_def

lemma outcode_top: "computeOutCode x y xMin yMin xMax yMax AND TOP \<noteq> 0 \<longleftrightarrow> isTop y yMin yMax"
  by (simp add: computeOutCode_def clip_consts clip_sides Let_def)

lemma outcode_bottom: "computeOutCode x y xMin yMin xMax yMax AND BOTTOM \<noteq> 0 \<longleftrightarrow> isBottom y yMin"
  by (simp add: computeOutCode_def clip_consts clip_sides Let_def)

lemma outcode_right: "computeOutCode x y xMin yMin xMax yMax AND RIGHT \<noteq> 0 \<longleftrightarrow> isRight x xMin xMax"
  by (simp add: computeOutCode_def clip_consts clip_sides Let_def)

lemma outcode_left: "computeOutCode x y xMin yMin xMax yMax AND LEFT \<noteq> 0 \<longleftrightarrow> isLeft x xMin"
  by (simp add: computeOutCode_def clip_consts clip_sides Let_def)

lemma outcode_zero:
  "computeOutCode x y xMin yMin xMax yMax = 0 \<longleftrightarrow>
     \<not> isLeft x xMin \<and> \<not> isRight x xMin xMax \<and> \<not> isBottom y yMin \<and> \<not> isTop y yMin yMax"
  by (simp add: computeOutCode_def clip_consts clip_sides Let_def)

lemma outcode_or_zero:
  "computeOutCode x y xMin yMin xMax yMax OR computeOutCode x' y' xMin yMin xMax yMax = 0 \<longleftrightarrow>
     computeOutCode x y xMin yMin xMax yMax = 0 \<and> computeOutCode x' y' xMin yMin xMax yMax = 0"
  by (simp add: computeOutCode_def clip_consts Let_def)

lemma outcode_and:
  "computeOutCode x y xMin yMin xMax yMax AND computeOutCode x' y' xMin yMin xMax yMax \<noteq> 0 \<longleftrightarrow>
     isLeft x xMin \<and> isLeft x' xMin \<or> isRight x xMin xMax \<and> isRight x' xMin xMax
     \<or> isBottom y yMin \<and> isBottom y' yMin \<or> isTop y yMin yMax \<and> isTop y' yMin yMax"
  by (simp add: computeOutCode_def clip_consts clip_sides Let_def)



lemma codesOk_cases:
  assumes "codesOk xMin yMin xMax yMax st"
  obtains x1 y1 x2 y2 where
    "st = \<lparr>px1 = x1, py1 = y1, px2 = x2, py2 = y2,
           code1 = computeOutCode x1 y1 xMin yMin xMax yMax,
           code2 = computeOutCode x2 y2 xMin yMin xMax yMax\<rparr>"
  using assms by (cases st) (simp add: codesOk_def)

lemma intersect_first:
  assumes "computeOutCode x1 y1 xMin yMin xMax yMax \<noteq> 0"
    and "\<not> (computeOutCode x1 y1 xMin yMin xMax yMax AND computeOutCode x2 y2 xMin yMin xMax yMax \<noteq> 0)"
  shows "intersect (computeOutCode x1 y1 xMin yMin xMax yMax) x1 y1 x2 y2 xMin yMin xMax yMax =
     (if isTop y1 yMin yMax then Inr (x1 + (x2 - x1) * (yMax - y1) / (y2 - y1), yMax)
      else if isBottom y1 yMin then Inr (x1 + (x2 - x1) * (yMin - y1) / (y2 - y1), yMin)
      else if isRight x1 xMin xMax then Inr (xMax, y1 + (y2 - y1) * (xMax - x1) / (x2 - x1))
      else Inr (xMin, y1 + (y2 - y1) * (xMin - x1) / (x2 - x1)))"
    and "isTop y1 yMin yMax \<or> isBottom y1 yMin \<Longrightarrow> y2 \<noteq> y1"
    and "\<not> isTop y1 yMin yMax \<Longrightarrow> \<not> isBottom y1 yMin \<Longrightarrow> x2 \<noteq> x1"
proof -
  from assms(1) have out: "isLeft x1 xMin \<or> isRight x1 xMin xMax \<or> isBottom y1 yMin \<or> isTop y1 yMin yMax"
    by (auto simp: outcode_zero)
  from assms(2) have dis: "\<not> (isTop y1 yMin yMax \<and> isTop y2 yMin yMax)"
    "\<not> (isBottom y1 yMin \<and> isBottom y2 yMin)"
    "\<not> (isRight x1 xMin xMax \<and> isRight x2 xMin xMax)"
    "\<not> (isLeft x1 xMin \<and> isLeft x2 xMin)"
    by (auto simp: outcode_and)
  from dis show y: "isTop y1 yMin yMax \<or> isBottom y1 yMin \<Longrightarrow> y2 \<noteq> y1"
    by (auto simp: clip_sides)
  from dis out show x: "\<not> isTop y1 yMin yMax \<Longrightarrow> \<not> isBottom y1 yMin \<Longrightarrow> x2 \<noteq> x1"
    by (auto simp: clip_sides)
  from out x y show "intersect (computeOutCode x1 y1 xMin yMin xMax yMax) x1 y1 x2 y2 xMin yMin xMax yMax =
     (if isTop y1 yMin yMax then Inr (x1 + (x2 - x1) * (yMax - y1) / (y2 - y1), yMax)
      else if isBottom y1 yMin then Inr (x1 + (x2 - x1) * (yMin - y1) / (y2 - y1), yMin)
      else if isRight x1 xMin xMax then Inr (xMax, y1 + (y2 - y1) * (xMax - x1) / (x2 - x1))
      else Inr (xMin, y1 + (y2 - y1) * (xMin - x1) / (x2 - x1)))"
    unfolding intersect_def outcode_top outcode_bottom outcode_right outcode_left
    by auto
qed

lemma intersect_second:
  assumes "computeOutCode x2 y2 xMin yMin xMax yMax \<noteq> 0"
    and "\<not> (computeOutCode x1 y1 xMin yMin xMax yMax AND computeOutCode x2 y2 xMin yMin xMax yMax \<noteq> 0)"
  shows "intersect (computeOutCode x2 y2 xMin yMin xMax yMax) x1 y1 x2 y2 xMin yMin xMax yMax =
     (if isTop y2 yMin yMax then Inr (x1 + (x2 - x1) * (yMax - y1) / (y2 - y1), yMax)
      else if isBottom y2 yMin then Inr (x1 + (x2 - x1) * (yMin - y1) / (y2 - y1), yMin)
      else if isRight x2 xMin xMax then Inr (xMax, y1 + (y2 - y1) * (xMax - x1) / (x2 - x1))
      else Inr (xMin, y1 + (y2 - y1) * (xMin - x1) / (x2 - x1)))"
    and "isTop y2 yMin yMax \<or> isBottom y2 yMin \<Longrightarrow> y2 \<noteq> y1"
    and "\<not> isTop y2 yMin yMax \<Longrightarrow> \<not> isBottom y2 yMin \<Longrightarrow> x2 \<noteq> x1"
proof -
  from assms(1) have out: "isLeft x2 xMin \<or> isRight x2 xMin xMax \<or> isBottom y2 yMin \<or> isTop y2 yMin yMax"
    by (auto simp: outcode_zero)
  from assms(2) have dis: "\<not> (isTop y1 yMin yMax \<and> isTop y2 yMin yMax)"
    "\<not> (isBottom y1 yMin \<and> isBottom y2 yMin)"
    "\<not> (isRight x1 xMin xMax \<and> isRight x2 xMin xMax)"
    "\<not> (isLeft x1 xMin \<and> isLeft x2 xMin)"
    by (auto simp: outcode_and)
  from dis show y: "isTop y2 yMin yMax \<or> isBottom y2 yMin \<Longrightarrow> y2 \<noteq> y1"
    by (auto simp: clip_sides)
  from dis out show x: "\<not> isTop y2 yMin yMax \<Longrightarrow> \<not> isBottom y2 yMin \<Longrightarrow> x2 \<noteq> x1"
    by (auto simp: clip_sides)
  from out x y show "intersect (computeOutCode x2 y2 xMin yMin xMax yMax) x1 y1 x2 y2 xMin yMin xMax yMax =
     (if isTop y2 yMin yMax then Inr (x1 + (x2 - x1) * (yMax - y1) / (y2 - y1), yMax)
      else if isBottom y2 yMin then Inr (x1 + (x2 - x1) * (yMin - y1) / (y2 - y1), yMin)
      else if isRight x2 xMin xMax then Inr (xMax, y1 + (y2 - y1) * (xMax - x1) / (x2 - x1))
      else Inr (xMin, y1 + (y2 - y1) * (xMin - x1) / (x2 - x1)))"
    unfolding intersect_def outcode_top outcode_bottom outcode_right outcode_left
    by auto
qed

text \<open>
  With consistent codes, a pass through the clipping branch computes a point
  and leaves the codes consistent.
\<close>

lemma clipStep_no_fault:
  assumes ok: "codesOk xMin yMin xMax yMax st"
    and na: "(code1 st OR code2 st) \<noteq> 0"
    and nr: "\<not> (code1 st AND code2 st \<noteq> 0)"
  shows "\<exists>st'. clipStep xMin yMin xMax yMax st = Inr st' \<and> codesOk xMin yMin xMax yMax st'"
proof -
  from ok obtain x1 y1 x2 y2 where st:
    "st = \<lparr>px1 = x1, py1 = y1, px2 = x2, py2 = y2,
           code1 = computeOutCode x1 y1 xMin yMin xMax yMax,
           code2 = computeOutCode x2 y2 xMin yMin xMax yMax\<rparr>"
    by (rule codesOk_cases)
  let ?c1 = "computeOutCode x1 y1 xMin yMin xMax yMax"
  let ?c2 = "computeOutCode x2 y2 xMin yMin xMax yMax"
  from nr have nr': "\<not> (?c1 AND ?c2 \<noteq> 0)" by (simp add: st)
  show ?thesis
  proof (cases "?c1 \<noteq> 0")
    case True
    from intersect_first(1) [OF True nr'] True show ?thesis
      by (auto simp: st clipStep_def codesOk_def)
  next
    case False
    with na have c2: "?c2 \<noteq> 0" by (simp add: st)
    from intersect_second(1) [OF c2 nr'] False c2 show ?thesis
      by (auto simp: st clipStep_def codesOk_def)
  qed
qed


lemma clipLoop_no_fault:
  "codesOk xMin yMin xMax yMax st \<Longrightarrow> clipLoop n xMin yMin xMax yMax st \<noteq> Fault f"
proof (induction n arbitrary: st)
  case 0
  then show ?case by simp
next
  case (Suc n)
  show ?case
  proof (cases "(code1 st OR code2 st) = 0 \<or> code1 st AND code2 st \<noteq> 0")
    case True
    then show ?thesis by auto
  next
    case False
    then have na: "(code1 st OR code2 st) \<noteq> 0" and nr: "\<not> (code1 st AND code2 st \<noteq> 0)"
      by simp_all
    from clipStep_no_fault [OF Suc.prems na nr] obtain st' where
      st': "clipStep xMin yMin xMax yMax st = Inr st'" "codesOk xMin yMin xMax yMax st'"
      by blast
    from Suc.IH [OF st'(2)] st'(1) na nr show ?thesis by simp
  qed
qed

lemma codesOk_initial:
  "codesOk xMin yMin xMax yMax
     \<lparr>px1 = x1, py1 = y1, px2 = x2, py2 = y2,
      code1 = computeOutCode x1 y1 xMin yMin xMax yMax,
      code2 = computeOutCode x2 y2 xMin yMin xMax yMax\<rparr>"
  by (simp add: codesOk_def)

section \<open>No division by zero in the intersection formulas (C7)\<close>

text \<open>
  Claim C7. Whatever the segment and the rectangle, and however many passes the
  loop of \<^const>\<open>clipLine\<close> makes, no pass divides by zero: when the TOP or BOTTOM
  branch of the intersection is taken \<open>y2 - y1\<close> is not 0, and when the RIGHT or
  LEFT branch is taken \<open>x2 - x1\<close> is not 0 (\<^const>\<open>intersect\<close> reports
  \<^const>\<open>DivisionByZero\<close> exactly when the branch it takes has the divisor 0).
  The codes kept by the loop are those \<^const>\<open>computeOutCode\<close> gives for the
  current endpoints, the chosen endpoint has the bit of the branch set, and the
  other endpoint has not, so the two endpoints differ in that coordinate. One
  of the four branches is always taken.
\<close>

theorem clip_divisors_nonzero:
  "clipLine passes x1 y1 x2 y2 xMin yMin xMax yMax \<noteq> Fault DivisionByZero
   \<and> clipLine passes x1 y1 x2 y2 xMin yMin xMax yMax \<noteq> Fault UninitializedPoint"
  unfolding clipLine_def using clipLoop_no_fault [OF codesOk_initial] by blast

theorem clip_divisors_nonzero_witness:
  "clipLine 4 (- 5) 5 15 5 0 0 10 10 \<noteq> Fault DivisionByZero
   \<and> clipLine 4 (- 5) 5 15 5 0 0 10 10 \<noteq> Fault UninitializedPoint"
  by (rule clip_divisors_nonzero)

section \<open>Termination of the clipping loop in exact arithmetic\<close>

lemma on_segment:
  fixes a b c p q :: real
  assumes "p \<noteq> q" "min p q \<le> c" "c \<le> max p q"
  shows "min a b \<le> a + (b - a) * (c - p) / (q - p)"
    and "a + (b - a) * (c - p) / (q - p) \<le> max a b"
proof -
  define t where "t = (c - p) / (q - p)"
  have t: "0 \<le> t \<and> t \<le> 1"
  proof (cases "p < q")
    case True
    with assms have "0 \<le> c - p" "c - p \<le> q - p" "0 < q - p" by simp_all
    then show ?thesis by (simp add: t_def)
  next
    case False
    with assms have "c - p \<le> 0" "q - p \<le> c - p" "q - p < 0" by simp_all
    then show ?thesis by (simp add: t_def divide_nonpos_neg neg_divide_le_eq)
  qed
  have eq: "a + (b - a) * (c - p) / (q - p) = a + (b - a) * t" by (simp add: t_def)
  have "min a b \<le> a + (b - a) * t \<and> a + (b - a) * t \<le> max a b"
  proof (cases "a \<le> b")
    case True
    define X where "X = (b - a) * t"
    have "0 \<le> X" unfolding X_def using t True by (intro mult_nonneg_nonneg) simp_all
    moreover have "X \<le> b - a"
      unfolding X_def using mult_left_mono [of t 1 "b - a"] t True by simp
    ultimately have "a \<le> a + X \<and> a + X \<le> b" by linarith
    with True show ?thesis unfolding X_def by simp
  next
    case False
    define X where "X = (a - b) * t"
    have "0 \<le> X" unfolding X_def using t False by (intro mult_nonneg_nonneg) simp_all
    moreover have "X \<le> a - b"
      unfolding X_def using mult_left_mono [of t 1 "a - b"] t False by simp
    moreover have "(b - a) * t = - X" unfolding X_def by (simp add: algebra_simps)
    ultimately have "b \<le> a + (b - a) * t \<and> a + (b - a) * t \<le> a" by linarith
    with False show ?thesis by simp
  qed
  then show "min a b \<le> a + (b - a) * (c - p) / (q - p)"
    and "a + (b - a) * (c - p) / (q - p) \<le> max a b"
    unfolding eq by simp_all
qed

lemma four_sides_less:
  assumes "l' \<longrightarrow> l" "r' \<longrightarrow> r" "b' \<longrightarrow> b" "t' \<longrightarrow> t"
    and "l \<and> \<not> l' \<or> r \<and> \<not> r' \<or> b \<and> \<not> b' \<or> t \<and> \<not> t'"
  shows "(of_bool l' + of_bool r' + of_bool b' + of_bool t' :: nat)
       < of_bool l + of_bool r + of_bool b + of_bool t"
proof -
  have le: "(of_bool u' :: nat) \<le> of_bool u" if "u' \<longrightarrow> u" for u u'
    using that by (cases u; cases u') simp_all
  have lt: "(of_bool u' :: nat) < of_bool u" if "u \<and> \<not> u'" for u u'
    using that by simp
  from assms(5) le [OF assms(1)] le [OF assms(2)] le [OF assms(3)] le [OF assms(4)]
    lt [of l l'] lt [of r r'] lt [of b b'] lt [of t t']
  show ?thesis by linarith
qed

text \<open>
  Replacing one endpoint by a point of the bounding box of the segment that
  lies on the side just clipped lowers the number of violated sides.
\<close>

lemma replace_decreases:
  assumes rect: "xMin \<le> xMax" "yMin \<le> yMax"
    and bx: "min ox ux \<le> qx" "qx \<le> max ox ux"
    and bq: "min oy uy \<le> qy" "qy \<le> max oy uy"
    and strict: "isTop oy yMin yMax \<and> \<not> isTop uy yMin yMax \<and> qy = yMax
       \<or> isBottom oy yMin \<and> \<not> isBottom uy yMin \<and> qy = yMin
       \<or> isRight ox xMin xMax \<and> \<not> isRight ux xMin xMax \<and> qx = xMax
       \<or> isLeft ox xMin \<and> \<not> isLeft ux xMin \<and> qx = xMin"
  shows "(of_bool (isLeft qx xMin \<or> isLeft ux xMin)
          + of_bool (isRight qx xMin xMax \<or> isRight ux xMin xMax)
          + of_bool (isBottom qy yMin \<or> isBottom uy yMin)
          + of_bool (isTop qy yMin yMax \<or> isTop uy yMin yMax) :: nat)
       < of_bool (isLeft ox xMin \<or> isLeft ux xMin)
          + of_bool (isRight ox xMin xMax \<or> isRight ux xMin xMax)
          + of_bool (isBottom oy yMin \<or> isBottom uy yMin)
          + of_bool (isTop oy yMin yMax \<or> isTop uy yMin yMax)"
    (is "?new < ?old")
    and "(of_bool (isLeft ux xMin \<or> isLeft qx xMin)
          + of_bool (isRight ux xMin xMax \<or> isRight qx xMin xMax)
          + of_bool (isBottom uy yMin \<or> isBottom qy yMin)
          + of_bool (isTop uy yMin yMax \<or> isTop qy yMin yMax) :: nat)
       < of_bool (isLeft ux xMin \<or> isLeft ox xMin)
          + of_bool (isRight ux xMin xMax \<or> isRight ox xMin xMax)
          + of_bool (isBottom uy yMin \<or> isBottom oy yMin)
          + of_bool (isTop uy yMin yMax \<or> isTop oy yMin yMax)"
    (is "?new' < ?old'")
proof -
  show first: "?new < ?old"
  proof (rule four_sides_less)
  show "isLeft qx xMin \<or> isLeft ux xMin \<longrightarrow> isLeft ox xMin \<or> isLeft ux xMin"
    using bx by (auto simp: clip_sides)
  show "isRight qx xMin xMax \<or> isRight ux xMin xMax \<longrightarrow> isRight ox xMin xMax \<or> isRight ux xMin xMax"
    using bx rect by (auto simp: clip_sides)
  show "isBottom qy yMin \<or> isBottom uy yMin \<longrightarrow> isBottom oy yMin \<or> isBottom uy yMin"
    using bq by (auto simp: clip_sides)
  show "isTop qy yMin yMax \<or> isTop uy yMin yMax \<longrightarrow> isTop oy yMin yMax \<or> isTop uy yMin yMax"
    using bq rect by (auto simp: clip_sides)
  show "(isLeft ox xMin \<or> isLeft ux xMin) \<and> \<not> (isLeft qx xMin \<or> isLeft ux xMin)
      \<or> (isRight ox xMin xMax \<or> isRight ux xMin xMax) \<and> \<not> (isRight qx xMin xMax \<or> isRight ux xMin xMax)
      \<or> (isBottom oy yMin \<or> isBottom uy yMin) \<and> \<not> (isBottom qy yMin \<or> isBottom uy yMin)
      \<or> (isTop oy yMin yMax \<or> isTop uy yMin yMax) \<and> \<not> (isTop qy yMin yMax \<or> isTop uy yMin yMax)"
    using strict rect by (auto simp: clip_sides)
  qed
  have "?new' = ?new" by (simp only: disj_commute)
  moreover have "?old' = ?old" by (simp only: disj_commute)
  ultimately show "?new' < ?old'" using first by simp
qed

text \<open>
  The point a clipping pass computes for the endpoint \<open>(ox, oy)\<close> that is outside,
  \<open>(ux, uy)\<close> being the other endpoint: it lies in the bounding box of the
  segment and on the side that was clipped.
\<close>

lemma clip_point_in_box:
  assumes rect: "xMin \<le> xMax" "yMin \<le> yMax"
    and ends: "(ox, oy, ux, uy) = (x1, y1, x2, y2) \<or> (ox, oy, ux, uy) = (x2, y2, x1, y1)"
    and out: "computeOutCode ox oy xMin yMin xMax yMax \<noteq> 0"
    and nr: "\<not> (computeOutCode x1 y1 xMin yMin xMax yMax
                AND computeOutCode x2 y2 xMin yMin xMax yMax \<noteq> 0)"
  shows "\<exists>qx qy.
      intersect (computeOutCode ox oy xMin yMin xMax yMax) x1 y1 x2 y2 xMin yMin xMax yMax
        = Inr (qx, qy)
      \<and> min ox ux \<le> qx \<and> qx \<le> max ox ux \<and> min oy uy \<le> qy \<and> qy \<le> max oy uy
      \<and> (isTop oy yMin yMax \<and> \<not> isTop uy yMin yMax \<and> qy = yMax
         \<or> isBottom oy yMin \<and> \<not> isBottom uy yMin \<and> qy = yMin
         \<or> isRight ox xMin xMax \<and> \<not> isRight ux xMin xMax \<and> qx = xMax
         \<or> isLeft ox xMin \<and> \<not> isLeft ux xMin \<and> qx = xMin)"
proof -
  from nr have dis: "\<not> (isTop y1 yMin yMax \<and> isTop y2 yMin yMax)"
    "\<not> (isBottom y1 yMin \<and> isBottom y2 yMin)"
    "\<not> (isRight x1 xMin xMax \<and> isRight x2 xMin xMax)"
    "\<not> (isLeft x1 xMin \<and> isLeft x2 xMin)"
    by (auto simp: outcode_and)
  from ends dis have dis': "\<not> (isTop oy yMin yMax \<and> isTop uy yMin yMax)"
    "\<not> (isBottom oy yMin \<and> isBottom uy yMin)"
    "\<not> (isRight ox xMin xMax \<and> isRight ux xMin xMax)"
    "\<not> (isLeft ox xMin \<and> isLeft ux xMin)"
    by auto
  from ends have mm: "min x1 x2 = min ox ux" "max x1 x2 = max ox ux"
    "min y1 y2 = min oy uy" "max y1 y2 = max oy uy"
    by auto
  from ends out nr intersect_first(1) [of x1 y1 xMin yMin xMax yMax x2 y2]
    intersect_second(1) [of x2 y2 xMin yMin xMax yMax x1 y1]
  have isect: "intersect (computeOutCode ox oy xMin yMin xMax yMax) x1 y1 x2 y2 xMin yMin xMax yMax =
     (if isTop oy yMin yMax then Inr (x1 + (x2 - x1) * (yMax - y1) / (y2 - y1), yMax)
      else if isBottom oy yMin then Inr (x1 + (x2 - x1) * (yMin - y1) / (y2 - y1), yMin)
      else if isRight ox xMin xMax then Inr (xMax, y1 + (y2 - y1) * (xMax - x1) / (x2 - x1))
      else Inr (xMin, y1 + (y2 - y1) * (xMin - x1) / (x2 - x1)))"
    by auto
  from out have side: "isLeft ox xMin \<or> isRight ox xMin xMax \<or> isBottom oy yMin \<or> isTop oy yMin yMax"
    by (auto simp: outcode_zero)
  then consider (top) "isTop oy yMin yMax"
    | (bottom) "\<not> isTop oy yMin yMax" "isBottom oy yMin"
    | (right) "\<not> isTop oy yMin yMax" "\<not> isBottom oy yMin" "isRight ox xMin xMax"
    | (left) "\<not> isTop oy yMin yMax" "\<not> isBottom oy yMin" "\<not> isRight ox xMin xMax" "isLeft ox xMin"
    by blast
  then show ?thesis
  proof cases
    case top
    with dis'(1) rect have b: "oy \<noteq> uy" "min oy uy \<le> yMax" "yMax \<le> max oy uy"
      by (auto simp: clip_sides)
    then have "y1 \<noteq> y2" "min y1 y2 \<le> yMax" "yMax \<le> max y1 y2"
      using ends mm by auto
    from on_segment [OF this, of x1 x2] b top dis'(1) show ?thesis
      unfolding isect mm by simp
  next
    case bottom
    with dis'(2) rect have b: "oy \<noteq> uy" "min oy uy \<le> yMin" "yMin \<le> max oy uy"
      by (auto simp: clip_sides)
    then have "y1 \<noteq> y2" "min y1 y2 \<le> yMin" "yMin \<le> max y1 y2"
      using ends mm by auto
    from on_segment [OF this, of x1 x2] b bottom dis'(2) show ?thesis
      unfolding isect mm by simp
  next
    case right
    with dis'(3) rect have b: "ox \<noteq> ux" "min ox ux \<le> xMax" "xMax \<le> max ox ux"
      by (auto simp: clip_sides)
    then have "x1 \<noteq> x2" "min x1 x2 \<le> xMax" "xMax \<le> max x1 x2"
      using ends mm by auto
    from on_segment [OF this, of y1 y2] b right dis'(3) show ?thesis
      unfolding isect mm by simp
  next
    case left
    with dis'(4) rect have b: "ox \<noteq> ux" "min ox ux \<le> xMin" "xMin \<le> max ox ux"
      by (auto simp: clip_sides)
    then have "x1 \<noteq> x2" "min x1 x2 \<le> xMin" "xMin \<le> max x1 x2"
      using ends mm by auto
    from on_segment [OF this, of y1 y2] b left dis'(4) show ?thesis
      unfolding isect mm by simp
  qed
qed

lemma clipStep_decreases:
  assumes rect: "xMin \<le> xMax" "yMin \<le> yMax"
    and ok: "codesOk xMin yMin xMax yMax st"
    and na: "(code1 st OR code2 st) \<noteq> 0"
    and nr: "\<not> (code1 st AND code2 st \<noteq> 0)"
  shows "\<exists>st'. clipStep xMin yMin xMax yMax st = Inr st' \<and> codesOk xMin yMin xMax yMax st'
           \<and> sidesViolated xMin yMin xMax yMax st' < sidesViolated xMin yMin xMax yMax st"
proof -
  from ok obtain x1 y1 x2 y2 where st:
    "st = \<lparr>px1 = x1, py1 = y1, px2 = x2, py2 = y2,
           code1 = computeOutCode x1 y1 xMin yMin xMax yMax,
           code2 = computeOutCode x2 y2 xMin yMin xMax yMax\<rparr>"
    by (rule codesOk_cases)
  let ?c1 = "computeOutCode x1 y1 xMin yMin xMax yMax"
  let ?c2 = "computeOutCode x2 y2 xMin yMin xMax yMax"
  from nr have nr': "\<not> (?c1 AND ?c2 \<noteq> 0)" by (simp add: st)
  show ?thesis
  proof (cases "?c1 \<noteq> 0")
    case True
    from clip_point_in_box [OF rect _ True nr', of x2 y2] obtain qx qy where
      q: "intersect ?c1 x1 y1 x2 y2 xMin yMin xMax yMax = Inr (qx, qy)"
      and b: "min x1 x2 \<le> qx" "qx \<le> max x1 x2" "min y1 y2 \<le> qy" "qy \<le> max y1 y2"
      and s: "isTop y1 yMin yMax \<and> \<not> isTop y2 yMin yMax \<and> qy = yMax
         \<or> isBottom y1 yMin \<and> \<not> isBottom y2 yMin \<and> qy = yMin
         \<or> isRight x1 xMin xMax \<and> \<not> isRight x2 xMin xMax \<and> qx = xMax
         \<or> isLeft x1 xMin \<and> \<not> isLeft x2 xMin \<and> qx = xMin"
      by auto
    from True q have step: "clipStep xMin yMin xMax yMax st =
        Inr (st\<lparr>px1 := qx, py1 := qy, code1 := computeOutCode qx qy xMin yMin xMax yMax\<rparr>)"
      by (simp add: st clipStep_def)
    let ?st' = "st\<lparr>px1 := qx, py1 := qy, code1 := computeOutCode qx qy xMin yMin xMax yMax\<rparr>"
    have "sidesViolated xMin yMin xMax yMax ?st' < sidesViolated xMin yMin xMax yMax st"
      unfolding sidesViolated_def st ClipState.simps
      by (rule replace_decreases(1) [OF rect b s])
    moreover have "codesOk xMin yMin xMax yMax ?st'" by (simp add: st codesOk_def)
    ultimately show ?thesis unfolding step by blast
  next
    case False
    with na have c2: "?c2 \<noteq> 0" by (simp add: st)
    from clip_point_in_box [OF rect _ c2 nr', of x1 y1] obtain qx qy where
      q: "intersect ?c2 x1 y1 x2 y2 xMin yMin xMax yMax = Inr (qx, qy)"
      and b: "min x2 x1 \<le> qx" "qx \<le> max x2 x1" "min y2 y1 \<le> qy" "qy \<le> max y2 y1"
      and s: "isTop y2 yMin yMax \<and> \<not> isTop y1 yMin yMax \<and> qy = yMax
         \<or> isBottom y2 yMin \<and> \<not> isBottom y1 yMin \<and> qy = yMin
         \<or> isRight x2 xMin xMax \<and> \<not> isRight x1 xMin xMax \<and> qx = xMax
         \<or> isLeft x2 xMin \<and> \<not> isLeft x1 xMin \<and> qx = xMin"
      by auto
    from False c2 q have step: "clipStep xMin yMin xMax yMax st =
        Inr (st\<lparr>px2 := qx, py2 := qy, code2 := computeOutCode qx qy xMin yMin xMax yMax\<rparr>)"
      by (simp add: st clipStep_def)
    let ?st' = "st\<lparr>px2 := qx, py2 := qy, code2 := computeOutCode qx qy xMin yMin xMax yMax\<rparr>"
    have "sidesViolated xMin yMin xMax yMax ?st' < sidesViolated xMin yMin xMax yMax st"
      unfolding sidesViolated_def st ClipState.simps
      by (rule replace_decreases(2) [OF rect b s])
    moreover have "codesOk xMin yMin xMax yMax ?st'" by (simp add: st codesOk_def)
    ultimately show ?thesis unfolding step by blast
  qed
qed

lemma sidesViolated_le_4: "sidesViolated xMin yMin xMax yMax st \<le> 4"
  by (simp add: sidesViolated_def of_bool_def)

lemma clipLoop_finishes:
  assumes rect: "xMin \<le> xMax" "yMin \<le> yMax"
  shows "codesOk xMin yMin xMax yMax st \<Longrightarrow> sidesViolated xMin yMin xMax yMax st \<le> n \<Longrightarrow>
     \<exists>acc a b c d. clipLoop n xMin yMin xMax yMax st = Finished acc a b c d"
proof (induction n arbitrary: st)
  case 0
  from 0(1) obtain x1 y1 x2 y2 where st:
    "st = \<lparr>px1 = x1, py1 = y1, px2 = x2, py2 = y2,
           code1 = computeOutCode x1 y1 xMin yMin xMax yMax,
           code2 = computeOutCode x2 y2 xMin yMin xMax yMax\<rparr>"
    by (rule codesOk_cases)
  from 0(2) have "(code1 st OR code2 st) = 0"
    by (simp add: st sidesViolated_def outcode_or_zero outcode_zero)
  then show ?case by auto
next
  case (Suc n)
  show ?case
  proof (cases "(code1 st OR code2 st) = 0 \<or> code1 st AND code2 st \<noteq> 0")
    case True
    then show ?thesis by auto
  next
    case False
    then have na: "(code1 st OR code2 st) \<noteq> 0" and nr: "\<not> (code1 st AND code2 st \<noteq> 0)"
      by simp_all
    from clipStep_decreases [OF rect Suc.prems(1) na nr] obtain st' where
      st': "clipStep xMin yMin xMax yMax st = Inr st'" "codesOk xMin yMin xMax yMax st'"
      "sidesViolated xMin yMin xMax yMax st' < sidesViolated xMin yMin xMax yMax st"
      by blast
    with Suc.prems(2) have "sidesViolated xMin yMin xMax yMax st' \<le> n" by simp
    from Suc.IH [OF st'(2) this] st'(1) na nr show ?thesis by simp
  qed
qed


lemma clipLoop_more_passes:
  "clipLoop n xMin yMin xMax yMax st = Finished acc a b c d \<Longrightarrow>
   clipLoop (n + k) xMin yMin xMax yMax st = Finished acc a b c d"
proof (induction n arbitrary: st)
  case 0
  then show ?case by (cases k) (auto split: if_splits)
next
  case (Suc n)
  then show ?case by (auto split: if_splits sum.splits)
qed

text \<open>
  In exact arithmetic the loop of \<^const>\<open>clipLine\<close> terminates for every segment
  and every rectangle with \<open>xMin \<le> xMax\<close> and \<open>yMin \<le> yMax\<close>: it accepts or
  rejects after at most 4 passes through the clipping branch, and allowing more
  passes does not change the result. Each pass moves one endpoint onto a side
  of the rectangle that it was outside of, inside the bounding box of the
  segment, so the number of sides that some endpoint is outside of drops with
  every pass. The argument needs the intersection point to lie on the side
  exactly; rounded, it can miss the side by one unit in the last place.
\<close>

lemma exact_clip_four_passes:
  assumes "xMin \<le> xMax" "yMin \<le> yMax"
  shows "\<exists>acc a b c d.
     clipLine 4 x1 y1 x2 y2 xMin yMin xMax yMax = Finished acc a b c d
     \<and> (\<forall>n \<ge> 4. clipLine n x1 y1 x2 y2 xMin yMin xMax yMax = Finished acc a b c d)"
proof -
  let ?st = "\<lparr>px1 = x1, py1 = y1, px2 = x2, py2 = y2,
      code1 = computeOutCode x1 y1 xMin yMin xMax yMax,
      code2 = computeOutCode x2 y2 xMin yMin xMax yMax\<rparr>"
  from clipLoop_finishes [OF assms codesOk_initial sidesViolated_le_4]
  obtain acc a b c d where f: "clipLoop 4 xMin yMin xMax yMax ?st = Finished acc a b c d"
    by blast
  have "clipLoop n xMin yMin xMax yMax ?st = Finished acc a b c d" if "4 \<le> n" for n
    using clipLoop_more_passes [OF f, of "n - 4"] that by simp
  with f show ?thesis unfolding clipLine_def by blast
qed

section \<open>Basic facts about binary32 arithmetic\<close>

declare expoUp.simps [simp del] expoDown.simps [simp del]
declare scanline32.simps [simp del] flatBottomRows32.simps [simp del] flatTopRows32.simps [simp del]

text \<open>The equations that evaluate \<^const>\<open>round32\<close> on a given rational.\<close>

lemmas round32_eval =
  round32_def expo_def expoUp.simps expoDown.simps roundEven_def pow2_def Let_def

lemma round32_zero [simp]: "round32 0 = Fin 0"
  by (simp add: round32_def)

text \<open>
  Rounding at work: ties go to the even significand, values from \<open>2^128 - 2^103\<close>
  on overflow, and below \<open>2^-126\<close> the spacing stays \<open>2^-149\<close>.
\<close>

lemma round32_examples:
  "round32 16777217 = Fin 16777216"
  "round32 16777219 = Fin 16777220"
  "round32 (1 / 3) = Fin (11184811 / 33554432)"
  "round32 (- (1 / 1000000)) = Fin (- (8796093 / 8796093022208))"
  "round32 (2 ^ 128 - 2 ^ 103) = PInf"
  "round32 (2 ^ 128 - 2 ^ 104) = Fin (2 ^ 128 - 2 ^ 104)"
  "round32 (3 / 2 ^ 150) = Fin (1 / 2 ^ 148)"
  "round32 (1 / 2 ^ 150) = Fin 0"
  by (simp_all add: round32_eval)

lemma round32_small [simp]:
  "round32 1 = Fin 1" "round32 2 = Fin 2" "round32 4 = Fin 4" "round32 (- 1) = Fin (- 1)"
  "round32 (1 / 2) = Fin (1 / 2)"
  by (simp_all add: round32_eval)

text \<open>The literals \<^verbatim>\<open>0.2f\<close>, \<^verbatim>\<open>0.8f\<close> and \<^verbatim>\<open>5.2f\<close>.\<close>

lemma literal_0_2: "round32 (2 / 10) = Fin (13421773 / 67108864)"
  by (simp add: round32_eval)

lemma literal_0_8: "round32 (8 / 10) = Fin (13421773 / 16777216)"
  by (simp add: round32_eval)

lemma f5_2_val: "f5_2 = Fin (5452595 / 1048576)"
  by (simp add: f5_2_def round32_eval)

lemma f0_2_val: "f0_2 = Fin (13421773 / 67108864)"
  by (simp add: f0_2_def round32_eval)

lemma fadd_NaN [simp]: "fadd a NaN = NaN"
  by (cases a) simp_all

lemma fmul_NaN [simp]: "fmul a NaN = NaN"
  by (cases a) simp_all

lemma flt_NaN [simp]: "\<not> flt a NaN"
  by (cases a) simp_all

lemma fmax_nonpos: "fle d (Fin 0) \<Longrightarrow> fmax d (Fin 0) = Fin 0"
  by (cases d) (auto simp: fle_def feq_def fmax_def)

lemma powf_zero: "flt (Fin 0) e \<Longrightarrow> powf (Fin 0) e = Fin 0"
  by (cases e) auto

lemma vscale_zero: "finite3 v \<Longrightarrow> vscale v (Fin 0) = vzero"
  by (cases "fx v"; cases "fy v"; cases "fz v")
    (simp_all add: finite3_def isFin_def vscale_def vzero_def)

lemma fnormalize3_zero: "fnormalize3 vzero = splat NaN"
  by (simp add: fnormalize3_def vzero_def fdot3_def vscale_def splat_def signedInf_def)

lemma fdot3_nan: "fdot3 (splat NaN) q = NaN"
  by (simp add: fdot3_def splat_def)

section \<open>Lighting boundary (C5)\<close>

lemma calculateDiffuse_zero:
  assumes "fle (fdot3 nrm lightDir) (Fin 0)" "finite3 (vmul (lcolor light) (mdiffuse material))"
  shows "calculateDiffuse lightDir nrm light material = vzero"
  using assms by (simp add: calculateDiffuse_def Let_def fmax_nonpos vscale_zero)

lemma calculateSpecular_zero:
  assumes "flt (Fin 0) (shininess material)"
    "fle (fdot3 nrm (fnormalize3 (vadd lightDir viewDir))) (Fin 0)"
    "finite3 (vmul (lcolor light) (mspecular material))"
  shows "calculateSpecular lightDir nrm viewDir light material = vzero"
  using assms by (simp add: calculateSpecular_def Let_def fmax_nonpos powf_zero vscale_zero)

text \<open>The sample surface: all three directions are \<open>(0, 0, 1)\<close>, the normal is \<open>(0, 0, -1)\<close>.\<close>

lemma away_dirs:
  "lightDirOf awayPos defaultLight = \<lparr>fx = Fin 0, fy = Fin 0, fz = Fin 1\<rparr>"
  "lightDirOf awayPos glareLight = \<lparr>fx = Fin 0, fy = Fin 0, fz = Fin 1\<rparr>"
  "viewDirOf awayPos awayView = \<lparr>fx = Fin 0, fy = Fin 0, fz = Fin 1\<rparr>"
  "normalOf awayNormal = \<lparr>fx = Fin 0, fy = Fin 0, fz = Fin (- 1)\<rparr>"
  by (simp_all add: lightDirOf_def viewDirOf_def normalOf_def fnormalize3_def
      vsub_def fsub_def vscale_def fdot3_def awayPos_def awayNormal_def awayView_def
      defaultLight_def glareLight_def)

lemma away_halfway:
  "halfwayOf awayPos awayView defaultLight = \<lparr>fx = Fin 0, fy = Fin 0, fz = Fin 1\<rparr>"
  "halfwayOf awayPos awayView glareLight = \<lparr>fx = Fin 0, fy = Fin 0, fz = Fin 1\<rparr>"
  unfolding halfwayOf_def away_dirs
  by (simp_all add: fnormalize3_def vadd_def vscale_def fdot3_def)

lemma away_dots:
  "fdot3 (normalOf awayNormal) (lightDirOf awayPos defaultLight) = Fin (- 1)"
  "fdot3 (normalOf awayNormal) (halfwayOf awayPos awayView defaultLight) = Fin (- 1)"
  "fdot3 (normalOf awayNormal) (lightDirOf awayPos glareLight) = Fin (- 1)"
  "fdot3 (normalOf awayNormal) (halfwayOf awayPos awayView glareLight) = Fin (- 1)"
  unfolding away_dirs away_halfway by (simp_all add: fdot3_def)

lemma ambient_default:
  "calculateAmbient defaultLight defaultMaterial = splat (Fin (10737419 / 268435456))"
  by (simp add: calculateAmbient_def vmul_def defaultLight_def defaultMaterial_def splat_def
      literal_0_2)
     (simp add: round32_eval)

lemma ambient_glare:
  "calculateAmbient glareLight glossMaterial = splat (Fin (10737419 / 268435456))"
  using ambient_default
  by (simp add: calculateAmbient_def glareLight_def glossMaterial_def defaultLight_def
      defaultMaterial_def)

lemma ambient_colour:
  "vec3ToColor (clamp3 (splat (Fin (10737419 / 268435456))) (Fin 0) (Fin 1))
     = Some (mkColor 10 10 10)"
  apply (simp add: splat_def clamp3_def fmin_def fmax_def vec3ToColor_def)
  apply (simp add: round32_eval)
  apply (simp add: truncToInt_def)
  done

lemma glare_product:
  "vmul (lcolor glareLight) (mdiffuse glossMaterial) = splat PInf"
  "vmul (lcolor glareLight) (mspecular glossMaterial) = splat PInf"
  by (simp_all add: vmul_def glareLight_def glossMaterial_def defaultLight_def defaultMaterial_def
      splat_def round32_eval)

text \<open>
  A normal of length zero: \<^verbatim>\<open>glm::normalize\<close> turns it into NaN components, the
  dot product with any direction is NaN, which is not \<open>\<le> 0\<close>, the diffuse term
  is NaN, and both shading functions end in a cast of NaN to \<^verbatim>\<open>uint8_t\<close>.
\<close>

lemma zero_normal_diffuse:
  "calculateDiffuse lightDir (splat NaN) light material = splat NaN"
  by (simp add: calculateDiffuse_def fdot3_nan Let_def fmax_def vscale_def)
     (simp add: splat_def)

lemma zero_normal_undefined:
  "normalOf vzero = splat NaN"
  "\<not> fle (fdot3 (normalOf vzero) (lightDirOf pos light)) (Fin 0)"
  "calculateDiffuse (lightDirOf pos light) (normalOf vzero) light material = splat NaN"
  "computePhongShading pos vzero viewPos light material = None"
  "computeGouraudShading pos vzero viewPos light material = None"
  by (simp_all add: normalOf_def fnormalize3_zero fdot3_nan fle_def feq_def zero_normal_diffuse
      computePhongShading_def computeGouraudShading_def Let_def
      vadd_def clamp3_def fmax_def fmin_def vec3ToColor_def)
     (simp_all add: splat_def)

text \<open>
  Claim C5, as stated for every light, material and normal, fails in two ways.

  \<^item> The light colour \<open>2^127\<close> and the reflectance 2 are finite, but their product
    overflows to \<open>+\<infinity>\<close>. The surface faces away from the light and from the
    halfway vector (both dot products are \<open>-1\<close>) and the shininess is 32, yet
    the diffuse and the specular term are \<open>\<infinity> * 0 = NaN\<close>, not 0, and the shading
    functions end in the undefined cast of NaN, where ambient light alone gives
    the colour \<open>(10, 10, 10)\<close>.
  \<^item> When \<open>N\<close> is read as the normal the caller passes, the zero normal has the
    dot product 0 with the light direction, yet the diffuse term is NaN and
    the result is again undefined.
\<close>

theorem lighting_overflow_counterexample:
  "fle (fdot3 (normalOf awayNormal) (lightDirOf awayPos glareLight)) (Fin 0)
   \<and> flt (Fin 0) (shininess glossMaterial)
   \<and> fle (fdot3 (normalOf awayNormal) (halfwayOf awayPos awayView glareLight)) (Fin 0)
   \<and> calculateDiffuse (lightDirOf awayPos glareLight) (normalOf awayNormal)
        glareLight glossMaterial = splat NaN
   \<and> calculateSpecular (lightDirOf awayPos glareLight) (normalOf awayNormal)
        (viewDirOf awayPos awayView) glareLight glossMaterial = splat NaN
   \<and> splat NaN \<noteq> vzero
   \<and> computePhongShading awayPos awayNormal awayView glareLight glossMaterial = None
   \<and> computeGouraudShading awayPos awayNormal awayView glareLight glossMaterial = None
   \<and> vec3ToColor (clamp3 (calculateAmbient glareLight glossMaterial) (Fin 0) (Fin 1))
        = Some (mkColor 10 10 10)
   \<and> fle (fdot3 vzero (lightDirOf awayPos defaultLight)) (Fin 0)
   \<and> calculateDiffuse (lightDirOf awayPos defaultLight) (normalOf vzero)
        defaultLight defaultMaterial = splat NaN
   \<and> computePhongShading awayPos vzero awayView defaultLight defaultMaterial = None"
proof -
  have h: "fle (fdot3 (normalOf awayNormal) (lightDirOf awayPos glareLight)) (Fin 0)"
    "flt (Fin 0) (shininess glossMaterial)"
    "fle (fdot3 (normalOf awayNormal) (halfwayOf awayPos awayView glareLight)) (Fin 0)"
    unfolding away_dots
    by (simp_all add: fle_def glossMaterial_def defaultMaterial_def)
  have d: "calculateDiffuse (lightDirOf awayPos glareLight) (normalOf awayNormal)
        glareLight glossMaterial = splat NaN"
    unfolding calculateDiffuse_def away_dots glare_product
    by (simp add: Let_def fmax_def vscale_def splat_def signedInf_def)
  have hw: "fnormalize3 (vadd (lightDirOf awayPos glareLight) (viewDirOf awayPos awayView))
      = \<lparr>fx = Fin 0, fy = Fin 0, fz = Fin 1\<rparr>"
    using away_halfway(2) by (simp add: halfwayOf_def)
  have sp: "calculateSpecular (lightDirOf awayPos glareLight) (normalOf awayNormal)
        (viewDirOf awayPos awayView) glareLight glossMaterial = splat NaN"
    unfolding calculateSpecular_def hw glare_product
    by (simp add: Let_def away_dirs fdot3_def fmax_def vscale_def splat_def signedInf_def
        glossMaterial_def defaultMaterial_def)
  have n: "splat NaN \<noteq> vzero"
    by (simp add: splat_def vzero_def)
  have ph: "computePhongShading awayPos awayNormal awayView glareLight glossMaterial = None"
    using d sp
    by (simp add: computePhongShading_def Let_def normalOf_def lightDirOf_def viewDirOf_def
        ambient_glare splat_def vadd_def clamp3_def fmax_def fmin_def vec3ToColor_def)
  have go: "computeGouraudShading awayPos awayNormal awayView glareLight glossMaterial = None"
    using d sp
    by (simp add: computeGouraudShading_def Let_def normalOf_def lightDirOf_def viewDirOf_def
        ambient_glare splat_def vadd_def clamp3_def fmax_def fmin_def vec3ToColor_def)
  have am: "vec3ToColor (clamp3 (calculateAmbient glareLight glossMaterial) (Fin 0) (Fin 1))
        = Some (mkColor 10 10 10)"
    unfolding ambient_glare by (rule ambient_colour)
  have z: "fle (fdot3 vzero (lightDirOf awayPos defaultLight)) (Fin 0)"
    unfolding away_dirs by (simp add: fdot3_def vzero_def fle_def feq_def)
  note zn = zero_normal_undefined(3) [of awayPos defaultLight defaultMaterial]
    zero_normal_undefined(4) [of awayPos awayView defaultLight defaultMaterial]
  from h d sp n ph go am z zn show ?thesis by blast
qed

text \<open>
  Claim C5, amended. Let \<open>N\<close> be the normalized normal, \<open>L\<close> the normalized
  direction from the fragment to the light and \<open>H\<close> the normalized halfway
  vector of \<open>L\<close> and the view direction, as the shader computes them in binary32.
  If the dot product of \<open>N\<close> and \<open>L\<close> is at most 0 (which a NaN is not) and the
  componentwise product of \<open>light.color\<close> and \<open>material.diffuse\<close> is finite, the
  diffuse term is the zero vector and both shading functions return the colour
  computed with the zero vector in its place. If the shininess is positive,
  the dot product of \<open>N\<close> and \<open>H\<close> is at most 0 and the componentwise product of
  \<open>light.color\<close> and \<open>material.specular\<close> is finite, the same holds of the
  specular term. The ambient term is the componentwise binary32 product of
  \<open>light.ambient\<close> and \<open>material.ambient\<close>, whatever the positions and the normal.
\<close>

theorem lighting_boundary:
  "(fle (fdot3 (normalOf nrm0) (lightDirOf pos light)) (Fin 0)
    \<and> finite3 (vmul (lcolor light) (mdiffuse material)) \<longrightarrow>
      calculateDiffuse (lightDirOf pos light) (normalOf nrm0) light material = vzero
      \<and> computePhongShading pos nrm0 viewPos light material
          = vec3ToColor (clamp3 (vadd (vadd (calculateAmbient light material) vzero)
              (calculateSpecular (lightDirOf pos light) (normalOf nrm0) (viewDirOf pos viewPos)
                 light material)) (Fin 0) (Fin 1))
      \<and> computeGouraudShading pos nrm0 viewPos light material
          = vec3ToColor (clamp3 (vadd (vadd (calculateAmbient light material) vzero)
              (calculateSpecular (lightDirOf pos light) (normalOf nrm0) (viewDirOf pos viewPos)
                 light material)) (Fin 0) (Fin 1)))
   \<and> (flt (Fin 0) (shininess material)
       \<and> fle (fdot3 (normalOf nrm0) (halfwayOf pos viewPos light)) (Fin 0)
       \<and> finite3 (vmul (lcolor light) (mspecular material)) \<longrightarrow>
      calculateSpecular (lightDirOf pos light) (normalOf nrm0) (viewDirOf pos viewPos)
         light material = vzero
      \<and> computePhongShading pos nrm0 viewPos light material
          = vec3ToColor (clamp3 (vadd (vadd (calculateAmbient light material)
              (calculateDiffuse (lightDirOf pos light) (normalOf nrm0) light material)) vzero)
              (Fin 0) (Fin 1))
      \<and> computeGouraudShading pos nrm0 viewPos light material
          = vec3ToColor (clamp3 (vadd (vadd (calculateAmbient light material)
              (calculateDiffuse (lightDirOf pos light) (normalOf nrm0) light material)) vzero)
              (Fin 0) (Fin 1)))
   \<and> calculateAmbient light material
        = \<lparr>fx = fmul (fx (lambient light)) (fx (mambient material)),
           fy = fmul (fy (lambient light)) (fy (mambient material)),
           fz = fmul (fz (lambient light)) (fz (mambient material))\<rparr>"
proof (intro conjI impI)
  assume a: "fle (fdot3 (normalOf nrm0) (lightDirOf pos light)) (Fin 0)
    \<and> finite3 (vmul (lcolor light) (mdiffuse material))"
  then show z: "calculateDiffuse (lightDirOf pos light) (normalOf nrm0) light material = vzero"
    by (intro calculateDiffuse_zero) simp_all
  from z show "computePhongShading pos nrm0 viewPos light material
          = vec3ToColor (clamp3 (vadd (vadd (calculateAmbient light material) vzero)
              (calculateSpecular (lightDirOf pos light) (normalOf nrm0) (viewDirOf pos viewPos)
                 light material)) (Fin 0) (Fin 1))"
    by (simp add: computePhongShading_def Let_def normalOf_def lightDirOf_def viewDirOf_def)
  from z show "computeGouraudShading pos nrm0 viewPos light material
          = vec3ToColor (clamp3 (vadd (vadd (calculateAmbient light material) vzero)
              (calculateSpecular (lightDirOf pos light) (normalOf nrm0) (viewDirOf pos viewPos)
                 light material)) (Fin 0) (Fin 1))"
    by (simp add: computeGouraudShading_def Let_def normalOf_def lightDirOf_def viewDirOf_def)
next
  assume a: "flt (Fin 0) (shininess material)
       \<and> fle (fdot3 (normalOf nrm0) (halfwayOf pos viewPos light)) (Fin 0)
       \<and> finite3 (vmul (lcolor light) (mspecular material))"
  then show z: "calculateSpecular (lightDirOf pos light) (normalOf nrm0) (viewDirOf pos viewPos)
         light material = vzero"
    by (intro calculateSpecular_zero) (simp_all add: halfwayOf_def)
  from z show "computePhongShading pos nrm0 viewPos light material
          = vec3ToColor (clamp3 (vadd (vadd (calculateAmbient light material)
              (calculateDiffuse (lightDirOf pos light) (normalOf nrm0) light material)) vzero)
              (Fin 0) (Fin 1))"
    by (simp add: computePhongShading_def Let_def normalOf_def lightDirOf_def viewDirOf_def)
  from z show "computeGouraudShading pos nrm0 viewPos light material
          = vec3ToColor (clamp3 (vadd (vadd (calculateAmbient light material)
              (calculateDiffuse (lightDirOf pos light) (normalOf nrm0) light material)) vzero)
              (Fin 0) (Fin 1))"
    by (simp add: computeGouraudShading_def Let_def normalOf_def lightDirOf_def viewDirOf_def)
next
  show "calculateAmbient light material
        = \<lparr>fx = fmul (fx (lambient light)) (fx (mambient material)),
           fy = fmul (fy (lambient light)) (fy (mambient material)),
           fz = fmul (fz (lambient light)) (fz (mambient material))\<rparr>"
    by (simp add: calculateAmbient_def vmul_def)
qed

theorem lighting_boundary_witness:
  "fle (fdot3 (normalOf awayNormal) (lightDirOf awayPos defaultLight)) (Fin 0)
   \<and> finite3 (vmul (lcolor defaultLight) (mdiffuse defaultMaterial))
   \<and> flt (Fin 0) (shininess defaultMaterial)
   \<and> fle (fdot3 (normalOf awayNormal) (halfwayOf awayPos awayView defaultLight)) (Fin 0)
   \<and> finite3 (vmul (lcolor defaultLight) (mspecular defaultMaterial))
   \<and> calculateDiffuse (lightDirOf awayPos defaultLight) (normalOf awayNormal)
        defaultLight defaultMaterial = vzero
   \<and> calculateSpecular (lightDirOf awayPos defaultLight) (normalOf awayNormal)
        (viewDirOf awayPos awayView) defaultLight defaultMaterial = vzero
   \<and> computePhongShading awayPos awayNormal awayView defaultLight defaultMaterial
        = Some (mkColor 10 10 10)"
proof -
  have h1: "fle (fdot3 (normalOf awayNormal) (lightDirOf awayPos defaultLight)) (Fin 0)
     \<and> finite3 (vmul (lcolor defaultLight) (mdiffuse defaultMaterial))"
    unfolding away_dots
    by (simp add: fle_def finite3_def isFin_def vmul_def defaultLight_def defaultMaterial_def
        splat_def literal_0_8) (simp add: round32_eval)
  have h2: "flt (Fin 0) (shininess defaultMaterial)
     \<and> fle (fdot3 (normalOf awayNormal) (halfwayOf awayPos awayView defaultLight)) (Fin 0)
     \<and> finite3 (vmul (lcolor defaultLight) (mspecular defaultMaterial))"
    unfolding away_dots
    by (simp add: fle_def finite3_def isFin_def vmul_def defaultLight_def defaultMaterial_def
        splat_def)
  note t = lighting_boundary [of awayNormal awayPos defaultLight defaultMaterial awayView]
  from t h1 have d: "calculateDiffuse (lightDirOf awayPos defaultLight) (normalOf awayNormal)
        defaultLight defaultMaterial = vzero"
    and ph: "computePhongShading awayPos awayNormal awayView defaultLight defaultMaterial
          = vec3ToColor (clamp3 (vadd (vadd (calculateAmbient defaultLight defaultMaterial) vzero)
              (calculateSpecular (lightDirOf awayPos defaultLight) (normalOf awayNormal)
                 (viewDirOf awayPos awayView) defaultLight defaultMaterial)) (Fin 0) (Fin 1))"
    by blast+
  from t h2 have sp: "calculateSpecular (lightDirOf awayPos defaultLight) (normalOf awayNormal)
        (viewDirOf awayPos awayView) defaultLight defaultMaterial = vzero"
    by blast
  have "vadd (vadd (splat (Fin (10737419 / 268435456))) vzero) vzero
      = splat (Fin (10737419 / 268435456))"
    by (simp add: vadd_def vzero_def splat_def) (simp add: round32_eval)
  then have "computePhongShading awayPos awayNormal awayView defaultLight defaultMaterial
      = Some (mkColor 10 10 10)"
    unfolding ph sp ambient_default by (simp add: ambient_colour)
  with h1 h2 d sp show ?thesis by simp
qed

section \<open>The depth of a sliver triangle (C1)\<close>

lemma ceiling_eighth: "\<lceil>1 / 8 :: real\<rceil> = 1"
  by (rule ceiling_unique) simp_all

lemma scanline32_empty: "xEnd \<le> x \<Longrightarrow> scanline32 x xEnd y v1 v2 v3 = Inr []"
  by (simp add: scanline32.simps)

lemma thenCalls_Nil [simp]: "thenCalls (Inr []) q = q" "thenCalls (Inr ks) (Inr []) = Inr ks"
  by (simp_all add: thenCalls_def split: sum.splits)

text \<open>
  The sliver is sorted as given and its two lower vertices have the same
  height, so \<^const>\<open>drawTriangle32\<close> fills it as a flat-bottom triangle.
\<close>

lemma sliver_sorted:
  "sortByY32 [sliverVertex (- 6 + 3 / 2 ^ 21) (1 / 8) z c,
       sliverVertex (8 - 3 / 2 ^ 21) (33 / 8) z c,
       sliverVertex (8 - 2 / 2 ^ 21) (33 / 8) z c]
   = [sliverVertex (- 6 + 3 / 2 ^ 21) (1 / 8) z c,
       sliverVertex (8 - 3 / 2 ^ 21) (33 / 8) z c,
       sliverVertex (8 - 2 / 2 ^ 21) (33 / 8) z c]"
  by (simp add: sortByY32_def height32_def sliverVertex_def)

lemma sliver_fill:
  "sliver z c = fillFlatBottomTriangle32 (sliverVertex (- 6 + 3 / 2 ^ 21) (1 / 8) z c)
       (sliverVertex (8 - 3 / 2 ^ 21) (33 / 8) z c)
       (sliverVertex (8 - 2 / 2 ^ 21) (33 / 8) z c) False"
  unfolding sliver_def drawTriangle32_def sliver_sorted
  by (simp add: sortUndefined_def height32_def sliverVertex_def feq_def Let_def)

text \<open>
  The rows 1 to 4 of the fill, with the two edge positions of each row: only in
  row 3 do the edges enclose a pixel, the pixel \<open>(1, 3)\<close>.
\<close>

lemma sliver_rows:
  "fillFlatBottomTriangle32 (sliverVertex (- 6 + 3 / 2 ^ 21) (1 / 8) z c)
       (sliverVertex (8 - 3 / 2 ^ 21) (33 / 8) z c)
       (sliverVertex (8 - 2 / 2 ^ 21) (33 / 8) z c) False
   = flatBottomRows32 1 5 (Fin (- (12582909 / 2097152))) (Fin (- (12582909 / 2097152)))
       (Fin (14680061 / 4194304)) (Fin (7340031 / 2097152))
       (sliverVertex (- 6 + 3 / 2 ^ 21) (1 / 8) z c)
       (sliverVertex (8 - 3 / 2 ^ 21) (33 / 8) z c)
       (sliverVertex (8 - 2 / 2 ^ 21) (33 / 8) z c)"
  apply (simp add: fillFlatBottomTriangle32_def sliverVertex_def fsub_def Let_def truncToInt_def
      ceiling_eighth)
  apply (simp add: round32_eval)
  done

lemma sliver_row1:
  "flatBottomRows32 1 5 (Fin (- (12582909 / 2097152))) (Fin (- (12582909 / 2097152)))
       (Fin (14680061 / 4194304)) (Fin (7340031 / 2097152)) v1 v2 v3
   = flatBottomRows32 2 5 (Fin (- (10485757 / 4194304))) (Fin (- (2621439 / 1048576)))
       (Fin (14680061 / 4194304)) (Fin (7340031 / 2097152)) v1 v2 v3"
  apply (subst flatBottomRows32.simps)
  apply (simp add: truncToInt_def scanline32_empty)
  apply (simp add: round32_eval)
  done

lemma sliver_row2:
  "flatBottomRows32 2 5 (Fin (- (10485757 / 4194304))) (Fin (- (2621439 / 1048576)))
       (Fin (14680061 / 4194304)) (Fin (7340031 / 2097152)) v1 v2 v3
   = flatBottomRows32 3 5 (Fin 1) (Fin (2097153 / 2097152))
       (Fin (14680061 / 4194304)) (Fin (7340031 / 2097152)) v1 v2 v3"
  apply (subst flatBottomRows32.simps)
  apply (simp add: truncToInt_def scanline32_empty)
  apply (simp add: round32_eval)
  done

lemma sliver_row3:
  "flatBottomRows32 3 5 (Fin 1) (Fin (2097153 / 2097152))
       (Fin (14680061 / 4194304)) (Fin (7340031 / 2097152)) v1 v2 v3
   = thenCalls (scanline32 1 2 3 v1 v2 v3)
       (flatBottomRows32 4 5 (Fin (4718591 / 1048576)) (Fin (9 / 2))
          (Fin (14680061 / 4194304)) (Fin (7340031 / 2097152)) v1 v2 v3)"
  apply (subst flatBottomRows32.simps)
  apply (simp add: truncToInt_def)
  apply (simp add: round32_eval)
  done

lemma sliver_row4:
  "flatBottomRows32 4 5 (Fin (4718591 / 1048576)) (Fin (9 / 2))
       (Fin (14680061 / 4194304)) (Fin (7340031 / 2097152)) v1 v2 v3 = Inr []"
  apply (subst flatBottomRows32.simps)
  apply (simp add: truncToInt_def scanline32_empty)
  apply (subst flatBottomRows32.simps)
  apply simp
  done

lemma sliver_scanline:
  assumes "shadePixel32 v1 v2 v3 1 3 = Inr k"
  shows "scanline32 1 2 3 v1 v2 v3 = Inr [k]"
  apply (subst scanline32.simps)
  apply (simp add: assms)
  apply (subst scanline32.simps)
  apply simp
  done

lemma sliver_calls:
  assumes "shadePixel32 (sliverVertex (- 6 + 3 / 2 ^ 21) (1 / 8) z c)
       (sliverVertex (8 - 3 / 2 ^ 21) (33 / 8) z c)
       (sliverVertex (8 - 2 / 2 ^ 21) (33 / 8) z c) 1 3 = Inr k"
  shows "sliver z c = Inr [k]"
  unfolding sliver_fill sliver_rows sliver_row1 sliver_row2 sliver_row3 sliver_row4
    sliver_scanline [OF assms]
  by simp

text \<open>
  The weights of the pixel \<open>(1, 3)\<close>. The denominator is \<open>- 2^-19\<close>, beyond the
  threshold \<^verbatim>\<open>1e-6f\<close> of the guard for degenerate triangles; the second and
  the third weight are about \<open>6.4 * 10^6\<close> in size, and the three weights sum to
  \<open>25/32\<close>, not to 1.
\<close>

lemma sliver_weights:
  "computeBarycentric32 (floatOfInt 1) (floatOfInt 3)
     (screenXY32 (sliverVertex (- 6 + 3 / 2 ^ 21) (1 / 8) z c))
     (screenXY32 (sliverVertex (8 - 3 / 2 ^ 21) (33 / 8) z c))
     (screenXY32 (sliverVertex (8 - 2 / 2 ^ 21) (33 / 8) z c))
   = \<lparr>fx = Fin (9 / 32), fy = Fin 6422527, fz = Fin (- (12845053 / 2))\<rparr>"
  apply (simp add: computeBarycentric32_def screenXY32_def sliverVertex_def floatOfInt_def
      fsub_def Let_def)
  apply (simp add: round32_eval)
  done

lemma sliver_near_pixel:
  "shadePixel32 (sliverVertex (- 6 + 3 / 2 ^ 21) (1 / 8) (round32 (2 / 10)) (mkColor 64 0 0))
       (sliverVertex (8 - 3 / 2 ^ 21) (33 / 8) (round32 (2 / 10)) (mkColor 64 0 0))
       (sliverVertex (8 - 2 / 2 ^ 21) (33 / 8) (round32 (2 / 10)) (mkColor 64 0 0)) 1 3
   = Inr (SetPixelWithDepth32 1 3 (Fin 0) (mkColor 64 0 0))"
  unfolding shadePixel32_def sliver_weights
  apply (simp add: sliverVertex_def literal_0_2 weighted_def chan32_def mkColor_def Let_def)
  apply (simp add: round32_eval)
  apply (simp add: truncToInt_def mkColor_def)
  done

lemma sliver_far_pixel:
  "shadePixel32 (sliverVertex (- 6 + 3 / 2 ^ 21) (1 / 8) (round32 (8 / 10)) (mkColor 0 64 0))
       (sliverVertex (8 - 3 / 2 ^ 21) (33 / 8) (round32 (8 / 10)) (mkColor 0 64 0))
       (sliverVertex (8 - 2 / 2 ^ 21) (33 / 8) (round32 (8 / 10)) (mkColor 0 64 0)) 1 3
   = Inr (SetPixelWithDepth32 1 3 (Fin 0) (mkColor 0 64 0))"
  unfolding shadePixel32_def sliver_weights
  apply (simp add: sliverVertex_def literal_0_8 weighted_def chan32_def mkColor_def Let_def)
  apply (simp add: round32_eval)
  apply (simp add: truncToInt_def mkColor_def)
  done

text \<open>Of two calls at the depth 0 for one pixel of cleared buffers, the first one stays.\<close>

lemma first_at_depth_zero_stays:
  assumes "isInBounds s x y"
  shows "pixelAt (run32 [SetPixelWithDepth32 x y (Fin 0) c']
            (run32 [SetPixelWithDepth32 x y (Fin 0) c] (clearBuffers cc s))) x y = rgb c"
proof -
  let ?s0 = "clearBuffers cc s"
  let ?s1 = "setPixelWithDepth x y 0 c ?s0"
  have b0: "isInBounds ?s0 x y" using assms by (simp add: isInBounds_def)
  have "depthAt ?s0 x y = 1" using assms by (simp add: clearBuffers_pixel)
  then have lt: "0 < depthAt ?s0 x y" by simp
  from setPixelWithDepth_same(1) [OF b0 lt, of c]
  have s1: "pixelAt ?s1 x y = rgb c" "depthAt ?s1 x y = 0" by simp_all
  have b1: "isInBounds ?s1 x y"
    using assms by (simp add: isInBounds_def setPixelWithDepth_def Let_def)
  have "\<not> 0 < depthAt ?s1 x y" using s1 by simp
  from setPixelWithDepth_same(2) [OF b1 this, of c']
  have "setPixelWithDepth x y 0 c' ?s1 = ?s1" .
  then have "run32 [SetPixelWithDepth32 x y (Fin 0) c']
            (run32 [SetPixelWithDepth32 x y (Fin 0) c] ?s0) = ?s1"
    by (simp add: run32_def setPixelWithDepth32_def)
  with s1 show ?thesis by simp
qed

text \<open>
  Claim C1 fails on the binary32 fill. The two slivers have the same three
  screen positions; the near one has the depth \<^verbatim>\<open>0.2f\<close> and the colour
  \<open>(64, 0, 0)\<close> at every vertex, the far one the depth \<^verbatim>\<open>0.8f\<close> and the colour
  \<open>(0, 64, 0)\<close>. Each fill covers the one pixel \<open>(1, 3)\<close>, and each interpolates
  the depth 0 for it, not 0.2 and not 0.8: with weights of the size of
  \<open>6.4 * 10^6\<close> the sum of the three weighted depths cancels to 0. On the cleared
  8 by 8 rasterizer the triangle drawn first therefore keeps the pixel: after
  far and then near it shows the far colour, after near and then far the near
  colour, and the two orders end in different frame buffers.
\<close>

theorem sliver_depth_collapses:
  "sliver (round32 (2 / 10)) (mkColor 64 0 0)
     = Inr [SetPixelWithDepth32 1 3 (Fin 0) (mkColor 64 0 0)]
   \<and> sliver (round32 (8 / 10)) (mkColor 0 64 0)
     = Inr [SetPixelWithDepth32 1 3 (Fin 0) (mkColor 0 64 0)]
   \<and> pixelAt (run32 [SetPixelWithDepth32 1 3 (Fin 0) (mkColor 64 0 0)]
         (run32 [SetPixelWithDepth32 1 3 (Fin 0) (mkColor 0 64 0)]
            (clearBuffers (mkColor 0 0 0) raster8))) 1 3 = (0, 64, 0)
   \<and> pixelAt (run32 [SetPixelWithDepth32 1 3 (Fin 0) (mkColor 0 64 0)]
         (run32 [SetPixelWithDepth32 1 3 (Fin 0) (mkColor 64 0 0)]
            (clearBuffers (mkColor 0 0 0) raster8))) 1 3 = (64, 0, 0)"
proof -
  have b: "isInBounds raster8 1 3" by (simp add: isInBounds_def raster8_def)
  note n = sliver_calls [OF sliver_near_pixel]
  note f = sliver_calls [OF sliver_far_pixel]
  from n f first_at_depth_zero_stays [OF b, of "mkColor 64 0 0" "mkColor 0 64 0" "mkColor 0 0 0"]
    first_at_depth_zero_stays [OF b, of "mkColor 0 64 0" "mkColor 64 0 0" "mkColor 0 0 0"]
  show ?thesis by (simp add: rgb_def mkColor_def)
qed

section \<open>The clipping loop on binary32 values (C6)\<close>

text \<open>
  The first pass clips the second endpoint \<open>(-1, -1)\<close> at the bottom side. The
  difference \<open>yMin - y1\<close> of \<^verbatim>\<open>0.2f\<close> and \<^verbatim>\<open>5.2f\<close> rounds to \<open>-5\<close>, and the new \<open>x\<close>
  is \<open>5.2f - 5\<close>, one unit in the last place of \<^verbatim>\<open>5.2f\<close> below \<^verbatim>\<open>0.2f\<close>: the
  clipped endpoint is left of the window.
\<close>

lemma clip_first_pass:
  "clipStep32 f0_2 f0_2 (Fin 10) (Fin 10)
     \<lparr>qx1 = f5_2, qy1 = f5_2, qx2 = Fin (- 1), qy2 = Fin (- 1),
      qcode1 = computeOutCode32 f5_2 f5_2 f0_2 f0_2 (Fin 10) (Fin 10),
      qcode2 = computeOutCode32 (Fin (- 1)) (Fin (- 1)) f0_2 f0_2 (Fin 10) (Fin 10)\<rparr>
   = Inr cycleA"
  unfolding f5_2_val f0_2_val cycleA_def belowCorner_def
  apply (simp add: clipStep32_def intersect32_def computeOutCode32_def fgt_def fsub_def
      clip_consts Let_def)
  apply (simp add: round32_eval)
  done

text \<open>
  Clipping at the left side puts the endpoint below the window, and clipping
  at the bottom side puts it left of the window again.
\<close>

lemma cycleA_step: "clipStep32 f0_2 f0_2 (Fin 10) (Fin 10) cycleA = Inr cycleB"
  unfolding f5_2_val f0_2_val cycleA_def cycleB_def belowCorner_def
  apply (simp add: clipStep32_def intersect32_def computeOutCode32_def fgt_def fsub_def
      clip_consts Let_def)
  apply (simp add: round32_eval)
  done

lemma cycleB_step: "clipStep32 f0_2 f0_2 (Fin 10) (Fin 10) cycleB = Inr cycleA"
  unfolding f5_2_val f0_2_val cycleA_def cycleB_def belowCorner_def
  apply (simp add: clipStep32_def intersect32_def computeOutCode32_def fgt_def fsub_def
      clip_consts Let_def)
  apply (simp add: round32_eval)
  done

lemma cycle_codes:
  "(qcode1 cycleA OR qcode2 cycleA) \<noteq> 0" "qcode1 cycleA AND qcode2 cycleA = 0"
  "(qcode1 cycleB OR qcode2 cycleB) \<noteq> 0" "qcode1 cycleB AND qcode2 cycleB = 0"
  by (simp_all add: cycleA_def cycleB_def clip_consts)

lemma cycle_forever:
  "clipLoop32 n f0_2 f0_2 (Fin 10) (Fin 10) cycleA = StillClipping32
   \<and> clipLoop32 n f0_2 f0_2 (Fin 10) (Fin 10) cycleB = StillClipping32"
proof (induction n)
  case 0
  show ?case by (simp add: cycle_codes)
next
  case (Suc n)
  then show ?case by (simp add: cycle_codes cycleA_step cycleB_step)
qed

text \<open>
  On the same segment and window, taken as exact reals, the loop of
  \<^const>\<open>clipLine\<close> accepts after one pass: the bottom side is met in the corner of
  the window.
\<close>

lemma exact_clip_same_segment:
  "clipLine 1 (5452595 / 1048576) (5452595 / 1048576) (- 1) (- 1)
       (13421773 / 67108864) (13421773 / 67108864) 10 10
     = Finished True (5452595 / 1048576) (5452595 / 1048576)
         (13421773 / 67108864) (13421773 / 67108864)"
  by (simp add: clipLine_def clipStep_def intersect_def computeOutCode_def clip_consts Let_def)

text \<open>
  Claim C6 fails on the binary32 code. For the segment from \<open>(5.2, 5.2)\<close> to
  \<open>(-1, -1)\<close> and the window from \<open>(0.2, 0.2)\<close> to \<open>(10, 10)\<close>, all finite and with
  \<open>xMin < xMax\<close> and \<open>yMin < yMax\<close>, the loop of \<^verbatim>\<open>clipLine\<close> has not left after
  any number of passes: from the first pass on the second endpoint alternates
  between a position left of the window and one below it.
\<close>

theorem clipLine_cycles:
  "flt f0_2 (Fin 10)
   \<and> (\<forall>passes. clipLine32 passes f5_2 f5_2 (Fin (- 1)) (Fin (- 1)) f0_2 f0_2 (Fin 10) (Fin 10)
         = StillClipping32)"
proof -
  have b: "flt f0_2 (Fin 10)"
    by (simp add: f0_2_val)
  have c: "computeOutCode32 f5_2 f5_2 f0_2 f0_2 (Fin 10) (Fin 10) = 0"
    "computeOutCode32 (Fin (- 1)) (Fin (- 1)) f0_2 f0_2 (Fin 10) (Fin 10) = 5"
    by (simp_all add: f5_2_val f0_2_val computeOutCode32_def fgt_def clip_consts Let_def)
  have "clipLine32 passes f5_2 f5_2 (Fin (- 1)) (Fin (- 1)) f0_2 f0_2 (Fin 10) (Fin 10)
         = StillClipping32" for passes
  proof (cases passes)
    case 0
    then show ?thesis by (simp add: clipLine32_def c)
  next
    case (Suc n)
    have "clipLoop32 (Suc n) f0_2 f0_2 (Fin 10) (Fin 10)
       \<lparr>qx1 = f5_2, qy1 = f5_2, qx2 = Fin (- 1), qy2 = Fin (- 1),
        qcode1 = computeOutCode32 f5_2 f5_2 f0_2 f0_2 (Fin 10) (Fin 10),
        qcode2 = computeOutCode32 (Fin (- 1)) (Fin (- 1)) f0_2 f0_2 (Fin 10) (Fin 10)\<rparr>
      = clipLoop32 n f0_2 f0_2 (Fin 10) (Fin 10) cycleA"
      unfolding clipLoop32.simps clip_first_pass by (simp add: c)
    with Suc cycle_forever [of n] show ?thesis by (simp add: clipLine32_def)
  qed
  with b show ?thesis by blast
qed

end
